theory Spec2Isabelle
  imports Complex_Main "HOL-Library.Monad_Syntax"
begin

section \<open>Data model\<close>

subsection \<open>Locations and diagnostics\<close>

text \<open>\<^verbatim>\<open>TSourceLoc\<close>: the string index and the line of a token.\<close>

record TSourceLoc =
  loc_string :: int
  loc_line :: int

datatype TPrefixType = EPrefixError | EPrefixWarning

text \<open>The variadic arguments of \<^verbatim>\<open>error\<close> and \<^verbatim>\<open>warn\<close>; the format string is kept
  unexpanded next to them.\<close>

datatype TFormatArg = ArgInt int | ArgStr string

record TDiag =
  dPrefix :: TPrefixType
  dLoc :: "TSourceLoc option"
  dToken :: string
  dReason :: string
  dExtraInfoFormat :: string
  dExtraArgs :: "TFormatArg list"

subsection \<open>Types and qualifiers\<close>

text \<open>The enumerations are declared in headers that are not part of the source file; their
  members are the ones the source file names, completed from the specification's data model.
  \<open>EvqOther\<close> stands for the storage classes of built-in variables that the source file never
  names.\<close>

datatype TBasicType =
  EbtVoid | EbtFloat | EbtDouble | EbtInt | EbtUint | EbtBool | EbtSampler | EbtStruct | EbtBlock
  | EbtAtomicCounter

datatype TStorageQualifier =
  EvqTemporary | EvqGlobal | EvqConst | EvqConstReadOnly | EvqIn | EvqOut | EvqInOut
  | EvqVaryingIn | EvqVaryingOut | EvqUniform | EvqBuffer | EvqShared
  | EvqPointCoord | EvqVertexId | EvqInstanceId | EvqFragCoord | EvqFace
  | EvqOther nat

datatype TPrecisionQualifier = EpqNone | EpqLow | EpqMedium | EpqHigh

datatype TLayoutMatrix = ElmNone | ElmRowMajor | ElmColumnMajor

datatype TLayoutPacking = ElpNone | ElpPacked | ElpShared | ElpStd140 | ElpStd430

record TQualifier =
  storage :: TStorageQualifier
  precision :: TPrecisionQualifier
  invariant :: bool
  centroid :: bool
  smooth :: bool
  flat :: bool
  nopersp :: bool
  patch :: bool
  sample :: bool
  shared :: bool
  coherent :: bool
  volatil :: bool
  restrict :: bool
  readonly :: bool
  writeonly :: bool
  layoutMatrix :: TLayoutMatrix
  layoutPacking :: TLayoutPacking
  layoutSlotLocation :: nat
  layoutBinding :: nat

text \<open>The sentinels of an unset location and an unset binding are constants of the qualifier's
  declaration; they are parameters of everything that reads them.\<close>

record TLayoutSentinels =
  layoutLocationEnd :: nat
  layoutBindingEnd :: nat

definition hasLocation :: "TLayoutSentinels \<Rightarrow> TQualifier \<Rightarrow> bool" where
  "hasLocation k q = (layoutSlotLocation q \<noteq> layoutLocationEnd k)"

definition hasBinding :: "TLayoutSentinels \<Rightarrow> TQualifier \<Rightarrow> bool" where
  "hasBinding k q = (layoutBinding q \<noteq> layoutBindingEnd k)"

text \<open>Modelled from the spec: the auxiliary flags are centroid, patch and sample, the
  interpolation flags are flat, smooth and noperspective (the declaration of
  \<^verbatim>\<open>TQualifier::isAuxiliary\<close> and \<^verbatim>\<open>isInterpolation\<close> is missing; the two error messages of
  \<^verbatim>\<open>mergeQualifiers\<close> list the same members).\<close>

definition isAuxiliary :: "TQualifier \<Rightarrow> bool" where
  "isAuxiliary q = (centroid q \<or> patch q \<or> sample q)"

definition isInterpolation :: "TQualifier \<Rightarrow> bool" where
  "isInterpolation q = (flat q \<or> smooth q \<or> nopersp q)"

text \<open>Modelled from the spec: \<^verbatim>\<open>TQualifier::clear\<close>, the qualifier with temporary storage, no
  precision, no flag and every layout field at its sentinel.\<close>

definition clearQualifier :: "TLayoutSentinels \<Rightarrow> TQualifier" where
  "clearQualifier k =
     \<lparr> storage = EvqTemporary, precision = EpqNone, invariant = False, centroid = False,
       smooth = False, flat = False, nopersp = False, patch = False, sample = False,
       shared = False, coherent = False, volatil = False, restrict = False, readonly = False,
       writeonly = False, layoutMatrix = ElmNone, layoutPacking = ElpNone,
       layoutSlotLocation = layoutLocationEnd k, layoutBinding = layoutBindingEnd k \<rparr>"

text \<open>Array sizes: size 0 is an unsized array; \<open>maxArraySize\<close> is the largest index seen so
  far plus one.\<close>

record TArraySizes =
  arraySize :: int
  maxArraySize :: int

text \<open>\<^verbatim>\<open>TType\<close>. A null \<^verbatim>\<open>arraySizes\<close> pointer (\<open>None\<close>) is a non-array; a null field list is
  a non-struct.\<close>

datatype TType = TType
  (basicType: TBasicType) (qualifier: TQualifier) (vectorSize: int) (matrixCols: int)
  (matrixRows: int) (arraySizes: "TArraySizes option") (structFields: "TType list option")
  (fieldName: string)

text \<open>Modelled from the spec: the constructor \<^verbatim>\<open>TType(basic, storage, vectorSize)\<close> with its
  defaults (temporary storage, vector size 1, no matrix, no array, no struct), and the
  constructor that also takes a precision.\<close>

definition mkType :: "TLayoutSentinels \<Rightarrow> TBasicType \<Rightarrow> TStorageQualifier \<Rightarrow> int \<Rightarrow> TType" where
  "mkType k t q vs = TType t ((clearQualifier k)\<lparr>storage := q\<rparr>) vs 0 0 None None []"

definition mkTypeP ::
  "TLayoutSentinels \<Rightarrow> TBasicType \<Rightarrow> TStorageQualifier \<Rightarrow> TPrecisionQualifier \<Rightarrow> int \<Rightarrow> TType" where
  "mkTypeP k t q p vs =
     TType t ((clearQualifier k)\<lparr>storage := q, precision := p\<rparr>) vs 0 0 None None []"

text \<open>Modelled from the spec: the shape predicates of the type model (\<^verbatim>\<open>isArray\<close>,
  \<^verbatim>\<open>isMatrix\<close>, \<^verbatim>\<open>isVector\<close>, \<^verbatim>\<open>isScalar\<close>), \<^verbatim>\<open>getArraySize\<close>, \<^verbatim>\<open>getMaxArraySize\<close> and
  \<^verbatim>\<open>dereference\<close>, which reduces the outer dimension: array to element, matrix to column,
  vector to scalar.\<close>

definition isArray :: "TType \<Rightarrow> bool" where
  "isArray t = (arraySizes t \<noteq> None)"

definition isMatrix :: "TType \<Rightarrow> bool" where
  "isMatrix t = (matrixCols t > 0)"

definition isVector :: "TType \<Rightarrow> bool" where
  "isVector t = (vectorSize t > 1)"

definition isScalar :: "TType \<Rightarrow> bool" where
  "isScalar t = (vectorSize t = 1 \<and> structFields t = None \<and> \<not> isArray t)"

definition getArraySize :: "TType \<Rightarrow> int option" where
  "getArraySize t = map_option arraySize (arraySizes t)"

definition getMaxArraySize :: "TType \<Rightarrow> int option" where
  "getMaxArraySize t = map_option maxArraySize (arraySizes t)"

definition setStorage :: "TStorageQualifier \<Rightarrow> TType \<Rightarrow> TType" where
  "setStorage s t =
     TType (basicType t) ((qualifier t)\<lparr>storage := s\<rparr>) (vectorSize t) (matrixCols t)
       (matrixRows t) (arraySizes t) (structFields t) (fieldName t)"

definition setPrecision :: "TPrecisionQualifier \<Rightarrow> TType \<Rightarrow> TType" where
  "setPrecision p t =
     TType (basicType t) ((qualifier t)\<lparr>precision := p\<rparr>) (vectorSize t) (matrixCols t)
       (matrixRows t) (arraySizes t) (structFields t) (fieldName t)"

definition setArraySizes :: "TArraySizes option \<Rightarrow> TType \<Rightarrow> TType" where
  "setArraySizes a t =
     TType (basicType t) (qualifier t) (vectorSize t) (matrixCols t)
       (matrixRows t) a (structFields t) (fieldName t)"

definition dereference :: "TType \<Rightarrow> TType" where
  "dereference t =
     (if arraySizes t \<noteq> None then setArraySizes None t
      else if matrixCols t > 0 then
        TType (basicType t) (qualifier t) (matrixRows t) 0 0 None (structFields t) (fieldName t)
      else if vectorSize t > 1 then
        TType (basicType t) (qualifier t) 1 0 0 None (structFields t) (fieldName t)
      else t)"

subsection \<open>Constants, operators and tree nodes\<close>

text \<open>\<^verbatim>\<open>TConstUnion\<close> is a tagged scalar over a union. \<^verbatim>\<open>getIConst\<close> on an unsigned value
  reads its 32 bits as a signed integer; on a boolean or a double it reads bytes that the model
  does not describe (\<open>None\<close>).\<close>

datatype TConstUnion = IConst int | UConst nat | DConst real | BConst bool

definition getIConst :: "TConstUnion \<Rightarrow> int option" where
  "getIConst c =
     (case c of
        IConst i \<Rightarrow> Some i
      | UConst u \<Rightarrow> if u < 2 ^ 31 then Some (int u) else if u < 2 ^ 32 then Some (int u - 2 ^ 32)
                   else None
      | _ \<Rightarrow> None)"

text \<open>The operators the source file names; \<open>EOpOther\<close> stands for the rest of the
  enumeration's members.\<close>

datatype TOperator =
  EOpNull | EOpSequence | EOpParameters | EOpFunctionCall
  | EOpIndexDirect | EOpIndexIndirect | EOpIndexDirectStruct | EOpVectorSwizzle
  | EOpAssign | EOpAddAssign | EOpSubAssign | EOpPostIncrement | EOpPostDecrement
  | EOpGreaterThan | EOpGreaterThanEqual | EOpLessThan | EOpLessThanEqual | EOpEqual
  | EOpNotEqual | EOpArrayLength | EOpCase | EOpDefault
  | EOpConstructStruct | EOpConstructFloat
  | EOpConstructMat2x2 | EOpConstructMat2x3 | EOpConstructMat2x4
  | EOpConstructMat3x2 | EOpConstructMat3x3 | EOpConstructMat3x4
  | EOpConstructMat4x2 | EOpConstructMat4x3 | EOpConstructMat4x4
  | EOpConstructDMat2x2 | EOpConstructDMat2x3 | EOpConstructDMat2x4
  | EOpConstructDMat3x2 | EOpConstructDMat3x3 | EOpConstructDMat3x4
  | EOpConstructDMat4x2 | EOpConstructDMat4x3 | EOpConstructDMat4x4
  | EOpOther nat

text \<open>The tree: the class hierarchy under \<^verbatim>\<open>TIntermNode\<close> as one datatype. The typed nodes
  are the symbol, the constant union, the binary, the unary, the aggregate and the method; the
  branch, the switch and the loop have no type.\<close>

datatype TIntermNode =
    IntermSymbol int string TType TSourceLoc
  | IntermConstantUnion "TConstUnion list" TType TSourceLoc
  | IntermBinary TOperator TIntermNode TIntermNode TType TSourceLoc
  | IntermUnary TOperator TIntermNode TType TSourceLoc
  | IntermAggregate TOperator "TIntermNode list" string bool "TStorageQualifier list" TType
      TSourceLoc
  | IntermMethod TIntermNode string TType TSourceLoc
  | IntermBranch TOperator "TIntermNode option" TSourceLoc
  | IntermSwitch "TIntermNode option" TIntermNode TSourceLoc
  | IntermLoop "TIntermNode option" "TIntermNode option" "TIntermNode option" TSourceLoc

fun getAsTyped :: "TIntermNode \<Rightarrow> TIntermNode option" where
  "getAsTyped (IntermBranch _ _ _) = None"
| "getAsTyped (IntermSwitch _ _ _) = None"
| "getAsTyped (IntermLoop _ _ _ _) = None"
| "getAsTyped n = Some n"

fun getType :: "TIntermNode \<Rightarrow> TType option" where
  "getType (IntermSymbol _ _ t _) = Some t"
| "getType (IntermConstantUnion _ t _) = Some t"
| "getType (IntermBinary _ _ _ t _) = Some t"
| "getType (IntermUnary _ _ t _) = Some t"
| "getType (IntermAggregate _ _ _ _ _ t _) = Some t"
| "getType (IntermMethod _ _ t _) = Some t"
| "getType _ = None"

fun setType :: "TType \<Rightarrow> TIntermNode \<Rightarrow> TIntermNode" where
  "setType t (IntermSymbol i n _ l) = IntermSymbol i n t l"
| "setType t (IntermConstantUnion c _ l) = IntermConstantUnion c t l"
| "setType t (IntermBinary op a b _ l) = IntermBinary op a b t l"
| "setType t (IntermUnary op a _ l) = IntermUnary op a t l"
| "setType t (IntermAggregate op s n u q _ l) = IntermAggregate op s n u q t l"
| "setType t (IntermMethod b n _ l) = IntermMethod b n t l"
| "setType t n = n"

fun getLoc :: "TIntermNode \<Rightarrow> TSourceLoc" where
  "getLoc (IntermSymbol _ _ _ l) = l"
| "getLoc (IntermConstantUnion _ _ l) = l"
| "getLoc (IntermBinary _ _ _ _ l) = l"
| "getLoc (IntermUnary _ _ _ l) = l"
| "getLoc (IntermAggregate _ _ _ _ _ _ l) = l"
| "getLoc (IntermMethod _ _ _ l) = l"
| "getLoc (IntermBranch _ _ l) = l"
| "getLoc (IntermSwitch _ _ l) = l"
| "getLoc (IntermLoop _ _ _ l) = l"

fun isSymbolNode :: "TIntermNode \<Rightarrow> bool" where
  "isSymbolNode (IntermSymbol _ _ _ _) = True"
| "isSymbolNode _ = False"

fun isConstantUnion :: "TIntermNode \<Rightarrow> bool" where
  "isConstantUnion (IntermConstantUnion _ _ _) = True"
| "isConstantUnion _ = False"

fun isBinaryNode :: "TIntermNode \<Rightarrow> bool" where
  "isBinaryNode (IntermBinary _ _ _ _ _) = True"
| "isBinaryNode _ = False"

fun getConstArray :: "TIntermNode \<Rightarrow> TConstUnion list option" where
  "getConstArray (IntermConstantUnion c _ _) = Some c"
| "getConstArray _ = None"

subsection \<open>Symbols and the symbol table\<close>

record TVariable =
  varName :: string
  varType :: TType
  varConstArray :: "TConstUnion list"
  varUniqueId :: int

record TParameter =
  paramName :: "string option"
  paramType :: TType

record TFunction =
  funName :: string
  funType :: TType
  funParams :: "TParameter list"
  funMangledName :: string
  funDefined :: bool
  funBuiltInOp :: TOperator

text \<open>A symbol is a variable, a function or a member of an anonymous block (its container and
  its member number); each carries the read-only flag of the built-in levels.\<close>

datatype TSymbol =
    SymVariable TVariable bool
  | SymFunction TFunction bool
  | SymAnonMember string TVariable nat bool

fun symName :: "TSymbol \<Rightarrow> string" where
  "symName (SymVariable v _) = varName v"
| "symName (SymFunction f _) = funMangledName f"
| "symName (SymAnonMember n _ _ _) = n"

fun isReadOnly :: "TSymbol \<Rightarrow> bool" where
  "isReadOnly (SymVariable _ r) = r"
| "isReadOnly (SymFunction _ r) = r"
| "isReadOnly (SymAnonMember _ _ _ r) = r"

fun makeWritable :: "TSymbol \<Rightarrow> TSymbol" where
  "makeWritable (SymVariable v _) = SymVariable v False"
| "makeWritable (SymFunction f _) = SymFunction f False"
| "makeWritable (SymAnonMember n c m _) = SymAnonMember n c m False"

fun getAsFunction :: "TSymbol \<Rightarrow> TFunction option" where
  "getAsFunction (SymFunction f _) = Some f"
| "getAsFunction _ = None"

fun getAsVariable :: "TSymbol \<Rightarrow> TVariable option" where
  "getAsVariable (SymVariable v _) = Some v"
| "getAsVariable _ = None"

text \<open>Modelled from the spec: the symbol table, whose implementation is missing. It is a stack
  of levels, the innermost last; the first \<open>builtInLevels\<close> levels hold the built-in symbols.
  \<^verbatim>\<open>find\<close> walks the levels from the innermost outwards and reports the level of the hit;
  \<^verbatim>\<open>insert\<close> fails when the name exists at the current level; \<^verbatim>\<open>copyUp\<close> puts a writable
  clone of a built-in symbol into the global level. \<open>nextUniqueId\<close> numbers the inserted
  symbols.\<close>

record TSymbolTable =
  levels :: "(string \<times> TSymbol) list list"
  builtInLevels :: nat
  nextUniqueId :: int

fun findFrom :: "(string \<times> TSymbol) list list \<Rightarrow> string \<Rightarrow> (nat \<times> TSymbol) option" where
  "findFrom [] n = None"
| "findFrom (l # ls) n =
     (case map_of l n of Some s \<Rightarrow> Some (length ls, s) | None \<Rightarrow> findFrom ls n)"

definition find :: "TSymbolTable \<Rightarrow> string \<Rightarrow> (nat \<times> TSymbol) option" where
  "find tbl n = findFrom (rev (levels tbl)) n"

definition foundBuiltIn :: "TSymbolTable \<Rightarrow> nat \<Rightarrow> bool" where
  "foundBuiltIn tbl lvl = (lvl < builtInLevels tbl)"

fun withUniqueId :: "int \<Rightarrow> TSymbol \<Rightarrow> TSymbol" where
  "withUniqueId i (SymVariable v r) = SymVariable (v\<lparr>varUniqueId := i\<rparr>) r"
| "withUniqueId i s = s"

definition insert_sym :: "TSymbol \<Rightarrow> TSymbolTable \<Rightarrow> bool \<times> TSymbol \<times> TSymbolTable" where
  "insert_sym s tbl =
     (let i = nextUniqueId tbl + 1; s' = withUniqueId i s; tbl' = tbl\<lparr>nextUniqueId := i\<rparr> in
      case rev (levels tbl) of
        [] \<Rightarrow> (False, s', tbl')
      | l # ls \<Rightarrow>
          (if map_of l (symName s') \<noteq> None then (False, s', tbl')
           else (True, s', tbl'\<lparr>levels := rev (((symName s', s') # l) # ls)\<rparr>)))"

definition putAt :: "nat \<Rightarrow> TSymbol \<Rightarrow> TSymbolTable \<Rightarrow> TSymbolTable" where
  "putAt lvl s tbl =
     tbl\<lparr>levels := (levels tbl)[lvl := (symName s, s) # (levels tbl ! lvl)]\<rparr>"

definition copyUp :: "TSymbol \<Rightarrow> TSymbolTable \<Rightarrow> (nat \<times> TSymbol) \<times> TSymbolTable" where
  "copyUp s tbl =
     (let c = makeWritable s in ((builtInLevels tbl, c), putAt (builtInLevels tbl) c tbl))"

subsection \<open>The parse context\<close>

datatype EProfile = ENoProfile | ECoreProfile | ECompatibilityProfile | EEsProfile

datatype EShLanguage =
  EShLangVertex | EShLangTessControl | EShLangTessEvaluation | EShLangGeometry
  | EShLangFragment | EShLangCompute

record TBuiltInLimits =
  generalAttributeMatrixVectorIndexing :: bool
  generalConstantMatrixVectorIndexing :: bool
  generalSamplerIndexing :: bool
  generalUniformIndexing :: bool
  generalVariableIndexing :: bool
  generalVaryingIndexing :: bool

text \<open>What \<^verbatim>\<open>parseShaderStrings\<close> hands to the preprocessor.\<close>

record TPpContext =
  ppPreamble :: "string option"
  ppStrings :: "string option list"
  ppLengths :: "nat list"
  ppNumStrings :: int

record TParseContext =
  symbolTable :: TSymbolTable
  infoSink :: "TDiag list"
  numErrors :: int
  version :: int
  profile :: EProfile
  language :: EShLanguage
  limits :: TBuiltInLimits
  anyIndexLimits :: bool
  needsIndexLimitationChecking :: "TIntermNode list"
  inductiveLoopIds :: "int set"
  switchSequenceStack :: "TIntermNode list list"
  preamble :: "string option"
  currentCaller :: string
  callGraph :: "(string \<times> string) list"
  sentinels :: TLayoutSentinels

text \<open>The constructor of the parse context, for the fields of this model. It leaves the limits
  and \<^verbatim>\<open>anyIndexLimits\<close> unset: they come in as \<open>lims\<close> and \<open>ail\<close>. An ES profile with a stage
  other than vertex or fragment puts a message without a location into the sink.\<close>

definition newParseContext ::
  "TSymbolTable \<Rightarrow> int \<Rightarrow> EProfile \<Rightarrow> EShLanguage \<Rightarrow> TDiag list \<Rightarrow> TBuiltInLimits \<Rightarrow> bool
     \<Rightarrow> TLayoutSentinels \<Rightarrow> TParseContext" where
  "newParseContext symt v p L sink lims ail k =
     \<lparr> symbolTable = symt,
       infoSink =
         (if p = EEsProfile \<and> L \<noteq> EShLangVertex \<and> L \<noteq> EShLangFragment then
            sink @ [\<lparr> dPrefix = EPrefixError, dLoc = None, dToken = [],
                      dReason = ''unexpected es-profile stage'', dExtraInfoFormat = [],
                      dExtraArgs = [] \<rparr>]
          else sink),
       numErrors = 0, version = v, profile = p, language = L, limits = lims,
       anyIndexLimits = ail, needsIndexLimitationChecking = [], inductiveLoopIds = {},
       switchSequenceStack = [], preamble = None, currentCaller = [], callGraph = [],
       sentinels = k \<rparr>"

text \<open>Functions and tables that the source file calls and that are defined elsewhere in the
  repository: the names of the enumerators, the feature gates (which may report an error and
  change nothing else that this model reads), the object size of a type, the storage classes
  of the qualifier's predicates, the parser proper, the checks of the limitation pass and the
  builders of constructor and built-in calls. They are parameters of the model.\<close>

record TExternals =
  GetStorageQualifierString :: "TStorageQualifier \<Rightarrow> string"
  GetPrecisionQualifierString :: "TPrecisionQualifier \<Rightarrow> string"
  getCompleteString :: "TType \<Rightarrow> string"
  requireProfile :: "TSourceLoc \<Rightarrow> EProfile set \<Rightarrow> string \<Rightarrow> TParseContext \<Rightarrow> TParseContext"
  profileRequires ::
    "TSourceLoc \<Rightarrow> EProfile set \<Rightarrow> int \<Rightarrow> string option \<Rightarrow> string \<Rightarrow> TParseContext
       \<Rightarrow> TParseContext"
  getObjectSize :: "TType \<Rightarrow> int"
  isUniform :: "TQualifier \<Rightarrow> bool"
  isPipeInput :: "TQualifier \<Rightarrow> bool"
  isPipeOutput :: "TQualifier \<Rightarrow> bool"
  yyparse :: "TParseContext \<Rightarrow> TParseContext"
  constantIndexExpressionCheck :: "TIntermNode \<Rightarrow> TParseContext \<Rightarrow> TParseContext"
  inductiveLoopBodyCheck :: "TIntermNode option \<Rightarrow> int \<Rightarrow> TParseContext \<Rightarrow> TParseContext"
  addConstructor ::
    "TSourceLoc \<Rightarrow> TIntermNode option \<Rightarrow> TType \<Rightarrow> TOperator \<Rightarrow> TParseContext
       \<Rightarrow> TIntermNode option \<times> TParseContext"
  addBuiltInFunctionCall ::
    "TSourceLoc \<Rightarrow> TOperator \<Rightarrow> bool \<Rightarrow> TIntermNode option \<Rightarrow> TType \<Rightarrow> TIntermNode option"
  setAggregateOperator ::
    "TIntermNode option \<Rightarrow> TOperator \<Rightarrow> TType \<Rightarrow> TSourceLoc \<Rightarrow> TIntermNode"

section \<open>Diagnostics\<close>

text \<open>\<^verbatim>\<open>TParseContext::error\<close>: one line for the sink, and the error counter goes up.\<close>

definition error ::
  "TSourceLoc \<Rightarrow> string \<Rightarrow> string \<Rightarrow> string \<Rightarrow> TFormatArg list \<Rightarrow> TParseContext \<Rightarrow> TParseContext" where
  "error loc szReason szToken szExtraInfoFormat args ctx =
     ctx\<lparr> infoSink := infoSink ctx @
            [\<lparr> dPrefix = EPrefixError, dLoc = Some loc, dToken = szToken, dReason = szReason,
               dExtraInfoFormat = szExtraInfoFormat, dExtraArgs = args \<rparr>],
          numErrors := numErrors ctx + 1 \<rparr>"

section \<open>Vector field selectors\<close>

record TVectorFields =
  offsets :: "int list"
  num :: int

datatype TFieldSet = exyzw | ergba | estpq

text \<open>The \<^verbatim>\<open>switch\<close> of \<^verbatim>\<open>parseVectorFields\<close> over one character: its offset and its set, or
  the \<^verbatim>\<open>default\<close> branch.\<close>

definition fieldOfChar :: "char \<Rightarrow> (int \<times> TFieldSet) option" where
  "fieldOfChar c =
     (if c = CHR ''x'' then Some (0, exyzw)
      else if c = CHR ''r'' then Some (0, ergba)
      else if c = CHR ''s'' then Some (0, estpq)
      else if c = CHR ''y'' then Some (1, exyzw)
      else if c = CHR ''g'' then Some (1, ergba)
      else if c = CHR ''t'' then Some (1, estpq)
      else if c = CHR ''z'' then Some (2, exyzw)
      else if c = CHR ''b'' then Some (2, ergba)
      else if c = CHR ''p'' then Some (2, estpq)
      else if c = CHR ''w'' then Some (3, exyzw)
      else if c = CHR ''a'' then Some (3, ergba)
      else if c = CHR ''q'' then Some (3, estpq)
      else None)"

text \<open>The first loop: decode character \<open>i\<close> into \<open>offsets[i]\<close> and \<open>fieldSet[i]\<close>, stopping at
  the first character of the \<^verbatim>\<open>default\<close> branch. The local array \<open>fieldSet\<close> starts
  uninitialised (\<open>None\<close>).\<close>

function decodeLoop ::
  "string \<Rightarrow> nat \<Rightarrow> nat \<Rightarrow> int list \<Rightarrow> TFieldSet option list
     \<Rightarrow> bool \<times> int list \<times> TFieldSet option list" where
  "decodeLoop s i n offs fs =
     (if i < n then
        (case fieldOfChar (s ! i) of
           None \<Rightarrow> (False, offs, fs)
         | Some (off, st) \<Rightarrow> decodeLoop s (i + 1) n (offs[i := off]) (fs[i := Some st]))
      else (True, offs, fs))"
  by pat_completeness auto
termination
  by (relation "measure (\<lambda>(s, i, n, offs, fs). n - i)") auto

datatype TFieldCheck = FieldsOk | FieldOutOfRange | FieldsNotSameSet

text \<open>The second loop: the range of every offset and the set of every character against its
  predecessor's.\<close>

function checkLoop ::
  "int list \<Rightarrow> TFieldSet option list \<Rightarrow> int \<Rightarrow> nat \<Rightarrow> nat \<Rightarrow> TFieldCheck" where
  "checkLoop offs fs vecSize i n =
     (if i < n then
        (if offs ! i \<ge> vecSize then FieldOutOfRange
         else if i > 0 \<and> fs ! i \<noteq> fs ! (i - 1) then FieldsNotSameSet
         else checkLoop offs fs vecSize (i + 1) n)
      else FieldsOk)"
  by pat_completeness auto
termination
  by (relation "measure (\<lambda>(offs, fs, vecSize, i, n). n - i)") auto

definition parseVectorFields ::
  "TSourceLoc \<Rightarrow> string \<Rightarrow> int \<Rightarrow> TVectorFields \<Rightarrow> TParseContext
     \<Rightarrow> bool \<times> TVectorFields \<times> TParseContext" where
  "parseVectorFields loc compString vecSize flds ctx =
     (let fields1 = flds\<lparr>num := int (length compString)\<rparr> in
      if num fields1 > 4 then
        (False, fields1, error loc ''illegal vector field selection'' compString [] [] ctx)
      else
        (case decodeLoop compString 0 (nat (num fields1)) (offsets fields1) (replicate 4 None) of
           (False, offs, fs) \<Rightarrow>
             (False, fields1\<lparr>offsets := offs\<rparr>,
              error loc ''illegal vector field selection'' compString [] [] ctx)
         | (True, offs, fs) \<Rightarrow>
             (case checkLoop offs fs vecSize 0 (nat (num fields1)) of
                FieldOutOfRange \<Rightarrow>
                  (False, fields1\<lparr>offsets := offs\<rparr>,
                   error loc ''vector field selection out of range'' compString [] [] ctx)
              | FieldsNotSameSet \<Rightarrow>
                  (False, fields1\<lparr>offsets := offs\<rparr>,
                   error loc ''illegal - vector component fields not from the same set''
                     compString [] [] ctx)
              | FieldsOk \<Rightarrow> (True, fields1\<lparr>offsets := offs\<rparr>, ctx))))"

declare decodeLoop.simps [simp del] checkLoop.simps [simp del]

text \<open>The three sets of selector letters, as the specification lists them, and the letters of
  each set of the source's enumeration.\<close>

definition swizzleSets :: "string list" where
  "swizzleSets = [''xyzw'', ''rgba'', ''stpq'']"

fun fieldSetLetters :: "TFieldSet \<Rightarrow> string" where
  "fieldSetLetters exyzw = ''xyzw''"
| "fieldSetLetters ergba = ''rgba''"
| "fieldSetLetters estpq = ''stpq''"

section \<open>Qualifier merging\<close>

text \<open>\<^verbatim>\<open>mergeLayoutQualifiers\<close>: every layout field that is set in \<open>src\<close> overrides the one of
  \<open>dst\<close>.\<close>

definition mergeLayoutQualifiers ::
  "TLayoutSentinels \<Rightarrow> TSourceLoc \<Rightarrow> TQualifier \<Rightarrow> TQualifier \<Rightarrow> TQualifier" where
  "mergeLayoutQualifiers k loc dst src =
     (let d1 = (if layoutMatrix src \<noteq> ElmNone then dst\<lparr>layoutMatrix := layoutMatrix src\<rparr>
                else dst);
          d2 = (if layoutPacking src \<noteq> ElpNone then d1\<lparr>layoutPacking := layoutPacking src\<rparr>
                else d1);
          d3 = (if hasLocation k src then d2\<lparr>layoutSlotLocation := layoutSlotLocation src\<rparr>
                else d2);
          d4 = (if hasBinding k src then d3\<lparr>layoutBinding := layoutBinding src\<rparr> else d3)
      in d4)"

text \<open>\<^verbatim>\<open>mergeQualifiers\<close>, in the order of the source: the checks for a second auxiliary or
  interpolation qualifier, the ordering rules, the storage table, the precision, the layout and
  the singletons of \<^verbatim>\<open>MERGE_SINGLETON\<close>.\<close>

definition mergeMultipleCheck ::
  "TSourceLoc \<Rightarrow> TQualifier \<Rightarrow> TQualifier \<Rightarrow> TParseContext \<Rightarrow> TParseContext" where
  "mergeMultipleCheck loc dst src ctx =
     (let ctx1 = (if isAuxiliary src \<and> isAuxiliary dst then
                    error loc ''can only have one auxiliary qualifier (centroid, patch, and sample)''
                      [] [] [] ctx
                  else ctx);
          ctx2 = (if isInterpolation src \<and> isInterpolation dst then
                    error loc
                      ''can only have one interpolation qualifier (flat, smooth, noperspective)''
                      [] [] [] ctx1
                  else ctx1)
      in ctx2)"

definition mergeOrderingCheck ::
  "TSourceLoc \<Rightarrow> TQualifier \<Rightarrow> TQualifier \<Rightarrow> bool \<Rightarrow> TParseContext \<Rightarrow> TParseContext" where
  "mergeOrderingCheck loc dst src force ctx =
     (if \<not> force \<and> version ctx < 420 then
        (let ctx1 =
               (if invariant src \<and> (isInterpolation dst \<or> isAuxiliary dst
                     \<or> storage dst \<noteq> EvqTemporary \<or> precision dst \<noteq> EpqNone) then
                  error loc ''invariant qualifier must appear first'' [] [] [] ctx
                else if isInterpolation src \<and> (isAuxiliary dst \<or> storage dst \<noteq> EvqTemporary
                     \<or> precision dst \<noteq> EpqNone) then
                  error loc
                    ''interpolation qualifiers must appear before storage and precision qualifiers''
                    [] [] [] ctx
                else if isAuxiliary src \<and> (storage dst \<noteq> EvqTemporary
                     \<or> precision dst \<noteq> EpqNone) then
                  error loc
                    ''Auxiliary qualifiers (centroid, patch, and sample) must appear before storage and precision qualifiers''
                    [] [] [] ctx
                else if storage src \<noteq> EvqTemporary \<and> precision dst \<noteq> EpqNone then
                  error loc ''precision qualifier must appear as last qualifier'' [] [] [] ctx
                else ctx)
         in if storage src = EvqConst \<and> (storage dst = EvqIn \<or> storage dst = EvqOut) then
              error loc ''in/out must appear before const'' [] [] [] ctx1
            else ctx1)
      else ctx)"

definition mergeStorage ::
  "TExternals \<Rightarrow> TSourceLoc \<Rightarrow> TQualifier \<Rightarrow> TQualifier \<Rightarrow> TParseContext
     \<Rightarrow> TQualifier \<times> TParseContext" where
  "mergeStorage ext loc dst src ctx =
     (if storage dst = EvqTemporary \<or> storage dst = EvqGlobal then
        (dst\<lparr>storage := storage src\<rparr>, ctx)
      else if (storage dst = EvqIn \<and> storage src = EvqOut)
           \<or> (storage dst = EvqOut \<and> storage src = EvqIn) then
        (dst\<lparr>storage := EvqInOut\<rparr>, ctx)
      else if (storage dst = EvqIn \<and> storage src = EvqConst)
           \<or> (storage dst = EvqConst \<and> storage src = EvqIn) then
        (dst\<lparr>storage := EvqConstReadOnly\<rparr>, ctx)
      else if storage src \<noteq> EvqTemporary then
        (dst, error loc ''too many storage qualifiers''
                (GetStorageQualifierString ext (storage src)) [] [] ctx)
      else (dst, ctx))"

definition mergePrecision ::
  "TExternals \<Rightarrow> TSourceLoc \<Rightarrow> TQualifier \<Rightarrow> TQualifier \<Rightarrow> bool \<Rightarrow> TParseContext
     \<Rightarrow> TQualifier \<times> TParseContext" where
  "mergePrecision ext loc dst src force ctx =
     (let ctx1 = (if \<not> force \<and> precision src \<noteq> EpqNone \<and> precision dst \<noteq> EpqNone then
                    error loc ''only one precision qualifier allowed''
                      (GetPrecisionQualifierString ext (precision src)) [] [] ctx
                  else ctx);
          dst1 = (if precision dst = EpqNone \<or> (force \<and> precision src \<noteq> EpqNone) then
                    dst\<lparr>precision := precision src\<rparr>
                  else dst)
      in (dst1, ctx1))"

definition mergeSingletons ::
  "TSourceLoc \<Rightarrow> TQualifier \<Rightarrow> TQualifier \<Rightarrow> TParseContext \<Rightarrow> TQualifier \<times> TParseContext" where
  "mergeSingletons loc dst src ctx =
     (let repeated =
            ((invariant dst \<and> invariant src) \<or> (centroid dst \<and> centroid src)
             \<or> (smooth dst \<and> smooth src) \<or> (flat dst \<and> flat src)
             \<or> (nopersp dst \<and> nopersp src) \<or> (patch dst \<and> patch src)
             \<or> (sample dst \<and> sample src) \<or> (shared dst \<and> shared src)
             \<or> (coherent dst \<and> coherent src) \<or> (volatil dst \<and> volatil src)
             \<or> (restrict dst \<and> restrict src) \<or> (readonly dst \<and> readonly src)
             \<or> (writeonly dst \<and> writeonly src));
          dst1 = dst\<lparr> invariant := invariant dst \<or> invariant src,
                      centroid := centroid dst \<or> centroid src,
                      smooth := smooth dst \<or> smooth src,
                      flat := flat dst \<or> flat src,
                      nopersp := nopersp dst \<or> nopersp src,
                      patch := patch dst \<or> patch src,
                      sample := sample dst \<or> sample src,
                      shared := shared dst \<or> shared src,
                      coherent := coherent dst \<or> coherent src,
                      volatil := volatil dst \<or> volatil src,
                      restrict := restrict dst \<or> restrict src,
                      readonly := readonly dst \<or> readonly src,
                      writeonly := writeonly dst \<or> writeonly src \<rparr>
      in (dst1, if repeated then error loc ''replicated qualifiers'' [] [] [] ctx else ctx))"

definition mergeQualifiers ::
  "TExternals \<Rightarrow> TSourceLoc \<Rightarrow> TQualifier \<Rightarrow> TQualifier \<Rightarrow> bool \<Rightarrow> TParseContext
     \<Rightarrow> TQualifier \<times> TParseContext" where
  "mergeQualifiers ext loc dst src force ctx =
     (let ctx1 = mergeMultipleCheck loc dst src ctx;
          ctx2 = mergeOrderingCheck loc dst src force ctx1;
          (dst1, ctx3) = mergeStorage ext loc dst src ctx2;
          (dst2, ctx4) = mergePrecision ext loc dst1 src force ctx3;
          dst3 = mergeLayoutQualifiers (sentinels ctx4) loc dst2 src
      in mergeSingletons loc dst3 src ctx4)"

text \<open>What a handler has added to the sink: the reasons of the diagnostics after those of the
  context it started from.\<close>

definition emittedReasons :: "TParseContext \<Rightarrow> TParseContext \<Rightarrow> string list" where
  "emittedReasons ctx ctx' = map dReason (drop (length (infoSink ctx)) (infoSink ctx'))"

section \<open>The driver entry\<close>

text \<open>The four characters that the scan of \<^verbatim>\<open>parseShaderStrings\<close> skips: space, tab, line
  feed, carriage return.\<close>

definition isWhiteSpace :: "char \<Rightarrow> bool" where
  "isWhiteSpace c = (c = CHR '' '' \<or> c = CHR 0x09 \<or> c = CHR 0x0A \<or> c = CHR 0x0D)"

text \<open>The loop over the sub-strings: the index of the first null one. Reading \<open>strings[i]\<close>
  past the end of the array is outside the model (\<open>None\<close>).\<close>

function nullCheckLoop :: "string option list \<Rightarrow> nat \<Rightarrow> int \<Rightarrow> nat option option" where
  "nullCheckLoop strs i numStrings =
     (if int i < numStrings then
        (if i < length strs then
           (case strs ! i of
              None \<Rightarrow> Some (Some i)
            | Some _ \<Rightarrow> nullCheckLoop strs (i + 1) numStrings)
         else None)
      else Some None)"
  by pat_completeness auto
termination
  by (relation "measure (\<lambda>(strs, i, n). nat (n - int i))") auto

text \<open>The \<^verbatim>\<open>while\<close> loop over the first string: \<open>Some True\<close> is the \<^verbatim>\<open>return true\<close> inside
  the loop, \<open>Some False\<close> is the loop's exit at a character that is not white space. Reading
  past the characters of the string is outside the model.\<close>

function whiteSpaceLoop :: "string \<Rightarrow> nat \<Rightarrow> nat \<Rightarrow> bool option" where
  "whiteSpaceLoop s0 len0 len =
     (if len < length s0 then
        (if isWhiteSpace (s0 ! len) then
           (if len + 1 \<ge> len0 then Some True else whiteSpaceLoop s0 len0 (len + 1))
         else Some False)
      else None)"
  by pat_completeness auto
termination
  by (relation "measure (\<lambda>(s0, len0, len). length s0 - len)") auto

declare nullCheckLoop.simps [simp del] whiteSpaceLoop.simps [simp del]

text \<open>\<^verbatim>\<open>finalize\<close>: the deferred index checks, in the order they were recorded. The check
  reports errors; it does not touch the list it is run over.\<close>

definition finalize :: "TExternals \<Rightarrow> TParseContext \<Rightarrow> TParseContext" where
  "finalize ext ctx =
     foldl (\<lambda>c n. constantIndexExpressionCheck ext n c) ctx (needsIndexLimitationChecking ctx)"

text \<open>The assignment to \<^verbatim>\<open>anyIndexLimits\<close> before the parse.\<close>

definition setAnyIndexLimits :: "TParseContext \<Rightarrow> TParseContext" where
  "setAnyIndexLimits ctx =
     ctx\<lparr> anyIndexLimits :=
            \<not> generalAttributeMatrixVectorIndexing (limits ctx)
            \<or> \<not> generalConstantMatrixVectorIndexing (limits ctx)
            \<or> \<not> generalSamplerIndexing (limits ctx)
            \<or> \<not> generalUniformIndexing (limits ctx)
            \<or> \<not> generalVariableIndexing (limits ctx)
            \<or> \<not> generalVaryingIndexing (limits ctx) \<rparr>"

definition parseShaderStrings ::
  "TExternals \<Rightarrow> TPpContext \<Rightarrow> string option list option \<Rightarrow> nat list \<Rightarrow> int \<Rightarrow> TParseContext
     \<Rightarrow> (bool \<times> TPpContext \<times> TParseContext) option" where
  "parseShaderStrings ext ppContext strings lengths numStrings ctx =
     (case strings of
        None \<Rightarrow> Some (True, ppContext, ctx)
      | Some strs \<Rightarrow>
          if numStrings = 0 then Some (True, ppContext, ctx)
          else
            (case lengths of
               [] \<Rightarrow> None
             | len0 # _ \<Rightarrow>
                 if len0 = 0 then Some (True, ppContext, ctx)
                 else
                   (case nullCheckLoop strs 0 numStrings of
                      None \<Rightarrow> None
                    | Some (Some i) \<Rightarrow>
                        Some (False, ppContext,
                          error \<lparr> loc_string = int i, loc_line = 1 \<rparr>
                            ''Null shader source string'' [] [] [] ctx)
                    | Some None \<Rightarrow>
                        (let pp1 = (case preamble ctx of
                                      Some p \<Rightarrow> ppContext\<lparr>ppPreamble := Some p\<rparr>
                                    | None \<Rightarrow> ppContext);
                             pp2 = pp1\<lparr> ppStrings := strs, ppLengths := lengths,
                                        ppNumStrings := numStrings \<rparr>
                         in case strs of
                              [] \<Rightarrow> None
                            | None # _ \<Rightarrow> None
                            | Some s0 # _ \<Rightarrow>
                                (case whiteSpaceLoop s0 len0 0 of
                                   None \<Rightarrow> None
                                 | Some True \<Rightarrow> Some (True, pp2, ctx)
                                 | Some False \<Rightarrow>
                                     (let ctx1 = setAnyIndexLimits ctx;
                                          ctx2 = yyparse ext ctx1;
                                          ctx3 = finalize ext ctx2
                                      in Some (numErrors ctx3 = 0, pp2, ctx3)))))))"

text \<open>A step from \<open>ctx\<close> to \<open>ctx'\<close> that only appends diagnostics whose reason is not \<open>r\<close>,
  and keeps the version and the sentinels.\<close>

definition appendsOther :: "string \<Rightarrow> TParseContext \<Rightarrow> TParseContext \<Rightarrow> bool" where
  "appendsOther r ctx ctx' \<longleftrightarrow>
     (\<exists>ds. infoSink ctx' = infoSink ctx @ ds \<and> r \<notin> set (map dReason ds))
     \<and> version ctx' = version ctx \<and> sentinels ctx' = sentinels ctx"

section \<open>Constructor legality\<close>

text \<open>The \<^verbatim>\<open>switch\<close> that opens \<^verbatim>\<open>constructorError\<close>: the matrix constructors.\<close>

definition constructingMatrix :: "TOperator \<Rightarrow> bool" where
  "constructingMatrix op =
     (op \<in> {EOpConstructMat2x2, EOpConstructMat2x3, EOpConstructMat2x4,
            EOpConstructMat3x2, EOpConstructMat3x3, EOpConstructMat3x4,
            EOpConstructMat4x2, EOpConstructMat4x3, EOpConstructMat4x4,
            EOpConstructDMat2x2, EOpConstructDMat2x3, EOpConstructDMat2x4,
            EOpConstructDMat3x2, EOpConstructDMat3x3, EOpConstructDMat3x4,
            EOpConstructDMat4x2, EOpConstructDMat4x3, EOpConstructDMat4x4})"

text \<open>The local variables of the loop over the arguments.\<close>

record TConstructorScan =
  scanSize :: int
  constType :: bool
  full :: bool
  overFull :: bool
  matrixInMatrix :: bool
  arrayArg :: bool

definition constructorScanStep ::
  "TExternals \<Rightarrow> TOperator \<Rightarrow> TType \<Rightarrow> TConstructorScan \<Rightarrow> TParameter \<Rightarrow> TConstructorScan" where
  "constructorScanStep ext op type st p =
     (let size1 = scanSize st + getObjectSize ext (paramType p);
          mim = (if constructingMatrix op \<and> isMatrix (paramType p) then True
                 else matrixInMatrix st);
          ovf = (if full st then True else overFull st);
          ful = (if op \<noteq> EOpConstructStruct \<and> \<not> isArray type
                    \<and> size1 \<ge> getObjectSize ext type then True
                 else full st);
          cst = (if storage (qualifier (paramType p)) \<noteq> EvqConst then False else constType st);
          arr = (if isArray (paramType p) then True else arrayArg st)
      in \<lparr> scanSize = size1, constType = cst, full = ful, overFull = ovf,
           matrixInMatrix = mim, arrayArg = arr \<rparr>)"

fun constructorScan ::
  "TExternals \<Rightarrow> TOperator \<Rightarrow> TType \<Rightarrow> TParameter list \<Rightarrow> TConstructorScan \<Rightarrow> TConstructorScan" where
  "constructorScan ext op type [] st = st"
| "constructorScan ext op type (p # ps) st =
     constructorScan ext op type ps (constructorScanStep ext op type st p)"

definition initialScan :: TConstructorScan where
  "initialScan =
     \<lparr> scanSize = 0, constType = True, full = False, overFull = False, matrixInMatrix = False,
       arrayArg = False \<rparr>"

text \<open>Modelled from the spec: \<^verbatim>\<open>changeArraySize\<close>, which sets the size of an array type.\<close>

definition changeArraySize :: "int \<Rightarrow> TType \<Rightarrow> TType" where
  "changeArraySize n t = setArraySizes (map_option (\<lambda>a. a\<lparr>arraySize := n\<rparr>) (arraySizes t)) t"

text \<open>\<^verbatim>\<open>constructorError\<close>: true when the construction is an error; the type of the
  constructor comes back with it. A null \<open>node\<close>, or a struct constructor for a type without a
  field list, where the rules reach them, is a null dereference (\<open>None\<close>).\<close>

definition constructorError ::
  "TExternals \<Rightarrow> TSourceLoc \<Rightarrow> TIntermNode option \<Rightarrow> TFunction \<Rightarrow> TOperator \<Rightarrow> TParseContext
     \<Rightarrow> (bool \<times> TType \<times> TParseContext) option" where
  "constructorError ext loc node function op ctx =
     (let type0 = funType function;
          paramCount = int (length (funParams function));
          sc = constructorScan ext op type0 (funParams function) initialScan;
          type1 = (if constType sc then setStorage EvqConst type0 else type0);
          arrayMismatch = (case arraySizes type1 of
                             None \<Rightarrow> False
                           | Some a \<Rightarrow> arraySize a \<noteq> 0 \<and> arraySize a \<noteq> paramCount);
          type2 = (case arraySizes type1 of
                     None \<Rightarrow> type1
                   | Some a \<Rightarrow> if arraySize a = 0 then changeArraySize paramCount type1 else type1)
      in
      if arrayMismatch then
        Some (True, type1,
          error loc ''array constructor needs one argument per array element'' ''constructor''
            [] [] ctx)
      else if arrayArg sc \<and> op \<noteq> EOpConstructStruct then
        Some (True, type2,
          error loc ''constructing from a non-dereferenced array'' ''constructor'' [] [] ctx)
      else if matrixInMatrix sc \<and> \<not> isArray type2 then
        Some (False, type2,
          profileRequires ext loc {ENoProfile} 120 None ''constructing matrix from matrix'' ctx)
      else if overFull sc then
        Some (True, type2, error loc ''too many arguments'' ''constructor'' [] [] ctx)
      else if op = EOpConstructStruct \<and> \<not> isArray type2 \<and> structFields type2 = None then
        None
      else if op = EOpConstructStruct \<and> \<not> isArray type2
              \<and> int (length (the (structFields type2))) \<noteq> paramCount then
        Some (True, type2,
          error loc
            ''Number of constructor parameters does not match the number of structure fields''
            ''constructor'' [] [] ctx)
      else if (op \<noteq> EOpConstructStruct \<and> scanSize sc \<noteq> 1
                 \<and> scanSize sc < getObjectSize ext type2)
              \<or> (op = EOpConstructStruct \<and> scanSize sc < getObjectSize ext type2) then
        Some (True, type2,
          error loc ''not enough data provided for construction'' ''constructor'' [] [] ctx)
      else
        (case node of
           None \<Rightarrow> None
         | Some n \<Rightarrow>
             (case getAsTyped n of
                None \<Rightarrow>
                  Some (True, type2,
                    error loc ''constructor argument does not have a type'' ''constructor''
                      [] [] ctx)
              | Some typed \<Rightarrow>
                  if op \<noteq> EOpConstructStruct
                     \<and> map_option basicType (getType typed) = Some EbtSampler then
                    Some (True, type2,
                      error loc ''cannot convert a sampler'' ''constructor'' [] [] ctx)
                  else if map_option basicType (getType typed) = Some EbtVoid then
                    Some (True, type2,
                      error loc ''cannot convert a void'' ''constructor'' [] [] ctx)
                  else Some (False, type2, ctx))))"

text \<open>The argument list is overfull as the specification words it: some argument follows one
  that has made the accumulated size reach the object size of the target type.\<close>

definition overfullArguments :: "TExternals \<Rightarrow> TType \<Rightarrow> TParameter list \<Rightarrow> bool" where
  "overfullArguments ext type ps =
     (\<exists>i. Suc i < length ps
          \<and> getObjectSize ext type
              \<le> sum_list (map (\<lambda>p. getObjectSize ext (paramType p)) (take (Suc i) ps)))"

text \<open>Modelled from the spec: \<^verbatim>\<open>getObjectSize\<close>, the element count of a type after flattening:
  the fields of a struct added up, columns times rows of a matrix, the size of a vector, times
  the size of an array. (Its definition is missing; the model takes it as a parameter and uses
  this one on concrete inputs.)\<close>

fun objectSize :: "TType \<Rightarrow> int" where
  "objectSize (TType b q vs mc mr a sf fn) =
     (case sf of
        Some fs \<Rightarrow> sum_list (map objectSize fs)
      | None \<Rightarrow> if mc > 0 then mc * mr else vs)
     * (case a of None \<Rightarrow> 1 | Some sz \<Rightarrow> max (arraySize sz) (maxArraySize sz))"

section \<open>L-values\<close>

text \<open>The integer that \<^verbatim>\<open>getAsConstantUnion()->getConstArray()[0].getIConst()\<close> reads from a
  node; a node that is not a constant union, or an empty array, is a null dereference or a read
  out of bounds (\<open>None\<close>).\<close>

definition indexOfNode :: "TIntermNode \<Rightarrow> int option" where
  "indexOfNode n = (case getConstArray n of Some (c # _) \<Rightarrow> getIConst c | _ \<Rightarrow> None)"

text \<open>The loop of \<^verbatim>\<open>lValueErrorCheck\<close> over the indices of a swizzle: \<open>Some True\<close> when a
  component comes a second time. The array \<open>offset\<close> has four entries; an index outside it is
  a write out of bounds (\<open>None\<close>).\<close>

fun swizzleDuplicateLoop :: "TIntermNode list \<Rightarrow> int list \<Rightarrow> bool option" where
  "swizzleDuplicateLoop [] offset = Some False"
| "swizzleDuplicateLoop (p # ps) offset =
     (case indexOfNode p of
        None \<Rightarrow> None
      | Some v \<Rightarrow>
          if 0 \<le> v \<and> v < 4 then
            (let offset1 = offset[nat v := offset ! nat v + 1] in
             if offset1 ! nat v > 1 then Some True else swizzleDuplicateLoop ps offset1)
          else None)"

text \<open>Modelled from the spec: \<^verbatim>\<open>addSwizzle\<close> of the tree builder, which is missing: the
  aggregate of the constant indices of a swizzle, one integer constant for each of the first
  \<open>num\<close> offsets.\<close>

definition addSwizzle :: "TLayoutSentinels \<Rightarrow> TVectorFields \<Rightarrow> TSourceLoc \<Rightarrow> TIntermNode" where
  "addSwizzle k flds loc =
     IntermAggregate EOpSequence
       (map (\<lambda>off. IntermConstantUnion [IConst off] (mkType k EbtInt EvqConst 1) loc)
          (take (nat (num flds)) (offsets flds)))
       [] False [] (mkType k EbtVoid EvqTemporary 1) loc"

text \<open>The message for a node that is not a binary node: by its storage qualifier first, then by
  its basic type.\<close>

definition lValueMessage :: "TType \<Rightarrow> string option" where
  "lValueMessage t =
     (case storage (qualifier t) of
        EvqConst \<Rightarrow> Some ''can't modify a const''
      | EvqConstReadOnly \<Rightarrow> Some ''can't modify a const''
      | EvqVaryingIn \<Rightarrow> Some ''can't modify shader input''
      | EvqUniform \<Rightarrow> Some ''can't modify a uniform''
      | EvqInstanceId \<Rightarrow> Some ''can't modify gl_InstanceID''
      | EvqVertexId \<Rightarrow> Some ''can't modify gl_VertexID''
      | EvqFace \<Rightarrow> Some ''can't modify gl_FrontFace''
      | EvqFragCoord \<Rightarrow> Some ''can't modify gl_FragCoord''
      | EvqPointCoord \<Rightarrow> Some ''can't modify gl_PointCoord''
      | _ \<Rightarrow>
          (case basicType t of
             EbtSampler \<Rightarrow> Some ''can't modify a sampler''
           | EbtVoid \<Rightarrow> Some ''can't modify void''
           | _ \<Rightarrow> None))"

fun symbolNameOf :: "TIntermNode \<Rightarrow> string option" where
  "symbolNameOf (IntermSymbol _ n _ _) = Some n"
| "symbolNameOf _ = None"

fun aggregateSequence :: "TIntermNode \<Rightarrow> TIntermNode list option" where
  "aggregateSequence (IntermAggregate _ sq _ _ _ _ _) = Some sq"
| "aggregateSequence _ = None"

text \<open>\<^verbatim>\<open>lValueErrorCheck\<close>: true when the node is not an l-value. The argument is a typed
  node; a node without a type is outside the model.\<close>

fun lValueErrorCheck ::
  "TSourceLoc \<Rightarrow> string \<Rightarrow> TIntermNode \<Rightarrow> TParseContext \<Rightarrow> (bool \<times> TParseContext) option" where
  "lValueErrorCheck loc op (IntermBinary bop left right t l) ctx =
     (if bop = EOpIndexDirect \<or> bop = EOpIndexIndirect \<or> bop = EOpIndexDirectStruct then
        lValueErrorCheck loc op left ctx
      else if bop = EOpVectorSwizzle then
        (case lValueErrorCheck loc op left ctx of
           None \<Rightarrow> None
         | Some (errorReturn, ctx1) \<Rightarrow>
             if \<not> errorReturn then
               (case aggregateSequence right of
                  None \<Rightarrow> None
                | Some sq \<Rightarrow>
                    (case swizzleDuplicateLoop sq [0, 0, 0, 0] of
                       None \<Rightarrow> None
                     | Some True \<Rightarrow>
                         Some (True,
                           error loc '' l-value of swizzle cannot have duplicate components'' op
                             [] [ArgStr []] ctx1)
                     | Some False \<Rightarrow> Some (errorReturn, ctx1)))
             else Some (errorReturn, ctx1))
      else Some (True, error loc '' l-value required'' op [] [ArgStr []] ctx))"
| "lValueErrorCheck loc op node ctx =
     (case getType node of
        None \<Rightarrow> None
      | Some t \<Rightarrow>
          (case lValueMessage t of
             None \<Rightarrow>
               (case symbolNameOf node of
                  None \<Rightarrow> Some (True, error loc '' l-value required'' op [] [ArgStr []] ctx)
                | Some _ \<Rightarrow> Some (False, ctx))
           | Some message \<Rightarrow>
               (case symbolNameOf node of
                  Some symbol \<Rightarrow>
                    Some (True,
                      error loc '' l-value required'' op
                        (CHR 0x22 # ''%s'' @ CHR 0x22 # '' (%s)'')
                        [ArgStr symbol, ArgStr message] ctx)
                | None \<Rightarrow>
                    Some (True,
                      error loc '' l-value required'' op ''(%s)'' [ArgStr message] ctx))))"

section \<open>Switch assembly\<close>

text \<open>Modelled from the spec: a fresh aggregate (a body sequence) has type \<open>void\<close>; the
  constructor of \<^verbatim>\<open>TIntermAggregate\<close> is missing.\<close>

definition newAggregate :: "TLayoutSentinels \<Rightarrow> TOperator \<Rightarrow> TIntermNode list \<Rightarrow> TSourceLoc \<Rightarrow> TIntermNode" where
  "newAggregate k op sq loc = IntermAggregate op sq [] False [] (mkType k EbtVoid EvqTemporary 1) loc"

fun setOperator :: "TOperator \<Rightarrow> TIntermNode \<Rightarrow> TIntermNode option" where
  "setOperator op (IntermAggregate _ sq n u q t l) = Some (IntermAggregate op sq n u q t l)"
| "setOperator op _ = None"

fun branchExpression :: "TIntermNode \<Rightarrow> TIntermNode option option" where
  "branchExpression (IntermBranch _ e _) = Some e"
| "branchExpression _ = None"

text \<open>The comparison of a new label with one earlier entry of the sequence: nothing for an
  entry that is not a branch; \<open>duplicate label\<close> for a second \<open>default\<close>; \<open>duplicated value\<close> for
  two constant labels with the same integer.\<close>

definition checkPreviousLabel ::
  "TIntermNode \<Rightarrow> TIntermNode option \<Rightarrow> TIntermNode \<Rightarrow> TParseContext \<Rightarrow> TParseContext option" where
  "checkPreviousLabel branchNode newExpression prev ctx =
     (case branchExpression prev of
        None \<Rightarrow> Some ctx
      | Some prevExpression \<Rightarrow>
          (case (prevExpression, newExpression) of
             (None, None) \<Rightarrow>
               Some (error (getLoc branchNode) ''duplicate label'' ''default'' [] [] ctx)
           | (Some pe, Some ne) \<Rightarrow>
               if isConstantUnion pe \<and> isConstantUnion ne then
                 (case (indexOfNode pe, indexOfNode ne) of
                    (Some a, Some b) \<Rightarrow>
                      if a = b then
                        Some (error (getLoc branchNode) ''duplicated value'' ''case'' [] [] ctx)
                      else Some ctx
                  | _ \<Rightarrow> None)
               else Some ctx
           | _ \<Rightarrow> Some ctx))"

fun checkPreviousLabels ::
  "TIntermNode \<Rightarrow> TIntermNode option \<Rightarrow> TIntermNode list \<Rightarrow> TParseContext
     \<Rightarrow> TParseContext option" where
  "checkPreviousLabels branchNode newExpression [] ctx = Some ctx"
| "checkPreviousLabels branchNode newExpression (prev # rest) ctx =
     (case checkPreviousLabel branchNode newExpression prev ctx of
        None \<Rightarrow> None
      | Some ctx1 \<Rightarrow> checkPreviousLabels branchNode newExpression rest ctx1)"

text \<open>\<^verbatim>\<open>wrapupSwitchSubsequence\<close>. The sequence it works on is the top of the stack; an empty
  stack has no top (\<open>None\<close>). \<open>statements\<close> is an aggregate and \<open>branchNode\<close> a branch by their
  use in the source; anything else is outside the model.\<close>

definition wrapupSwitchSubsequence ::
  "TIntermNode option \<Rightarrow> TIntermNode option \<Rightarrow> TParseContext \<Rightarrow> TParseContext option" where
  "wrapupSwitchSubsequence statements branchNode ctx =
     (case rev (switchSequenceStack ctx) of
        [] \<Rightarrow> None
      | switchSequence # below \<Rightarrow>
          (case (case statements of
                   None \<Rightarrow> Some (switchSequence, ctx)
                 | Some st \<Rightarrow>
                     (case setOperator EOpSequence st of
                        None \<Rightarrow> None
                      | Some st1 \<Rightarrow>
                          Some (switchSequence @ [st1],
                            if length switchSequence = 0 then
                              error (getLoc st)
                                ''cannot have statements before first case/default label''
                                ''switch'' [] [] ctx
                            else ctx))) of
             None \<Rightarrow> None
           | Some (sq1, ctx1) \<Rightarrow>
               (case branchNode of
                  None \<Rightarrow> Some (ctx1\<lparr>switchSequenceStack := rev (sq1 # below)\<rparr>)
                | Some b \<Rightarrow>
                    (case branchExpression b of
                       None \<Rightarrow> (if list_ex (\<lambda>n. branchExpression n \<noteq> None) sq1 then None
                                 else Some (ctx1\<lparr>switchSequenceStack := rev ((sq1 @ [b]) # below)\<rparr>))
                     | Some newExpression \<Rightarrow>
                         (case checkPreviousLabels b newExpression sq1 ctx1 of
                            None \<Rightarrow> None
                          | Some ctx2 \<Rightarrow>
                              Some (ctx2\<lparr>switchSequenceStack := rev ((sq1 @ [b]) # below)\<rparr>))))))"

text \<open>The two feature gates that open \<^verbatim>\<open>addSwitch\<close>.\<close>

definition switchGates :: "TExternals \<Rightarrow> TSourceLoc \<Rightarrow> TParseContext \<Rightarrow> TParseContext" where
  "switchGates ext loc ctx =
     profileRequires ext loc {ENoProfile} 130 None ''switch statements''
       (profileRequires ext loc {EEsProfile} 300 None ''switch statements'' ctx)"

text \<open>\<^verbatim>\<open>addSwitch\<close>. The expression may be null; when it is not, it is a typed node.\<close>

definition addSwitch ::
  "TExternals \<Rightarrow> TSourceLoc \<Rightarrow> TIntermNode option \<Rightarrow> TIntermNode option \<Rightarrow> TParseContext
     \<Rightarrow> (TIntermNode option \<times> TParseContext) option" where
  "addSwitch ext loc expression lastStatements ctx =
     (let ctx2 = switchGates ext loc ctx
      in case wrapupSwitchSubsequence lastStatements None ctx2 of
           None \<Rightarrow> None
         | Some ctx3 \<Rightarrow>
             (case (case expression of
                      None \<Rightarrow> Some True
                    | Some e \<Rightarrow>
                        (case getType e of
                           None \<Rightarrow> None
                         | Some t \<Rightarrow>
                             Some ((basicType t \<noteq> EbtInt \<and> basicType t \<noteq> EbtUint)
                                   \<or> isArray t \<or> isMatrix t \<or> isVector t))) of
                None \<Rightarrow> None
              | Some bad \<Rightarrow>
                  (let ctx4 = (if bad then
                                 error loc ''condition must be a scalar integer expression''
                                   ''switch'' [] [] ctx3
                               else ctx3)
                   in case rev (switchSequenceStack ctx4) of
                        [] \<Rightarrow> None
                      | switchSequence # below \<Rightarrow>
                          if length switchSequence = 0 then Some (expression, ctx4)
                          else if lastStatements = None then
                            Some (expression,
                              error loc ''last case/default label must be followed by statements''
                                ''switch'' [] [] ctx4)
                          else
                            Some (Some (IntermSwitch expression
                                          (newAggregate (sentinels ctx4) EOpSequence switchSequence
                                             loc) loc),
                                  ctx4))))"

text \<open>For the statement of the claim: an expression of scalar integer type (not null, \<open>int\<close> or
  \<open>uint\<close>, no array, no matrix, no vector), and the sequence that the switch has accumulated
  once the last statements are on it.\<close>

definition scalarIntegerExpression :: "TIntermNode option \<Rightarrow> bool" where
  "scalarIntegerExpression expression =
     (case Option.bind expression getType of
        None \<Rightarrow> False
      | Some t \<Rightarrow> (basicType t = EbtInt \<or> basicType t = EbtUint)
                  \<and> \<not> isArray t \<and> \<not> isMatrix t \<and> \<not> isVector t)"

definition accumulatedSequence :: "TIntermNode list \<Rightarrow> TIntermNode option \<Rightarrow> TIntermNode list" where
  "accumulatedSequence sq lastStatements =
     sq @ (case Option.bind lastStatements (setOperator EOpSequence) of
             None \<Rightarrow> []
           | Some st1 \<Rightarrow> [st1])"

section \<open>Inductive loops\<close>

text \<open>The three messages of \<^verbatim>\<open>inductiveLoopCheck\<close> that quote the form they ask for.\<close>

definition initDeclarationReason :: string where
  "initDeclarationReason =
     ''inductive-loop init-declaration requires the form '' @ CHR 0x22 #
     ''type-specifier loop-index = constant-expression'' @ [CHR 0x22]"

definition conditionReason :: string where
  "conditionReason =
     ''inductive-loop condition requires the form '' @ CHR 0x22 #
     ''loop-index <comparison-op> constant-expression'' @ [CHR 0x22]"

definition terminationReason :: string where
  "terminationReason =
     ''inductive-loop termination requires the form '' @ CHR 0x22 #
     ''loop-index++, loop-index--, loop-index += constant-expression, or loop-index -= constant-expression''
     @ [CHR 0x22]"

fun symbolId :: "TIntermNode \<Rightarrow> int option" where
  "symbolId (IntermSymbol i _ _ _) = Some i"
| "symbolId _ = None"

fun loopTest :: "TIntermNode \<Rightarrow> TIntermNode option" where
  "loopTest (IntermLoop body test terminal l) = test"
| "loopTest _ = None"

fun loopTerminal :: "TIntermNode \<Rightarrow> TIntermNode option" where
  "loopTerminal (IntermLoop body test terminal l) = terminal"
| "loopTerminal _ = None"

fun loopBody :: "TIntermNode \<Rightarrow> TIntermNode option" where
  "loopBody (IntermLoop body test terminal l) = body"
| "loopBody _ = None"

text \<open>The condition of the loop: \<open>badCond\<close>.\<close>

definition badCondition :: "int \<Rightarrow> TIntermNode option \<Rightarrow> bool" where
  "badCondition loopIndex test =
     (case test of
        None \<Rightarrow> True
      | Some (IntermBinary bop left right t l) \<Rightarrow>
          (bop \<notin> {EOpGreaterThan, EOpGreaterThanEqual, EOpLessThan, EOpLessThanEqual, EOpEqual,
                     EOpNotEqual})
          \<or> (symbolId left = None \<or> symbolId left \<noteq> Some loopIndex
              \<or> \<not> isConstantUnion right)
      | Some _ \<Rightarrow> True)"

text \<open>The terminal expression of the loop: \<open>badTerminal\<close>.\<close>

definition badTerminalExpression :: "int \<Rightarrow> TIntermNode option \<Rightarrow> bool" where
  "badTerminalExpression loopIndex terminal =
     (case terminal of
        None \<Rightarrow> True
      | Some (IntermBinary bop left right t l) \<Rightarrow>
          (bop \<notin> {EOpPostDecrement, EOpPostIncrement, EOpAddAssign, EOpSubAssign})
          \<or> (symbolId left = None \<or> symbolId left \<noteq> Some loopIndex
              \<or> \<not> isConstantUnion right)
      | Some (IntermUnary uop operand t l) \<Rightarrow>
          (uop \<notin> {EOpPostDecrement, EOpPostIncrement, EOpAddAssign, EOpSubAssign})
          \<or> (symbolId operand = None \<or> symbolId operand \<noteq> Some loopIndex)
      | Some _ \<Rightarrow> True)"

text \<open>What \<^verbatim>\<open>inductiveLoopCheck\<close> does once it has the loop index: record it, check the
  condition and the terminal expression, hand the body to the body check.\<close>

definition inductiveLoopRest ::
  "TExternals \<Rightarrow> TSourceLoc \<Rightarrow> int \<Rightarrow> TIntermNode \<Rightarrow> TParseContext \<Rightarrow> TParseContext" where
  "inductiveLoopRest ext loc loopIndex loop ctx =
     (let ctx1 = ctx\<lparr>inductiveLoopIds := insert loopIndex (inductiveLoopIds ctx)\<rparr> in
      if badCondition loopIndex (loopTest loop) then
        error loc conditionReason ''limitations'' [] [] ctx1
      else if badTerminalExpression loopIndex (loopTerminal loop) then
        error loc terminationReason ''limitations'' [] [] ctx1
      else inductiveLoopBodyCheck ext (loopBody loop) loopIndex ctx1)"

text \<open>\<^verbatim>\<open>inductiveLoopCheck\<close>. The test of the sequence's size is the source's
  \<^verbatim>\<open>! init->getAsAggregate()->getSequence().size() == 1\<close>: the negation binds first, so it
  compares \<open>(size = 0)\<close> with 1 and is true for an empty sequence only.\<close>

definition inductiveLoopCheck ::
  "TExternals \<Rightarrow> TSourceLoc \<Rightarrow> TIntermNode option \<Rightarrow> TIntermNode \<Rightarrow> TParseContext
     \<Rightarrow> TParseContext" where
  "inductiveLoopCheck ext loc init loop ctx =
     (case (case init of
              None \<Rightarrow> None
            | Some i \<Rightarrow>
                (case aggregateSequence i of
                   None \<Rightarrow> None
                 | Some sq \<Rightarrow>
                     if (if length sq = 0 then (1::int) else 0) = 1 then None
                     else (case hd sq of
                             IntermBinary bop left right t l \<Rightarrow> Some (bop, left, right, t)
                           | _ \<Rightarrow> None))) of
        None \<Rightarrow> error loc initDeclarationReason ''limitations'' [] [] ctx
      | Some (bop, left, right, t) \<Rightarrow>
          if \<not> isScalar t \<or> (basicType t \<noteq> EbtInt \<and> basicType t \<noteq> EbtFloat) then
            error loc ''inductive loop requires a scalar 'int' or 'float' loop index''
              ''limitations'' [] [] ctx
          else if bop \<noteq> EOpAssign \<or> symbolId left = None \<or> \<not> isConstantUnion right then
            error loc initDeclarationReason ''limitations'' [] [] ctx
          else inductiveLoopRest ext loc (the (symbolId left)) loop ctx)"

section \<open>Expression handlers\<close>

text \<open>Modelled from the spec: the tree builders \<^verbatim>\<open>addSymbol\<close>, \<^verbatim>\<open>addConstantUnion\<close> and
  \<^verbatim>\<open>addIndex\<close> of the intermediate representation, which are missing. Each allocates a node
  from its arguments. A new index node has no type of its own: its callers set it, and until
  then the model gives it \<open>void\<close>.\<close>

definition addSymbol :: "int \<Rightarrow> string \<Rightarrow> TType \<Rightarrow> TSourceLoc \<Rightarrow> TIntermNode" where
  "addSymbol i n t loc = IntermSymbol i n t loc"

definition addConstantUnion :: "TConstUnion list \<Rightarrow> TType \<Rightarrow> TSourceLoc \<Rightarrow> TIntermNode" where
  "addConstantUnion unionArray t loc = IntermConstantUnion unionArray t loc"

definition addIndex ::
  "TLayoutSentinels \<Rightarrow> TOperator \<Rightarrow> TIntermNode \<Rightarrow> TIntermNode \<Rightarrow> TSourceLoc \<Rightarrow> TIntermNode" where
  "addIndex k op base index loc = IntermBinary op base index (mkType k EbtVoid EvqTemporary 1) loc"

text \<open>The recovery node that the handlers build where they have no result: the constant
  \<open>0.0\<close> of type \<open>float\<close> with \<open>const\<close> storage.\<close>

definition recoveryNode :: "TLayoutSentinels \<Rightarrow> TSourceLoc \<Rightarrow> TIntermNode" where
  "recoveryNode k loc = addConstantUnion [DConst 0] (mkType k EbtFloat EvqConst 1) loc"

text \<open>\<^verbatim>\<open>variableCheck\<close>: a symbol node of type \<open>void\<close> is a name that was not found. It is
  reported, a variable of type \<open>float\<close> with that name is inserted into the symbol table, and the
  node is replaced by a symbol node for it.\<close>

definition variableCheck ::
  "TExternals \<Rightarrow> TIntermNode \<Rightarrow> TParseContext \<Rightarrow> TIntermNode \<times> TParseContext" where
  "variableCheck ext nodePtr ctx =
     (case nodePtr of
        IntermSymbol i n t l \<Rightarrow>
          if basicType t = EbtVoid then
            (let ctx1 = error l ''undeclared identifier'' n [] [] ctx;
                 fakeVariable =
                   SymVariable \<lparr> varName = n,
                                 varType = mkType (sentinels ctx1) EbtFloat EvqTemporary 1,
                                 varConstArray = [], varUniqueId = 0 \<rparr> False;
                 (ok, inserted, tbl) = insert_sym fakeVariable (symbolTable ctx1)
             in case getAsVariable inserted of
                  Some v \<Rightarrow>
                    (addSymbol (varUniqueId v) (varName v) (varType v) l,
                     ctx1\<lparr>symbolTable := tbl\<rparr>)
                | None \<Rightarrow> (nodePtr, ctx1\<lparr>symbolTable := tbl\<rparr>))
          else if storage (qualifier t) = EvqPointCoord then
            (nodePtr, profileRequires ext l {ENoProfile} 120 None ''gl_PointCoord'' ctx)
          else (nodePtr, ctx)
      | _ \<Rightarrow> (nodePtr, ctx))"

text \<open>\<^verbatim>\<open>handleVariable\<close>. The result is the pointer \<open>node\<close> of the source, which starts
  null.\<close>

definition handleVariable ::
  "TSourceLoc \<Rightarrow> TSymbol option \<Rightarrow> string \<Rightarrow> TParseContext
     \<Rightarrow> (TIntermNode option \<times> TParseContext) option" where
  "handleVariable loc symbol string ctx =
     (case symbol of
        Some (SymAnonMember n variable memberNumber r) \<Rightarrow>
          (let container = addSymbol (varUniqueId variable) (varName variable) (varType variable)
                             loc;
               constNode = addConstantUnion [UConst memberNumber]
                             (mkType (sentinels ctx) EbtUint EvqConst 1) loc;
               node = addIndex (sentinels ctx) EOpIndexDirectStruct container constNode loc
           in case structFields (varType variable) of
                None \<Rightarrow> None
              | Some members \<Rightarrow>
                  if memberNumber < length members then
                    Some (Some (setType (members ! memberNumber) node), ctx)
                  else None)
      | _ \<Rightarrow>
          (let variable = Option.bind symbol getAsVariable;
               ctx1 = (if symbol \<noteq> None \<and> variable = None then
                         error loc ''variable name expected'' string [] [] ctx
                       else ctx);
               variable1 = (case variable of
                              Some v \<Rightarrow> v
                            | None \<Rightarrow>
                                \<lparr> varName = string,
                                  varType = mkType (sentinels ctx1) EbtVoid EvqTemporary 1,
                                  varConstArray = [], varUniqueId = 0 \<rparr>)
           in if storage (qualifier (varType variable1)) = EvqConst then
                Some (Some (addConstantUnion (varConstArray variable1) (varType variable1) loc),
                      ctx1)
              else
                Some (Some (addSymbol (varUniqueId variable1) (varName variable1)
                              (varType variable1) loc),
                      ctx1)))"

text \<open>A window of a constant array, \<^verbatim>\<open>TConstUnionArray(array, start, size)\<close>; a window that
  does not lie inside the array is a read out of bounds.\<close>

definition constWindow :: "TConstUnion list \<Rightarrow> int \<Rightarrow> int \<Rightarrow> TConstUnion list option" where
  "constWindow a start n =
     (if 0 \<le> start \<and> 0 \<le> n \<and> start + n \<le> int (length a) then
        Some (take (nat n) (drop (nat start) a))
      else None)"

text \<open>\<^verbatim>\<open>addConstArrayNode\<close>, \<^verbatim>\<open>addConstMatrixNode\<close> and \<^verbatim>\<open>addConstVectorNode\<close> (the last
  one for the single field that a bracket sends): the folded constant, or null with an error
  when the node is not a constant union.\<close>

definition addConstArrayNode ::
  "TExternals \<Rightarrow> int \<Rightarrow> TIntermNode \<Rightarrow> TType \<Rightarrow> TSourceLoc \<Rightarrow> TParseContext
     \<Rightarrow> (TIntermNode option \<times> TParseContext) option" where
  "addConstArrayNode ext index0 node t loc ctx =
     (case getArraySize t of
        None \<Rightarrow> None
      | Some n \<Rightarrow>
          (let arrayElementType = dereference t;
               bad = (index0 \<ge> n \<or> index0 < 0);
               ctx1 = (if bad then
                         error loc [] ''['' ''array index '%d' out of range'' [ArgInt index0] ctx
                       else ctx);
               index1 = (if bad then 0 else index0);
               arrayElementSize = getObjectSize ext arrayElementType
           in case getConstArray node of
                Some a \<Rightarrow>
                  (case constWindow a (arrayElementSize * index1) arrayElementSize of
                     None \<Rightarrow> None
                   | Some w \<Rightarrow> Some (Some (addConstantUnion w t loc), ctx1))
              | None \<Rightarrow>
                  Some (None, error loc ''Cannot offset into the array'' ''Error'' [] [] ctx1)))"

definition addConstMatrixNode ::
  "int \<Rightarrow> TIntermNode \<Rightarrow> TType \<Rightarrow> TSourceLoc \<Rightarrow> TParseContext
     \<Rightarrow> (TIntermNode option \<times> TParseContext) option" where
  "addConstMatrixNode index0 node t loc ctx =
     (let bad = (index0 \<ge> matrixCols t);
          ctx1 = (if bad then
                    error loc [] ''['' (''matrix field selection out of range '%d'' @ [CHR 0x27])
                      [ArgInt index0] ctx
                  else ctx);
          index1 = (if bad then 0 else index0)
      in case getConstArray node of
           Some a \<Rightarrow>
             (case constWindow a (matrixRows t * index1) (matrixRows t) of
                None \<Rightarrow> None
              | Some w \<Rightarrow> Some (Some (addConstantUnion w t loc), ctx1))
         | None \<Rightarrow>
             Some (None, error loc ''Cannot offset into the matrix'' ''Error'' [] [] ctx1))"

definition addConstVectorNode ::
  "TExternals \<Rightarrow> int \<Rightarrow> TIntermNode \<Rightarrow> TType \<Rightarrow> TSourceLoc \<Rightarrow> TParseContext
     \<Rightarrow> (TIntermNode option \<times> TParseContext) option" where
  "addConstVectorNode ext offset0 node t loc ctx =
     (case getConstArray node of
        None \<Rightarrow> Some (None, error loc ''Cannot offset into the vector'' ''Error'' [] [] ctx)
      | Some a \<Rightarrow>
          (let bad = (offset0 \<ge> getObjectSize ext t);
               ctx1 = (if bad then
                         error loc [] ''['' (''vector index out of range '%d'' @ [CHR 0x27])
                           [ArgInt offset0] ctx
                       else ctx);
               offset1 = (if bad then 0 else offset0)
           in if 0 \<le> offset1 \<and> offset1 < int (length a) then
                Some (Some (addConstantUnion [a ! nat offset1] t loc), ctx1)
              else None))"

text \<open>The writable type of a symbol that \<^verbatim>\<open>updateMaxArraySize\<close> changes: the maximum of an
  array type (a type that is no array has no sizes to write to), on a variable.\<close>

definition setMaxArraySize :: "int \<Rightarrow> TSymbol \<Rightarrow> TSymbol option" where
  "setMaxArraySize n symbol =
     (case symbol of
        SymVariable v r \<Rightarrow>
          (case arraySizes (varType v) of
             None \<Rightarrow> None
           | Some a \<Rightarrow>
               Some (SymVariable
                       (v\<lparr>varType := setArraySizes (Some (a\<lparr>maxArraySize := n\<rparr>)) (varType v)\<rparr>) r))
      | _ \<Rightarrow> None)"

text \<open>\<^verbatim>\<open>updateMaxArraySize\<close>. A name that the table does not know trips the source's
  \<^verbatim>\<open>assert\<close>; the code after it returns, and so does the model.\<close>

definition updateMaxArraySize ::
  "TSourceLoc \<Rightarrow> TIntermNode \<Rightarrow> int \<Rightarrow> TParseContext \<Rightarrow> TParseContext option" where
  "updateMaxArraySize loc node index ctx =
     (case node of
        IntermSymbol i n t l \<Rightarrow>
          (case getMaxArraySize t of
             None \<Rightarrow> None
           | Some m \<Rightarrow>
               if m > index then Some ctx
               else
                 (case find (symbolTable ctx) n of
                    None \<Rightarrow> Some ctx
                  | Some (lvl, symbol) \<Rightarrow>
                      if getAsFunction symbol \<noteq> None then
                        Some (error loc ''array variable name expected'' n [] [] ctx)
                      else
                        (let ((lvl1, symbol1), tbl1) =
                               (if isReadOnly symbol then copyUp symbol (symbolTable ctx)
                                else ((lvl, symbol), symbolTable ctx))
                         in case setMaxArraySize (index + 1) symbol1 of
                              None \<Rightarrow> None
                            | Some symbol2 \<Rightarrow>
                                Some (ctx\<lparr>symbolTable := putAt lvl1 symbol2 tbl1\<rparr>))))
      | _ \<Rightarrow> Some ctx)"

text \<open>The formats of the two range errors of \<^verbatim>\<open>handleBracketDereference\<close>.\<close>

definition indexOutOfRangeFormat :: string where
  "indexOutOfRangeFormat = ''index out of range '%d'' @ [CHR 0x27]"

definition arrayIndexOutOfRangeFormat :: string where
  "arrayIndexOutOfRangeFormat = ''array index out of range '%d'' @ [CHR 0x27]"

text \<open>The condition under which an index is kept for the limitation checks of
  \<^verbatim>\<open>finalize\<close>.\<close>

definition indexLimited :: "TExternals \<Rightarrow> TIntermNode \<Rightarrow> TType \<Rightarrow> TParseContext \<Rightarrow> bool" where
  "indexLimited ext base bt ctx =
     ((\<not> generalSamplerIndexing (limits ctx) \<and> basicType bt = EbtSampler)
      \<or> (\<not> generalUniformIndexing (limits ctx) \<and> isUniform ext (qualifier bt)
          \<and> language ctx \<noteq> EShLangVertex)
      \<or> (\<not> generalAttributeMatrixVectorIndexing (limits ctx) \<and> isPipeInput ext (qualifier bt)
          \<and> language ctx = EShLangVertex \<and> (isMatrix bt \<or> isVector bt))
      \<or> (\<not> generalConstantMatrixVectorIndexing (limits ctx) \<and> isConstantUnion base)
      \<or> (\<not> generalVariableIndexing (limits ctx) \<and> \<not> isUniform ext (qualifier bt)
          \<and> \<not> isPipeInput ext (qualifier bt) \<and> \<not> isPipeOutput ext (qualifier bt)
          \<and> storage (qualifier bt) \<noteq> EvqConst)
      \<or> (\<not> generalVaryingIndexing (limits ctx)
          \<and> (isPipeInput ext (qualifier bt) \<or> isPipeOutput ext (qualifier bt))))"

text \<open>The first part of \<^verbatim>\<open>handleBracketDereference\<close>, after \<^verbatim>\<open>variableCheck\<close>: the pointer
  \<open>result\<close>, which stays null when the base cannot be indexed or the folding gives nothing.
  \<open>bt\<close> and \<open>it\<close> are the types of the base and of the index.\<close>

definition bracketResult ::
  "TExternals \<Rightarrow> TSourceLoc \<Rightarrow> TIntermNode \<Rightarrow> TType \<Rightarrow> TIntermNode \<Rightarrow> TType \<Rightarrow> TParseContext
     \<Rightarrow> (TIntermNode option \<times> TParseContext) option" where
  "bracketResult ext loc base bt index it ctx =
     (if \<not> isArray bt \<and> \<not> isMatrix bt \<and> \<not> isVector bt then
        Some (None,
          error loc '' left of '[' is not of type array, matrix, or vector ''
            (case symbolNameOf base of Some n \<Rightarrow> n | None \<Rightarrow> ''expression'') [] [] ctx)
      else if storage (qualifier bt) = EvqConst \<and> storage (qualifier it) = EvqConst then
        (case indexOfNode index of
           None \<Rightarrow> None
         | Some k \<Rightarrow>
             if isArray bt then addConstArrayNode ext k base bt loc ctx
             else if isVector bt then addConstVectorNode ext k base bt loc ctx
             else addConstMatrixNode k base bt loc ctx)
      else if storage (qualifier it) = EvqConst then
        (case indexOfNode index of
           None \<Rightarrow> None
         | Some indexValue \<Rightarrow>
             (let ctx1 = (if \<not> isArray bt
                            \<and> ((isVector bt \<and> vectorSize bt \<le> indexValue)
                                \<or> (isMatrix bt \<and> matrixCols bt \<le> indexValue)) then
                            error loc [] ''['' indexOutOfRangeFormat [ArgInt indexValue] ctx
                          else ctx)
              in case (case getArraySize bt of
                         None \<Rightarrow> Some ctx1
                       | Some n \<Rightarrow>
                           if n = 0 then updateMaxArraySize loc base indexValue ctx1
                           else if indexValue \<ge> n \<or> indexValue < 0 then
                             Some (error loc [] ''['' arrayIndexOutOfRangeFormat
                                     [ArgInt indexValue] ctx1)
                           else Some ctx1) of
                   None \<Rightarrow> None
                 | Some ctx2 \<Rightarrow>
                     Some (Some (addIndex (sentinels ctx2) EOpIndexDirect base index loc), ctx2)))
      else
        (let ctx1 = (if getArraySize bt = Some 0 then
                       error loc [] ''[''
                         ''array must be redeclared with a size before being indexed with a variable''
                         [] ctx
                     else ctx);
             ctx2 = (if basicType bt = EbtBlock then
                       requireProfile ext (getLoc base) (UNIV - {EEsProfile})
                         ''variable indexing block array'' ctx1
                     else ctx1);
             ctx3 = (if basicType bt = EbtSampler \<and> version ctx2 \<ge> 130 then
                       profileRequires ext (getLoc base) {ECoreProfile, ECompatibilityProfile} 400
                         None ''variable indexing sampler array''
                         (requireProfile ext (getLoc base) {ECoreProfile, ECompatibilityProfile}
                            ''variable indexing sampler array'' ctx2)
                     else ctx2)
         in Some (Some (addIndex (sentinels ctx3) EOpIndexIndirect base index loc), ctx3)))"

text \<open>\<^verbatim>\<open>handleBracketDereference\<close>. Both nodes are typed. The type of the result is the type
  of the base, dereferenced. (The node of the base keeps its own copy of the array sizes in
  this model; the result's type does not read them.)\<close>

definition handleBracketDereference ::
  "TExternals \<Rightarrow> TSourceLoc \<Rightarrow> TIntermNode \<Rightarrow> TIntermNode \<Rightarrow> TParseContext
     \<Rightarrow> (TIntermNode option \<times> TParseContext) option" where
  "handleBracketDereference ext loc base0 index ctx =
     (let (base, ctx1) = variableCheck ext base0 ctx in
      case (getType base, getType index) of
        (Some bt, Some it) \<Rightarrow>
          (case bracketResult ext loc base bt index it ctx1 of
             None \<Rightarrow> None
           | Some (None, ctx2) \<Rightarrow> Some (Some (recoveryNode (sentinels ctx2) loc), ctx2)
           | Some (Some result, ctx2) \<Rightarrow>
               (let newType =
                      dereference
                        (if storage (qualifier bt) = EvqConst \<and> storage (qualifier it) = EvqConst
                         then setStorage EvqConst bt else bt);
                    ctx3 = (if anyIndexLimits ctx2 \<and> indexLimited ext base bt ctx2 then
                              ctx2\<lparr>needsIndexLimitationChecking :=
                                     needsIndexLimitationChecking ctx2 @ [index]\<rparr>
                            else ctx2)
                in Some (Some (setType newType result), ctx3)))
      | _ \<Rightarrow> None)"

text \<open>\<^verbatim>\<open>findFunction\<close>: the function of that mangled name and whether it was found at a
  built-in level, or null with an error.\<close>

definition findFunction ::
  "TSourceLoc \<Rightarrow> TFunction \<Rightarrow> TParseContext \<Rightarrow> (TFunction \<times> bool) option \<times> TParseContext" where
  "findFunction loc call ctx =
     (case find (symbolTable ctx) (funMangledName call) of
        None \<Rightarrow>
          (None, error loc ''no matching overloaded function found'' (funName call) [] [] ctx)
      | Some (lvl, symbol) \<Rightarrow>
          (case getAsFunction symbol of
             None \<Rightarrow> (None, error loc ''function name expected'' (funName call) [] [] ctx)
           | Some f \<Rightarrow> (Some (f, foundBuiltIn (symbolTable ctx) lvl), ctx)))"

text \<open>\<^verbatim>\<open>nonOpBuiltInCheck\<close>, on the aggregate of the call.\<close>

definition nonOpBuiltInCheck ::
  "TExternals \<Rightarrow> TSourceLoc \<Rightarrow> TFunction \<Rightarrow> TIntermNode \<Rightarrow> TParseContext
     \<Rightarrow> (TIntermNode \<times> TParseContext) option" where
  "nonOpBuiltInCheck ext loc fnCandidate callNode ctx =
     (case (aggregateSequence callNode, getType callNode) of
        (Some sq, Some ct) \<Rightarrow>
          (case (if precision (qualifier (funType fnCandidate)) = EpqNone
                    \<and> length (funParams fnCandidate) > 0
                    \<and> basicType (paramType (hd (funParams fnCandidate))) = EbtSampler then
                   (case sq of
                      [] \<Rightarrow> None
                    | a # _ \<Rightarrow>
                        (case getType a of
                           None \<Rightarrow> None
                         | Some argType \<Rightarrow>
                             Some (setType (setPrecision (precision (qualifier argType)) ct)
                                     callNode)))
                 else Some callNode) of
             None \<Rightarrow> None
           | Some callNode1 \<Rightarrow>
               if take 13 (funName fnCandidate) = ''textureGather'' then
                 (let ctx1 = requireProfile ext loc (UNIV - {EEsProfile})
                               ''texture gather function'' ctx;
                      ctx2 = profileRequires ext loc (UNIV - {EEsProfile}) 400
                               (Some ''GL_ARB_texture_gather'') ''texture gather function'' ctx1
                  in case rev (funParams fnCandidate) of
                       [] \<Rightarrow> None
                     | lastParam # _ \<Rightarrow>
                         if basicType (paramType lastParam) = EbtInt
                            \<and> isScalar (paramType lastParam) then
                           (if length sq < length (funParams fnCandidate) then None
                            else
                              (let lastArg = sq ! (length (funParams fnCandidate) - 1) in
                               if isConstantUnion lastArg then
                                 (case indexOfNode lastArg of
                                    None \<Rightarrow> None
                                  | Some v \<Rightarrow>
                                      if v < 0 \<or> v > 3 then
                                        Some (callNode1,
                                          error loc ''must be 0, 1, 2, or 3''
                                            ''texture gather component'' [] [] ctx2)
                                      else Some (callNode1, ctx2))
                               else
                                 Some (callNode1,
                                   error loc ''must be a constant'' ''texture gather component''
                                     [] [] ctx2)))
                         else Some (callNode1, ctx2))
               else Some (callNode1, ctx))
      | _ \<Rightarrow> None)"

text \<open>The loop of \<^verbatim>\<open>handleFunctionCall\<close> over the parameters of a call that is not mapped to an
  operator: the l-value check of the arguments of \<open>out\<close> and \<open>inout\<close> parameters, and the list of
  the qualifiers.\<close>

fun callQualifierLoop ::
  "TSourceLoc \<Rightarrow> TIntermNode option \<Rightarrow> TIntermNode list \<Rightarrow> TParameter list \<Rightarrow> nat
     \<Rightarrow> TStorageQualifier list \<Rightarrow> TParseContext
     \<Rightarrow> (TStorageQualifier list \<times> TParseContext) option" where
  "callQualifierLoop rloc intermNode sq [] i ql ctx = Some (ql, ctx)"
| "callQualifierLoop rloc intermNode sq (p # ps) i ql ctx =
     (let qual = storage (qualifier (paramType p)) in
      case (if qual = EvqOut \<or> qual = EvqInOut then
              (if i < length sq then
                 (case lValueErrorCheck rloc ''assign'' (sq ! i) ctx of
                    None \<Rightarrow> None
                  | Some (True, ctx1) \<Rightarrow>
                      (case intermNode of
                         None \<Rightarrow> None
                       | Some n \<Rightarrow>
                           Some (error (getLoc n)
                                   ''Constant value cannot be passed for 'out' or 'inout' parameters.''
                                   ''Error'' [] [] ctx1))
                  | Some (False, ctx1) \<Rightarrow> Some ctx1)
               else None)
            else Some ctx) of
        None \<Rightarrow> None
      | Some ctx2 \<Rightarrow> callQualifierLoop rloc intermNode sq ps (i + 1) (ql @ [qual]) ctx2)"

text \<open>Modelled from the spec: \<^verbatim>\<open>addToCallGraph\<close> records the edge from the caller to the
  callee, in insertion order.\<close>

definition addToCallGraph :: "string \<Rightarrow> string \<Rightarrow> TParseContext \<Rightarrow> TParseContext" where
  "addToCallGraph caller callee ctx = ctx\<lparr>callGraph := callGraph ctx @ [(caller, callee)]\<rparr>"

text \<open>The three paths of \<^verbatim>\<open>handleFunctionCall\<close> (the length method, a constructor, a call
  through the symbol table), up to the generic error recovery: the pointer \<open>result\<close>.\<close>

definition functionCallResult ::
  "TExternals \<Rightarrow> TSourceLoc \<Rightarrow> TFunction \<Rightarrow> TIntermNode option \<Rightarrow> TIntermNode option
     \<Rightarrow> TParseContext \<Rightarrow> (TIntermNode option \<times> TParseContext) option" where
  "functionCallResult ext loc fnCall intermNode intermAggregate ctx =
     (if funBuiltInOp fnCall = EOpArrayLength then
        (let ctx1 = (if length (funParams fnCall) > 0 then
                       error loc ''method does not accept any arguments'' (funName fnCall) [] []
                         ctx
                     else ctx)
         in case intermNode of
              None \<Rightarrow> None
            | Some n \<Rightarrow>
                (let sized = (case Option.bind (getAsTyped n) getType of
                                None \<Rightarrow> None
                              | Some t \<Rightarrow>
                                  (case getArraySize t of
                                     None \<Rightarrow> None
                                   | Some m \<Rightarrow> if m = 0 then None else Some m));
                     ctx2 = (if sized = None then
                               error loc [] (funName fnCall)
                                 ''array must be declared with a size before using this method''
                                 [] ctx1
                             else ctx1);
                     len = (case sized of None \<Rightarrow> 1 | Some m \<Rightarrow> m)
                 in Some (Some (addConstantUnion [IConst len]
                                  (mkType (sentinels ctx2) EbtInt EvqConst 1) loc), ctx2)))
      else if funBuiltInOp fnCall \<noteq> EOpNull then
        (case constructorError ext loc intermNode fnCall (funBuiltInOp fnCall) ctx of
           None \<Rightarrow> None
         | Some (True, t, ctx1) \<Rightarrow> Some (None, ctx1)
         | Some (False, t, ctx1) \<Rightarrow>
             (case addConstructor ext loc intermNode t (funBuiltInOp fnCall) ctx1 of
                (None, ctx2) \<Rightarrow>
                  Some (None,
                    error loc ''cannot construct with these arguments'' (getCompleteString ext t)
                      [] [] ctx2)
              | (Some r, ctx2) \<Rightarrow> Some (Some r, ctx2)))
      else
        (case findFunction loc fnCall ctx of
           (None, ctx1) \<Rightarrow> Some (Some (recoveryNode (sentinels ctx1) loc), ctx1)
         | (Some (fnCandidate, builtIn), ctx1) \<Rightarrow>
             if builtIn \<and> funBuiltInOp fnCandidate \<noteq> EOpNull then
               (case addBuiltInFunctionCall ext loc (funBuiltInOp fnCandidate)
                       (length (funParams fnCandidate) = 1) intermNode (funType fnCandidate) of
                  Some r \<Rightarrow> Some (Some r, ctx1)
                | None \<Rightarrow>
                    (case intermNode of
                       None \<Rightarrow> None
                     | Some n \<Rightarrow>
                         (case getType n of
                            None \<Rightarrow> None
                          | Some nt \<Rightarrow>
                              Some (None,
                                error (getLoc n) '' wrong operand type'' ''Internal Error''
                                  ''built in unary operator function.  Type: %s''
                                  [ArgStr (getCompleteString ext nt)] ctx1))))
             else
               (case setAggregateOperator ext intermAggregate EOpFunctionCall
                       (funType fnCandidate) loc of
                  IntermAggregate aop sq nm ud ql t l \<Rightarrow>
                    (let ctx2 = (if \<not> builtIn then
                                   addToCallGraph (currentCaller ctx1)
                                     (funMangledName fnCandidate) ctx1
                                 else ctx1)
                     in case callQualifierLoop l intermNode sq (funParams fnCandidate) 0 ql ctx2 of
                          None \<Rightarrow> None
                        | Some (ql1, ctx3) \<Rightarrow>
                            (let result = IntermAggregate aop sq (funMangledName fnCandidate)
                                            (if \<not> builtIn then True else ud) ql1 t l
                             in if builtIn then
                                  (case nonOpBuiltInCheck ext loc fnCandidate result ctx3 of
                                     None \<Rightarrow> None
                                   | Some (result1, ctx4) \<Rightarrow> Some (Some result1, ctx4))
                                else Some (Some result, ctx3)))
                | _ \<Rightarrow> None)))"

text \<open>\<^verbatim>\<open>handleFunctionCall\<close>: the result of the three paths, or the recovery node where they
  left the pointer null.\<close>

definition handleFunctionCall ::
  "TExternals \<Rightarrow> TSourceLoc \<Rightarrow> TFunction \<Rightarrow> TIntermNode option \<Rightarrow> TIntermNode option
     \<Rightarrow> TParseContext \<Rightarrow> (TIntermNode option \<times> TParseContext) option" where
  "handleFunctionCall ext loc fnCall intermNode intermAggregate ctx =
     (case functionCallResult ext loc fnCall intermNode intermAggregate ctx of
        None \<Rightarrow> None
      | Some (None, ctx1) \<Rightarrow> Some (Some (recoveryNode (sentinels ctx1) loc), ctx1)
      | Some (Some result, ctx1) \<Rightarrow> Some (Some result, ctx1))"

text \<open>What a handler has added to the sink, by the format of the extra information.\<close>

definition emittedFormats :: "TParseContext \<Rightarrow> TParseContext \<Rightarrow> string list" where
  "emittedFormats ctx ctx' = map dExtraInfoFormat (drop (length (infoSink ctx)) (infoSink ctx'))"


section \<open>Concrete inputs\<close>

definition noLimits :: TBuiltInLimits where
  "noLimits =
     \<lparr> generalAttributeMatrixVectorIndexing = True, generalConstantMatrixVectorIndexing = True,
       generalSamplerIndexing = True, generalUniformIndexing = True,
       generalVariableIndexing = True, generalVaryingIndexing = True \<rparr>"

definition theSentinels :: TLayoutSentinels where
  "theSentinels = \<lparr> layoutLocationEnd = 63, layoutBindingEnd = 255 \<rparr>"

definition globalTable :: TSymbolTable where
  "globalTable = \<lparr> levels = [[], []], builtInLevels = 1, nextUniqueId = 0 \<rparr>"

definition desktopContext :: TParseContext where
  "desktopContext =
     newParseContext globalTable 330 ECoreProfile EShLangVertex [] noLimits False theSentinels"

definition plainExternals :: TExternals where
  "plainExternals =
     \<lparr> GetStorageQualifierString = (\<lambda>q. []), GetPrecisionQualifierString = (\<lambda>p. []),
       getCompleteString = (\<lambda>t. []),
       requireProfile = (\<lambda>loc mask feature ctx. ctx),
       profileRequires = (\<lambda>loc mask minVersion extension feature ctx. ctx),
       getObjectSize = objectSize,
       isUniform = (\<lambda>q. storage q = EvqUniform \<or> storage q = EvqBuffer),
       isPipeInput = (\<lambda>q. storage q = EvqVaryingIn),
       isPipeOutput = (\<lambda>q. storage q = EvqVaryingOut),
       yyparse = (\<lambda>ctx. ctx),
       constantIndexExpressionCheck = (\<lambda>n ctx. ctx),
       inductiveLoopBodyCheck = (\<lambda>body loopIndex ctx. ctx),
       addConstructor = (\<lambda>loc node t op ctx. (None, ctx)),
       addBuiltInFunctionCall = (\<lambda>loc op unary node t. None),
       setAggregateOperator =
         (\<lambda>node op t loc.
            IntermAggregate op (case node of None \<Rightarrow> [] | Some n \<Rightarrow> [n]) [] False [] t loc) \<rparr>"

definition plainPpContext :: TPpContext where
  "plainPpContext = \<lparr> ppPreamble = None, ppStrings = [], ppLengths = [], ppNumStrings = 0 \<rparr>"

definition floatType :: TType where
  "floatType = mkType theSentinels EbtFloat EvqTemporary 1"

definition vec2Type :: TType where
  "vec2Type = mkType theSentinels EbtFloat EvqTemporary 2"

definition mat2Type :: TType where
  "mat2Type = TType EbtFloat (clearQualifier theSentinels) 0 2 2 None None []"

text \<open>\<^verbatim>\<open>struct S { float a; float b; }\<close> and the call \<^verbatim>\<open>S(v, f)\<close> with a \<^verbatim>\<open>vec2 v\<close> and a
  \<^verbatim>\<open>float f\<close>.\<close>

definition structType :: TType where
  "structType =
     TType EbtStruct (clearQualifier theSentinels) 1 0 0 None (Some [floatType, floatType]) []"

definition structCall :: TFunction where
  "structCall =
     \<lparr> funName = [], funType = structType,
       funParams = [\<lparr> paramName = None, paramType = vec2Type \<rparr>,
                    \<lparr> paramName = None, paramType = floatType \<rparr>],
       funMangledName = [], funDefined = False, funBuiltInOp = EOpConstructStruct \<rparr>"

definition loc0 :: TSourceLoc where
  "loc0 = \<lparr> loc_string = 0, loc_line = 1 \<rparr>"

definition structCallArguments :: TIntermNode where
  "structCallArguments =
     IntermAggregate EOpNull
       [IntermSymbol 1 ''v'' vec2Type loc0, IntermSymbol 2 ''f'' floatType loc0] [] False []
       floatType loc0"

text \<open>\<^verbatim>\<open>vec2(f, g, h)\<close> with three floats.\<close>

definition vec2Call :: TFunction where
  "vec2Call =
     \<lparr> funName = [], funType = vec2Type,
       funParams = [\<lparr> paramName = None, paramType = floatType \<rparr>,
                    \<lparr> paramName = None, paramType = floatType \<rparr>,
                    \<lparr> paramName = None, paramType = floatType \<rparr>],
       funMangledName = [], funDefined = False, funBuiltInOp = EOpOther 0 \<rparr>"

definition vec4Type :: TType where
  "vec4Type = mkType theSentinels EbtFloat EvqTemporary 4"

definition vec4Symbol :: TIntermNode where
  "vec4Symbol = IntermSymbol 1 ''v'' vec4Type loc0"

definition intType :: TType where
  "intType = mkType theSentinels EbtInt EvqTemporary 1"

text \<open>A context inside \<^verbatim>\<open>switch (i) { case 1: ... }\<close>: the label \<^verbatim>\<open>case 1\<close> is on the sequence.\<close>

definition caseOneLabel :: TIntermNode where
  "caseOneLabel =
     IntermBranch EOpCase
       (Some (IntermConstantUnion [IConst 1] (mkType theSentinels EbtInt EvqConst 1) loc0)) loc0"

definition switchContext :: TParseContext where
  "switchContext = desktopContext\<lparr>switchSequenceStack := [[caseOneLabel]]\<rparr>"

text \<open>\<^verbatim>\<open>for (int i = 0, j = 0; i < 4; i++)\<close>: the init aggregate holds two declarations.\<close>

definition intConstant :: "int \<Rightarrow> TIntermNode" where
  "intConstant v = IntermConstantUnion [IConst v] (mkType theSentinels EbtInt EvqConst 1) loc0"

definition twoDeclarations :: TIntermNode where
  "twoDeclarations =
     newAggregate theSentinels EOpSequence
       [IntermBinary EOpAssign (IntermSymbol 1 ''i'' intType loc0) (intConstant 0) intType loc0,
        IntermBinary EOpAssign (IntermSymbol 2 ''j'' intType loc0) (intConstant 0) intType loc0]
       loc0"

definition loopOverI :: TIntermNode where
  "loopOverI =
     IntermLoop None
       (Some (IntermBinary EOpLessThan (IntermSymbol 1 ''i'' intType loc0) (intConstant 4)
                (mkType theSentinels EbtBool EvqTemporary 1) loc0))
       (Some (IntermUnary EOpPostIncrement (IntermSymbol 1 ''i'' intType loc0) intType loc0))
       loc0"

text \<open>\<^verbatim>\<open>float a[n]\<close> (for \<open>n = 0\<close>, \<^verbatim>\<open>float a[]\<close>) and a context whose global level declares
  \<^verbatim>\<open>float a[]\<close>.\<close>

definition floatArrayType :: "int \<Rightarrow> TType" where
  "floatArrayType n = setArraySizes (Some \<lparr> arraySize = n, maxArraySize = 0 \<rparr>) floatType"

definition arrayNode :: "int \<Rightarrow> TIntermNode" where
  "arrayNode n = IntermSymbol 5 ''a'' (floatArrayType n) loc0"

definition arrayContext :: TParseContext where
  "arrayContext =
     desktopContext\<lparr>symbolTable :=
       \<lparr> levels = [[], [(''a'', SymVariable \<lparr> varName = ''a'', varType = floatArrayType 0,
                                                varConstArray = [], varUniqueId = 5 \<rparr> False)]],
         builtInLevels = 1, nextUniqueId = 5 \<rparr>\<rparr>"

text \<open>A context whose global level declares \<^verbatim>\<open>float a[3]\<close>.\<close>

definition sizedArrayContext :: TParseContext where
  "sizedArrayContext =
     desktopContext\<lparr>symbolTable :=
       \<lparr> levels = [[], [(''a'', SymVariable \<lparr> varName = ''a'', varType = floatArrayType 3,
                                                varConstArray = [], varUniqueId = 5 \<rparr> False)]],
         builtInLevels = 1, nextUniqueId = 5 \<rparr>\<rparr>"

text \<open>A call \<^verbatim>\<open>g()\<close> of a function that nothing declares, and the name \<^verbatim>\<open>u\<close> that nothing
  declares, as \<^verbatim>\<open>handleVariable\<close> hands it on.\<close>

definition undeclaredCall :: TFunction where
  "undeclaredCall =
     \<lparr> funName = ''g'', funType = mkType theSentinels EbtVoid EvqTemporary 1, funParams = [],
       funMangledName = ''g('', funDefined = False, funBuiltInOp = EOpNull \<rparr>"

definition undeclaredName :: TIntermNode where
  "undeclaredName = IntermSymbol 0 ''u'' (mkType theSentinels EbtVoid EvqTemporary 1) loc0"

definition floatSymbol :: TIntermNode where
  "floatSymbol = IntermSymbol 7 ''f'' floatType loc0"

text \<open>The vector \<^verbatim>\<open>c\<close> of type \<^verbatim>\<open>vec2\<close> with \<open>const\<close> storage, as a symbol node (not a constant
  union), and the variable \<^verbatim>\<open>i\<close> of type \<^verbatim>\<open>int\<close>.\<close>

definition constVec2Symbol :: TIntermNode where
  "constVec2Symbol = IntermSymbol 8 ''c'' (mkType theSentinels EbtFloat EvqConst 2) loc0"

definition intSymbol :: TIntermNode where
  "intSymbol = IntermSymbol 1 ''i'' intType loc0"

text \<open>The member \<^verbatim>\<open>b\<close> of an anonymous block \<^verbatim>\<open>{ float a; float b; }\<close>.\<close>

definition anonContainer :: TVariable where
  "anonContainer =
     \<lparr> varName = [], varType = structType, varConstArray = [], varUniqueId = 9 \<rparr>"

definition anonMember :: TSymbol where
  "anonMember = SymAnonMember ''b'' anonContainer 1 False"

text \<open>The method call \<^verbatim>\<open>a.length()\<close>; a call whose mangled name is the name of the variable
  \<^verbatim>\<open>a\<close>; and the built-in \<^verbatim>\<open>sin(float)\<close>, mapped to an operator, with a context whose built-in
  level declares it and a call of it.\<close>

definition lengthCall :: TFunction where
  "lengthCall =
     \<lparr> funName = ''length'', funType = intType, funParams = [],
       funMangledName = ''length('', funDefined = False, funBuiltInOp = EOpArrayLength \<rparr>"

definition variableNameCall :: TFunction where
  "variableNameCall =
     \<lparr> funName = ''a'', funType = mkType theSentinels EbtVoid EvqTemporary 1, funParams = [],
       funMangledName = ''a'', funDefined = False, funBuiltInOp = EOpNull \<rparr>"

definition sinFunction :: TFunction where
  "sinFunction =
     \<lparr> funName = ''sin'', funType = floatType,
       funParams = [\<lparr> paramName = None, paramType = floatType \<rparr>],
       funMangledName = ''sin(f1;'', funDefined = False, funBuiltInOp = EOpOther 1 \<rparr>"

definition sinCall :: TFunction where
  "sinCall = sinFunction\<lparr>funBuiltInOp := EOpNull\<rparr>"

definition builtInContext :: TParseContext where
  "builtInContext =
     desktopContext\<lparr>symbolTable :=
       \<lparr> levels = [[(''sin(f1;'', SymFunction sinFunction True)], []],
         builtInLevels = 1, nextUniqueId = 0 \<rparr>\<rparr>"


section \<open>Vector field selectors: the decoding is the specified one\<close>

lemma lt4: "(j::nat) < 4 \<longleftrightarrow> j = 0 \<or> j = 1 \<or> j = 2 \<or> j = 3"
  by arith

lemma fieldOfChar_Some:
  "fieldOfChar c = Some (off, st) \<Longrightarrow> \<exists>j<4. fieldSetLetters st ! j = c \<and> off = int j"
  unfolding fieldOfChar_def lt4
  by (auto split: if_splits)

lemma fieldOfChar_None_iff: "fieldOfChar c = None \<longleftrightarrow> c \<notin> set ''xyzwrgbastpq''"
  unfolding fieldOfChar_def by auto

lemma fieldOfChar_of_letter:
  "j < 4 \<Longrightarrow> fieldOfChar (fieldSetLetters st ! j) = Some (int j, st)"
  unfolding lt4 by (cases st) (auto simp: fieldOfChar_def)

lemma swizzleSets_iff: "S \<in> set swizzleSets \<longleftrightarrow> (\<exists>st. S = fieldSetLetters st)"
proof
  assume "S \<in> set swizzleSets"
  then consider "S = fieldSetLetters exyzw" | "S = fieldSetLetters ergba" | "S = fieldSetLetters estpq"
    by (auto simp: swizzleSets_def)
  then show "\<exists>st. S = fieldSetLetters st" by blast
next
  assume "\<exists>st. S = fieldSetLetters st"
  then obtain st where "S = fieldSetLetters st" ..
  then show "S \<in> set swizzleSets" by (cases st) (auto simp: swizzleSets_def)
qed

lemma in_letters_iff: "c \<in> set (fieldSetLetters st) \<longleftrightarrow> (\<exists>off. fieldOfChar c = Some (off, st))"
  by (cases st) (auto simp: fieldOfChar_def)

lemma decodeLoop_stop: "\<not> i < n \<Longrightarrow> decodeLoop s i n offs fs = (True, offs, fs)"
  by (subst decodeLoop.simps) simp

lemma decodeLoop_bad:
  "i < n \<Longrightarrow> fieldOfChar (s ! i) = None \<Longrightarrow> decodeLoop s i n offs fs = (False, offs, fs)"
  by (subst decodeLoop.simps) simp

lemma decodeLoop_step:
  "i < n \<Longrightarrow> fieldOfChar (s ! i) = Some (off, st) \<Longrightarrow>
   decodeLoop s i n offs fs = decodeLoop s (i + 1) n (offs[i := off]) (fs[i := Some st])"
  by (subst decodeLoop.simps) simp

lemma checkLoop_stop: "\<not> i < n \<Longrightarrow> checkLoop offs fs v i n = FieldsOk"
  by (subst checkLoop.simps) simp

lemma checkLoop_range:
  "i < n \<Longrightarrow> offs ! i \<ge> v \<Longrightarrow> checkLoop offs fs v i n = FieldOutOfRange"
  by (subst checkLoop.simps) simp

lemma checkLoop_set:
  "i < n \<Longrightarrow> \<not> offs ! i \<ge> v \<Longrightarrow> i > 0 \<and> fs ! i \<noteq> fs ! (i - 1) \<Longrightarrow>
   checkLoop offs fs v i n = FieldsNotSameSet"
  by (subst checkLoop.simps) auto

lemma checkLoop_step:
  "i < n \<Longrightarrow> \<not> offs ! i \<ge> v \<Longrightarrow> \<not> (i > 0 \<and> fs ! i \<noteq> fs ! (i - 1)) \<Longrightarrow>
   checkLoop offs fs v i n = checkLoop offs fs v (i + 1) n"
  by (subst checkLoop.simps) auto

lemma decodeLoop_length:
  "decodeLoop s i n offs fs = (ok, offs', fs') \<Longrightarrow> length offs' = length offs \<and> length fs' = length fs"
proof (induction s i n offs fs rule: decodeLoop.induct)
  case (1 s i n offs fs)
  show ?case
  proof (cases "i < n")
    case False
    with "1.prems" show ?thesis by (simp add: decodeLoop_stop)
  next
    case True
    show ?thesis
    proof (cases "fieldOfChar (s ! i)")
      case None
      with True "1.prems" show ?thesis by (simp add: decodeLoop_bad)
    next
      case (Some p)
      obtain off st where p: "p = (off, st)" by (cases p)
      from True Some p "1.prems"
      have "decodeLoop s (i + 1) n (offs[i := off]) (fs[i := Some st]) = (ok, offs', fs')"
        by (simp add: decodeLoop_step)
      from "1.IH"[OF True Some p[symmetric] this] show ?thesis by simp
    qed
  qed
qed

lemma decodeLoop_ok_iff:
  "fst (decodeLoop s i n offs fs) \<longleftrightarrow> (\<forall>j. i \<le> j \<and> j < n \<longrightarrow> fieldOfChar (s ! j) \<noteq> None)"
proof (induction s i n offs fs rule: decodeLoop.induct)
  case (1 s i n offs fs)
  show ?case
  proof (cases "i < n")
    case False
    then show ?thesis by (auto simp: decodeLoop_stop)
  next
    case True
    show ?thesis
    proof (cases "fieldOfChar (s ! i)")
      case None
      with True show ?thesis by (auto simp: decodeLoop_bad)
    next
      case (Some p)
      obtain off st where p: "p = (off, st)" by (cases p)
      have step: "decodeLoop s i n offs fs = decodeLoop s (i + 1) n (offs[i := off]) (fs[i := Some st])"
        using True Some p by (simp add: decodeLoop_step)
      have "(\<forall>j. i \<le> j \<and> j < n \<longrightarrow> fieldOfChar (s ! j) \<noteq> None)
            \<longleftrightarrow> (\<forall>j. i + 1 \<le> j \<and> j < n \<longrightarrow> fieldOfChar (s ! j) \<noteq> None)"
      proof -
        have "\<And>j. i \<le> j \<longleftrightarrow> j = i \<or> i + 1 \<le> j" by arith
        then show ?thesis using Some by auto
      qed
      with "1.IH"[OF True Some p[symmetric]] step show ?thesis by simp
    qed
  qed
qed

lemma decodeLoop_result:
  "decodeLoop s i n offs fs = (True, offs', fs') \<Longrightarrow> n \<le> length offs \<Longrightarrow> n \<le> length fs \<Longrightarrow>
   (\<forall>j<n. (i \<le> j \<longrightarrow> fieldOfChar (s ! j) = Some (offs' ! j, the (fs' ! j)) \<and> fs' ! j \<noteq> None)
        \<and> (j < i \<longrightarrow> offs' ! j = offs ! j \<and> fs' ! j = fs ! j))"
proof (induction s i n offs fs rule: decodeLoop.induct)
  case (1 s i n offs fs)
  show ?case
  proof (cases "i < n")
    case False
    with "1.prems" show ?thesis by (auto simp: decodeLoop_stop)
  next
    case True
    show ?thesis
    proof (cases "fieldOfChar (s ! i)")
      case None
      with True "1.prems" show ?thesis by (simp add: decodeLoop_bad)
    next
      case (Some p)
      obtain off st where p: "p = (off, st)" by (cases p)
      from True Some p "1.prems"(1)
      have eq: "decodeLoop s (i + 1) n (offs[i := off]) (fs[i := Some st]) = (True, offs', fs')"
        by (simp add: decodeLoop_step)
      have IH: "\<forall>j<n. (i + 1 \<le> j \<longrightarrow> fieldOfChar (s ! j) = Some (offs' ! j, the (fs' ! j)) \<and> fs' ! j \<noteq> None)
        \<and> (j < i + 1 \<longrightarrow> offs' ! j = (offs[i := off]) ! j \<and> fs' ! j = (fs[i := Some st]) ! j)"
        using "1.IH"[OF True Some p[symmetric] eq] "1.prems"(2,3) by simp
      show ?thesis
      proof (intro allI impI)
        fix j assume jn: "j < n"
        show "(i \<le> j \<longrightarrow> fieldOfChar (s ! j) = Some (offs' ! j, the (fs' ! j)) \<and> fs' ! j \<noteq> None)
        \<and> (j < i \<longrightarrow> offs' ! j = offs ! j \<and> fs' ! j = fs ! j)"
        proof (cases "j = i")
          case True
          with IH jn have "offs' ! i = (offs[i := off]) ! i" "fs' ! i = (fs[i := Some st]) ! i" by auto
          moreover have "i < length offs" "i < length fs" using \<open>i < n\<close> "1.prems"(2,3) by auto
          ultimately show ?thesis using True Some p by simp
        next
          case False
          with IH jn show ?thesis by (auto simp: nth_list_update)
        qed
      qed
    qed
  qed
qed

lemma checkLoop_ok_iff:
  "checkLoop offs fs v i n = FieldsOk \<longleftrightarrow>
     (\<forall>j. i \<le> j \<and> j < n \<longrightarrow> offs ! j < v \<and> (j > 0 \<longrightarrow> fs ! j = fs ! (j - 1)))"
proof (induction offs fs v i n rule: checkLoop.induct)
  case (1 offs fs v i n)
  show ?case
  proof (cases "i < n")
    case False
    then show ?thesis by (auto simp: checkLoop_stop)
  next
    case True
    have split: "\<And>j. i \<le> j \<longleftrightarrow> j = i \<or> i + 1 \<le> j" by arith
    show ?thesis
    proof (cases "offs ! i \<ge> v")
      case a: True
      with True show ?thesis by (auto simp: checkLoop_range)
    next
      case a: False
      show ?thesis
      proof (cases "i > 0 \<and> fs ! i \<noteq> fs ! (i - 1)")
        case b: True
        with True a show ?thesis by (auto simp: checkLoop_set)
      next
        case b: False
        have step: "checkLoop offs fs v i n = checkLoop offs fs v (i + 1) n"
          using True a b by (simp add: checkLoop_step)
        have "(\<forall>j. i \<le> j \<and> j < n \<longrightarrow> offs ! j < v \<and> (j > 0 \<longrightarrow> fs ! j = fs ! (j - 1)))
          \<longleftrightarrow> (\<forall>j. i + 1 \<le> j \<and> j < n \<longrightarrow> offs ! j < v \<and> (j > 0 \<longrightarrow> fs ! j = fs ! (j - 1)))"
          using a b True unfolding split by auto
        with "1.IH"[OF True a b] step show ?thesis by simp
      qed
    qed
  qed
qed


lemma same_set_chain:
  fixes f :: "nat \<Rightarrow> 'a"
  shows "(\<forall>j<n. 0 < j \<longrightarrow> f j = f (j - 1)) \<longleftrightarrow> (\<forall>j<n. f j = f 0)"
proof
  assume a: "\<forall>j<n. 0 < j \<longrightarrow> f j = f (j - 1)"
  have "j < n \<Longrightarrow> f j = f 0" for j
  proof (induction j)
    case 0
    show ?case by simp
  next
    case (Suc j)
    then have "f (Suc j) = f j" using a by force
    with Suc show ?case by simp
  qed
  then show "\<forall>j<n. f j = f 0" by blast
next
  assume a: "\<forall>j<n. f j = f 0"
  show "\<forall>j<n. 0 < j \<longrightarrow> f j = f (j - 1)"
  proof (intro allI impI)
    fix j assume j: "j < n" "0 < j"
    then have j1: "j - 1 < n" by arith
    from a j(1) have "f j = f 0" by blast
    moreover from a j1 have "f (j - 1) = f 0" by blast
    ultimately show "f j = f (j - 1)" by simp
  qed
qed

lemma parseVectorFields_fst:
  assumes len: "length (offsets flds) = 4"
  shows "fst (parseVectorFields loc s v flds ctx) \<longleftrightarrow>
     length s \<le> 4
     \<and> (\<forall>j<length s. \<exists>off st. fieldOfChar (s ! j) = Some (off, st) \<and> off < v)
     \<and> (\<forall>j<length s. map_option snd (fieldOfChar (s ! j)) = map_option snd (fieldOfChar (s ! 0)))"
proof (cases "length s \<le> 4")
  case False
  then show ?thesis by (simp add: parseVectorFields_def Let_def)
next
  case True
  let ?n = "length s"
  obtain ok offs fs where d: "decodeLoop s 0 ?n (offsets flds) (replicate 4 None) = (ok, offs, fs)"
    by (cases "decodeLoop s 0 ?n (offsets flds) (replicate 4 None)")
  have ok: "ok \<longleftrightarrow> (\<forall>j<?n. fieldOfChar (s ! j) \<noteq> None)"
    using decodeLoop_ok_iff[of s 0 ?n "offsets flds" "replicate 4 None"] d by simp
  show ?thesis
  proof (cases ok)
    case False
    with ok obtain j where "j < ?n" "fieldOfChar (s ! j) = None" by blast
    then have "\<not> (\<forall>j<length s. \<exists>off st. fieldOfChar (s ! j) = Some (off, st) \<and> off < v)"
      by auto
    moreover have "\<not> fst (parseVectorFields loc s v flds ctx)"
      using True False d by (simp add: parseVectorFields_def Let_def)
    ultimately show ?thesis by blast
  next
    case okT: True
    have res: "\<forall>j<?n. fieldOfChar (s ! j) = Some (offs ! j, the (fs ! j)) \<and> fs ! j \<noteq> None"
      using decodeLoop_result[of s 0 ?n "offsets flds" "replicate 4 None" offs fs] d okT True len
      by simp
    have fstc: "fst (parseVectorFields loc s v flds ctx) \<longleftrightarrow> checkLoop offs fs v 0 ?n = FieldsOk"
      using True okT d
      by (simp add: parseVectorFields_def Let_def split: TFieldCheck.splits)
    have c: "checkLoop offs fs v 0 ?n = FieldsOk \<longleftrightarrow>
        (\<forall>j<?n. offs ! j < v) \<and> (\<forall>j<?n. 0 < j \<longrightarrow> fs ! j = fs ! (j - 1))"
      unfolding checkLoop_ok_iff by auto
    have r1: "(\<forall>j<?n. offs ! j < v) \<longleftrightarrow>
        (\<forall>j<?n. \<exists>off st. fieldOfChar (s ! j) = Some (off, st) \<and> off < v)"
      using res by auto
    have r2: "(\<forall>j<?n. fs ! j = fs ! 0) \<longleftrightarrow>
        (\<forall>j<?n. map_option snd (fieldOfChar (s ! j)) = map_option snd (fieldOfChar (s ! 0)))"
    proof (cases "?n = 0")
      case True
      then show ?thesis by simp
    next
      case False
      then have z: "0 < ?n" by simp
      have "\<And>j. j < ?n \<Longrightarrow> map_option snd (fieldOfChar (s ! j)) = fs ! j"
        using res by auto
      with z show ?thesis by auto
    qed
    show ?thesis
      unfolding fstc c same_set_chain r1 r2 using True by simp
  qed
qed

lemma valid_nth:
  "\<forall>j<length s. fieldOfChar (s ! j) \<noteq> None \<Longrightarrow> k < length s \<Longrightarrow>
   \<exists>off st. fieldOfChar (s ! k) = Some (off, st)"
  by (cases "fieldOfChar (s ! k)") auto

lemma spec_range_iff:
  assumes valid: "\<forall>j<length s. fieldOfChar (s ! j) \<noteq> None"
  shows "(\<forall>j<length s. \<exists>off st. fieldOfChar (s ! j) = Some (off, st) \<and> off < v)
     \<longleftrightarrow> \<not> (\<exists>c\<in>set s. \<exists>S\<in>set swizzleSets. \<exists>j<4. S ! j = c \<and> v \<le> int j)"
proof
  assume a: "\<forall>j<length s. \<exists>off st. fieldOfChar (s ! j) = Some (off, st) \<and> off < v"
  show "\<not> (\<exists>c\<in>set s. \<exists>S\<in>set swizzleSets. \<exists>j<4. S ! j = c \<and> v \<le> int j)"
  proof
    assume "\<exists>c\<in>set s. \<exists>S\<in>set swizzleSets. \<exists>j<4. S ! j = c \<and> v \<le> int j"
    then obtain c S j where c: "c \<in> set s" and S: "S \<in> set swizzleSets" and j: "j < 4"
      and Sj: "S ! j = c" and vj: "v \<le> int j" by blast
    from S obtain st where st: "S = fieldSetLetters st" unfolding swizzleSets_iff ..
    from fieldOfChar_of_letter[OF j, of st] st Sj
    have f: "fieldOfChar c = Some (int j, st)" by simp
    from c obtain k where "k < length s" "s ! k = c" by (auto simp: in_set_conv_nth)
    with a f have "int j < v" by auto
    with vj show False by simp
  qed
next
  assume b: "\<not> (\<exists>c\<in>set s. \<exists>S\<in>set swizzleSets. \<exists>j<4. S ! j = c \<and> v \<le> int j)"
  show "\<forall>j<length s. \<exists>off st. fieldOfChar (s ! j) = Some (off, st) \<and> off < v"
  proof (intro allI impI)
    fix k assume k: "k < length s"
    from valid_nth[OF valid k] obtain off st where f: "fieldOfChar (s ! k) = Some (off, st)"
      by blast
    from fieldOfChar_Some[OF f] obtain j where j: "j < 4" "fieldSetLetters st ! j = s ! k" "off = int j"
      by blast
    have "fieldSetLetters st \<in> set swizzleSets" unfolding swizzleSets_iff by blast
    moreover have "s ! k \<in> set s" using k by simp
    ultimately have "\<not> (\<exists>j<4. fieldSetLetters st ! j = s ! k \<and> v \<le> int j)"
      using b by blast
    with j have "\<not> v \<le> int j" by blast
    with f j show "\<exists>off st. fieldOfChar (s ! k) = Some (off, st) \<and> off < v" by simp
  qed
qed

lemma spec_same_set_iff:
  assumes valid: "\<forall>j<length s. fieldOfChar (s ! j) \<noteq> None"
  shows "(\<forall>j<length s. map_option snd (fieldOfChar (s ! j)) = map_option snd (fieldOfChar (s ! 0)))
     \<longleftrightarrow> (\<exists>S\<in>set swizzleSets. set s \<subseteq> set S)"
proof
  assume a: "\<forall>j<length s. map_option snd (fieldOfChar (s ! j)) = map_option snd (fieldOfChar (s ! 0))"
  show "\<exists>S\<in>set swizzleSets. set s \<subseteq> set S"
  proof (cases "s = []")
    case True
    then show ?thesis by (auto simp: swizzleSets_def)
  next
    case False
    then have z: "0 < length s" by simp
    from valid_nth[OF valid z] obtain off0 st0 where f0: "fieldOfChar (s ! 0) = Some (off0, st0)"
      by blast
    have "set s \<subseteq> set (fieldSetLetters st0)"
    proof
      fix c assume "c \<in> set s"
      then obtain k where k: "k < length s" "s ! k = c" by (auto simp: in_set_conv_nth)
      from valid_nth[OF valid k(1)] k(2) obtain off st where f: "fieldOfChar c = Some (off, st)"
        by auto
      from a k(1) have "map_option snd (fieldOfChar (s ! k)) = map_option snd (fieldOfChar (s ! 0))"
        by blast
      with k(2) f f0 have "st = st0" by simp
      with f show "c \<in> set (fieldSetLetters st0)" unfolding in_letters_iff by blast
    qed
    moreover have "fieldSetLetters st0 \<in> set swizzleSets" unfolding swizzleSets_iff by blast
    ultimately show ?thesis by blast
  qed
next
  assume "\<exists>S\<in>set swizzleSets. set s \<subseteq> set S"
  then obtain S where S: "S \<in> set swizzleSets" "set s \<subseteq> set S" by blast
  then obtain st where st: "S = fieldSetLetters st" unfolding swizzleSets_iff by blast
  have *: "\<And>k. k < length s \<Longrightarrow> map_option snd (fieldOfChar (s ! k)) = Some st"
  proof -
    fix k assume "k < length s"
    then have "s ! k \<in> set (fieldSetLetters st)" using S st by auto
    then show "map_option snd (fieldOfChar (s ! k)) = Some st" unfolding in_letters_iff by auto
  qed
  show "\<forall>j<length s. map_option snd (fieldOfChar (s ! j)) = map_option snd (fieldOfChar (s ! 0))"
  proof (intro allI impI)
    fix j assume j: "j < length s"
    then have "0 < length s" by auto
    note a = *[OF this] and b = *[OF j]
    show "map_option snd (fieldOfChar (s ! j)) = map_option snd (fieldOfChar (s ! 0))"
      unfolding a b ..
  qed
qed

lemma spec_valid_iff:
  "(\<forall>j<length s. fieldOfChar (s ! j) \<noteq> None) \<longleftrightarrow> \<not> (\<exists>c\<in>set s. c \<notin> set ''xyzwrgbastpq'')"
proof -
  have "(\<forall>j<length s. fieldOfChar (s ! j) \<noteq> None) \<longleftrightarrow> (\<forall>c\<in>set s. fieldOfChar c \<noteq> None)"
    unfolding all_set_conv_all_nth by blast
  also have "\<dots> \<longleftrightarrow> \<not> (\<exists>c\<in>set s. c \<notin> set ''xyzwrgbastpq'')"
    unfolding fieldOfChar_None_iff by blast
  finally show ?thesis .
qed

lemma false_iff_prop:
  "\<not> B \<Longrightarrow> (L \<longleftrightarrow> \<not> A) \<Longrightarrow> (\<not> (L \<and> \<not> R \<and> S)) = (A \<or> B \<or> R \<or> \<not> S)"
  by blast

lemma parseVectorFields_false_iff:
  assumes len: "length (offsets flds) = 4"
  shows "\<not> fst (parseVectorFields loc s v flds ctx) \<longleftrightarrow>
     4 < length s
     \<or> (\<exists>c\<in>set s. c \<notin> set ''xyzwrgbastpq'')
     \<or> (\<exists>c\<in>set s. \<exists>S\<in>set swizzleSets. \<exists>j<4. S ! j = c \<and> v \<le> int j)
     \<or> \<not> (\<exists>S\<in>set swizzleSets. set s \<subseteq> set S)"
proof (cases "\<forall>j<length s. fieldOfChar (s ! j) \<noteq> None")
  case True
  have v: "\<not> (\<exists>c\<in>set s. c \<notin> set ''xyzwrgbastpq'')" using True unfolding spec_valid_iff .
  show ?thesis
    unfolding parseVectorFields_fst[OF len] spec_range_iff[OF True] spec_same_set_iff[OF True]
    by (rule false_iff_prop[OF v]) arith
next
  case False
  then have v: "\<exists>c\<in>set s. c \<notin> set ''xyzwrgbastpq''" unfolding spec_valid_iff by simp
  from False have "\<not> (\<forall>j<length s. \<exists>off st. fieldOfChar (s ! j) = Some (off, st) \<and> off < v)"
    by auto
  then have "\<not> fst (parseVectorFields loc s v flds ctx)"
    unfolding parseVectorFields_fst[OF len] by blast
  with v show ?thesis by blast
qed

lemma parseVectorFields_diag:
  "parseVectorFields loc s v flds ctx = (ok, flds', ctx') \<Longrightarrow>
   (\<not> ok \<longrightarrow> (\<exists>d. infoSink ctx' = infoSink ctx @ [d] \<and> dPrefix d = EPrefixError)
             \<and> numErrors ctx' = numErrors ctx + 1)
   \<and> (ok \<longrightarrow> ctx' = ctx \<and> num flds' = int (length s))"
proof -
  assume r: "parseVectorFields loc s v flds ctx = (ok, flds', ctx')"
  obtain ok1 offs fs where d: "decodeLoop s 0 (length s) (offsets flds) (replicate 4 None) = (ok1, offs, fs)"
    by (cases "decodeLoop s 0 (length s) (offsets flds) (replicate 4 None)")
  show ?thesis
  proof (cases "4 < length s")
    case True
    with r show ?thesis by (auto simp: parseVectorFields_def Let_def error_def)
  next
    case n4: False
    show ?thesis
    proof (cases ok1)
      case False
      with r n4 d show ?thesis by (auto simp: parseVectorFields_def Let_def error_def)
    next
      case True
      with r n4 d show ?thesis
        by (cases "checkLoop offs fs v 0 (length s)")
           (auto simp: parseVectorFields_def Let_def error_def)
    qed
  qed
qed

lemma parseVectorFields_offsets:
  assumes len: "length (offsets flds) = 4"
    and r: "parseVectorFields loc s v flds ctx = (True, flds', ctx')"
  shows "\<forall>i<length s. \<exists>S\<in>set swizzleSets. \<exists>j<4. S ! j = s ! i \<and> offsets flds' ! i = int j"
proof -
  have n4: "length s \<le> 4" using r by (auto simp: parseVectorFields_def Let_def split: if_splits)
  let ?n = "length s"
  obtain ok offs fs where d: "decodeLoop s 0 ?n (offsets flds) (replicate 4 None) = (ok, offs, fs)"
    by (cases "decodeLoop s 0 ?n (offsets flds) (replicate 4 None)")
  have okT: ok and o: "offsets flds' = offs"
    using r n4 d by (auto simp: parseVectorFields_def Let_def split: bool.splits TFieldCheck.splits)
  have res: "\<forall>j<?n. fieldOfChar (s ! j) = Some (offs ! j, the (fs ! j)) \<and> fs ! j \<noteq> None"
    using decodeLoop_result[of s 0 ?n "offsets flds" "replicate 4 None" offs fs] d okT n4 len
    by simp
  show ?thesis
  proof (intro allI impI)
    fix i assume "i < ?n"
    with res have f: "fieldOfChar (s ! i) = Some (offs ! i, the (fs ! i))" by simp
    from fieldOfChar_Some[OF f] obtain j where "j < 4" "fieldSetLetters (the (fs ! i)) ! j = s ! i"
      "offs ! i = int j" by blast
    moreover have "fieldSetLetters (the (fs ! i)) \<in> set swizzleSets" unfolding swizzleSets_iff by blast
    ultimately show "\<exists>S\<in>set swizzleSets. \<exists>j<4. S ! j = s ! i \<and> offsets flds' ! i = int j"
      using o by blast
  qed
qed

text \<open>Claim C5. For every selector string and vector size, \<^verbatim>\<open>parseVectorFields\<close> returns
  false exactly when the string has more than four characters, or has a character outside
  \<open>xyzw\<close>, \<open>rgba\<close>, \<open>stpq\<close>, or has a character whose lane index is not below the vector size,
  or is not drawn from one single set; a false return comes with exactly one more error in the
  sink. A true return leaves the context alone, sets \<open>num\<close> to the length and \<open>offsets[i]\<close> to
  the lane index (the position in its set) of character \<open>i\<close>.\<close>

theorem parseVectorFields_correct:
  assumes len: "length (offsets flds) = 4"
  shows "case parseVectorFields loc s vecSize flds ctx of (ok, flds', ctx') \<Rightarrow>
     (\<not> ok \<longleftrightarrow>
        4 < length s
        \<or> (\<exists>c\<in>set s. c \<notin> set ''xyzwrgbastpq'')
        \<or> (\<exists>c\<in>set s. \<exists>S\<in>set swizzleSets. \<exists>j<4. S ! j = c \<and> vecSize \<le> int j)
        \<or> \<not> (\<exists>S\<in>set swizzleSets. set s \<subseteq> set S))
     \<and> (\<not> ok \<longrightarrow> (\<exists>d. infoSink ctx' = infoSink ctx @ [d] \<and> dPrefix d = EPrefixError)
                  \<and> numErrors ctx' = numErrors ctx + 1)
     \<and> (ok \<longrightarrow> ctx' = ctx \<and> num flds' = int (length s)
              \<and> (\<forall>i<length s. \<exists>S\<in>set swizzleSets. \<exists>j<4.
                    S ! j = s ! i \<and> offsets flds' ! i = int j))"
proof -
  obtain ok flds' ctx' where r: "parseVectorFields loc s vecSize flds ctx = (ok, flds', ctx')"
    by (cases "parseVectorFields loc s vecSize flds ctx")
  have a: "\<not> ok \<longleftrightarrow>
        4 < length s
        \<or> (\<exists>c\<in>set s. c \<notin> set ''xyzwrgbastpq'')
        \<or> (\<exists>c\<in>set s. \<exists>S\<in>set swizzleSets. \<exists>j<4. S ! j = c \<and> vecSize \<le> int j)
        \<or> \<not> (\<exists>S\<in>set swizzleSets. set s \<subseteq> set S)"
    using parseVectorFields_false_iff[OF len, of loc s vecSize ctx] r by simp
  have b: "(\<not> ok \<longrightarrow> (\<exists>d. infoSink ctx' = infoSink ctx @ [d] \<and> dPrefix d = EPrefixError)
             \<and> numErrors ctx' = numErrors ctx + 1)
       \<and> (ok \<longrightarrow> ctx' = ctx \<and> num flds' = int (length s))"
    using parseVectorFields_diag[OF r] .
  have c: "ok \<longrightarrow> (\<forall>i<length s. \<exists>S\<in>set swizzleSets. \<exists>j<4.
                    S ! j = s ! i \<and> offsets flds' ! i = int j)"
  proof
    assume ok
    with r have "parseVectorFields loc s vecSize flds ctx = (True, flds', ctx')" by simp
    from parseVectorFields_offsets[OF len this] show "\<forall>i<length s. \<exists>S\<in>set swizzleSets. \<exists>j<4.
                    S ! j = s ! i \<and> offsets flds' ! i = int j" .
  qed
  show ?thesis unfolding r prod.case using a b c by blast
qed


theorem parseVectorFields_correct_witness:
  "length (offsets \<lparr>offsets = [7, 7, 7, 7], num = 0\<rparr>) = 4
   \<and> parseVectorFields loc0 ''xy'' 2 \<lparr>offsets = [7, 7, 7, 7], num = 0\<rparr> desktopContext
       = (True, \<lparr>offsets = [0, 1, 7, 7], num = 2\<rparr>, desktopContext)
   \<and> (\<exists>S\<in>set swizzleSets. \<exists>j<4.
         S ! j = ''xy'' ! 0 \<and> offsets \<lparr>offsets = [0, 1, 7, 7], num = 2\<rparr> ! 0 = int j)
   \<and> (\<exists>S\<in>set swizzleSets. \<exists>j<4.
         S ! j = ''xy'' ! 1 \<and> offsets \<lparr>offsets = [0, 1, 7, 7], num = 2\<rparr> ! 1 = int j)
   \<and> \<not> (4 < length ''xy''
        \<or> (\<exists>c\<in>set ''xy''. c \<notin> set ''xyzwrgbastpq'')
        \<or> (\<exists>c\<in>set ''xy''. \<exists>S\<in>set swizzleSets. \<exists>j<4. S ! j = c \<and> 2 \<le> int j)
        \<or> \<not> (\<exists>S\<in>set swizzleSets. set ''xy'' \<subseteq> set S))"
proof -
  have h: "length (offsets \<lparr>offsets = [7, 7, 7, 7], num = 0\<rparr>) = 4" by simp
  have e: "parseVectorFields loc0 ''xy'' 2 \<lparr>offsets = [7, 7, 7, 7], num = 0\<rparr> desktopContext
    = (True, \<lparr>offsets = [0, 1, 7, 7], num = 2\<rparr>, desktopContext)"
    by (simp add: parseVectorFields_def decodeLoop.simps checkLoop.simps fieldOfChar_def)
  note t = parseVectorFields_correct[OF h, where loc = loc0 and s = "''xy''" and vecSize = 2
      and ctx = desktopContext]
  from t have c: "\<forall>i<length ''xy''. \<exists>S\<in>set swizzleSets. \<exists>j<4.
         S ! j = ''xy'' ! i \<and> offsets \<lparr>offsets = [0, 1, 7, 7], num = 2\<rparr> ! i = int j"
    and n: "\<not> (4 < length ''xy''
        \<or> (\<exists>c\<in>set ''xy''. c \<notin> set ''xyzwrgbastpq'')
        \<or> (\<exists>c\<in>set ''xy''. \<exists>S\<in>set swizzleSets. \<exists>j<4. S ! j = c \<and> 2 \<le> int j)
        \<or> \<not> (\<exists>S\<in>set swizzleSets. set ''xy'' \<subseteq> set S))"
    unfolding e prod.case by blast+
  have l: "(0::nat) < length ''xy''" "(1::nat) < length ''xy''" by simp_all
  from c l(1) have c0: "\<exists>S\<in>set swizzleSets. \<exists>j<4.
         S ! j = ''xy'' ! 0 \<and> offsets \<lparr>offsets = [0, 1, 7, 7], num = 2\<rparr> ! 0 = int j" by blast
  from c l(2) have c1: "\<exists>S\<in>set swizzleSets. \<exists>j<4.
         S ! j = ''xy'' ! 1 \<and> offsets \<lparr>offsets = [0, 1, 7, 7], num = 2\<rparr> ! 1 = int j" by blast
  from h e c0 c1 n show ?thesis by blast
qed


section \<open>Qualifier merging: the storage table and the merge of a qualifier with itself\<close>

lemma error_fields [simp]:
  "infoSink (error loc r t f a ctx) =
     infoSink ctx @ [\<lparr> dPrefix = EPrefixError, dLoc = Some loc, dToken = t, dReason = r,
                        dExtraInfoFormat = f, dExtraArgs = a \<rparr>]"
  "numErrors (error loc r t f a ctx) = numErrors ctx + 1"
  "version (error loc r t f a ctx) = version ctx"
  "sentinels (error loc r t f a ctx) = sentinels ctx"
  "symbolTable (error loc r t f a ctx) = symbolTable ctx"
  "switchSequenceStack (error loc r t f a ctx) = switchSequenceStack ctx"
  "inductiveLoopIds (error loc r t f a ctx) = inductiveLoopIds ctx"
  "needsIndexLimitationChecking (error loc r t f a ctx) = needsIndexLimitationChecking ctx"
  "anyIndexLimits (error loc r t f a ctx) = anyIndexLimits ctx"
  "limits (error loc r t f a ctx) = limits ctx"
  "language (error loc r t f a ctx) = language ctx"
  "profile (error loc r t f a ctx) = profile ctx"
  by (simp_all add: error_def)

lemma appendsOther_refl: "appendsOther r ctx ctx"
  by (simp add: appendsOther_def)

lemma appendsOther_error: "r \<noteq> r' \<Longrightarrow> appendsOther r ctx (error loc r' t f a ctx)"
  by (simp add: appendsOther_def)

lemma appendsOther_trans:
  "appendsOther r c1 c2 \<Longrightarrow> appendsOther r c2 c3 \<Longrightarrow> appendsOther r c1 c3"
  unfolding appendsOther_def by auto

lemma appendsOther_count:
  "appendsOther r ctx ctx' \<Longrightarrow> count_list (emittedReasons ctx ctx') r = 0"
  unfolding appendsOther_def emittedReasons_def by auto

lemma mergeMultipleCheck_other:
  "appendsOther ''too many storage qualifiers'' ctx (mergeMultipleCheck loc dst src ctx)"
  unfolding mergeMultipleCheck_def Let_def
  by (auto intro!: appendsOther_refl appendsOther_error
      intro: appendsOther_trans[OF appendsOther_error appendsOther_error])

lemma mergeOrderingCheck_other:
  "appendsOther ''too many storage qualifiers'' ctx (mergeOrderingCheck loc dst src force ctx)"
  unfolding mergeOrderingCheck_def Let_def
  by (auto intro!: appendsOther_refl appendsOther_error
      intro: appendsOther_trans[OF appendsOther_error appendsOther_error])


lemma mergeStorage_storage:
  "storage (fst (mergeStorage ext loc dst src ctx)) =
     (if storage dst = EvqTemporary \<or> storage dst = EvqGlobal then storage src
      else if (storage dst = EvqIn \<and> storage src = EvqOut)
           \<or> (storage dst = EvqOut \<and> storage src = EvqIn) then EvqInOut
      else if (storage dst = EvqIn \<and> storage src = EvqConst)
           \<or> (storage dst = EvqConst \<and> storage src = EvqIn) then EvqConstReadOnly
      else storage dst)"
  unfolding mergeStorage_def by simp

lemma mergeStorage_ctx:
  "version (snd (mergeStorage ext loc dst src ctx)) = version ctx"
  "sentinels (snd (mergeStorage ext loc dst src ctx)) = sentinels ctx"
  unfolding mergeStorage_def by simp_all

lemma mergeStorage_count:
  "count_list (emittedReasons ctx (snd (mergeStorage ext loc dst src ctx)))
       ''too many storage qualifiers'' =
     (if \<not> (storage dst = EvqTemporary \<or> storage dst = EvqGlobal)
         \<and> \<not> ((storage dst = EvqIn \<and> storage src = EvqOut)
               \<or> (storage dst = EvqOut \<and> storage src = EvqIn))
         \<and> \<not> ((storage dst = EvqIn \<and> storage src = EvqConst)
               \<or> (storage dst = EvqConst \<and> storage src = EvqIn))
         \<and> storage src \<noteq> EvqTemporary then 1 else 0)"
  unfolding mergeStorage_def emittedReasons_def by simp

lemma mergeStorage_sink:
  "\<exists>ds. infoSink (snd (mergeStorage ext loc dst src ctx)) = infoSink ctx @ ds"
  unfolding mergeStorage_def by simp

lemma mergePrecision_other:
  "appendsOther ''too many storage qualifiers'' ctx (snd (mergePrecision ext loc dst src force ctx))"
  unfolding mergePrecision_def Let_def
  by (auto intro!: appendsOther_refl appendsOther_error)

lemma mergePrecision_storage:
  "storage (fst (mergePrecision ext loc dst src force ctx)) = storage dst"
  unfolding mergePrecision_def Let_def by simp

lemma mergeLayoutQualifiers_storage:
  "storage (mergeLayoutQualifiers k loc dst src) = storage dst"
  unfolding mergeLayoutQualifiers_def Let_def by simp

lemma mergeSingletons_other:
  "appendsOther ''too many storage qualifiers'' ctx (snd (mergeSingletons loc dst src ctx))"
  unfolding mergeSingletons_def Let_def
  by (auto intro!: appendsOther_refl appendsOther_error)

lemma mergeSingletons_storage:
  "storage (fst (mergeSingletons loc dst src ctx)) = storage dst"
  unfolding mergeSingletons_def Let_def by simp

lemma emitted_split:
  assumes a: "appendsOther r c0 c1"
    and s: "\<exists>ds. infoSink c2 = infoSink c1 @ ds"
    and b: "appendsOther r c2 c3"
  shows "count_list (emittedReasons c0 c3) r = count_list (emittedReasons c1 c2) r"
proof -
  from a obtain d1 where d1: "infoSink c1 = infoSink c0 @ d1" "r \<notin> set (map dReason d1)"
    unfolding appendsOther_def by blast
  from s obtain d2 where d2: "infoSink c2 = infoSink c1 @ d2" by blast
  from b obtain d3 where d3: "infoSink c3 = infoSink c2 @ d3" "r \<notin> set (map dReason d3)"
    unfolding appendsOther_def by blast
  have "emittedReasons c0 c3 = map dReason d1 @ map dReason d2 @ map dReason d3"
    unfolding emittedReasons_def d3(1) d2 d1(1) by simp
  moreover have "emittedReasons c1 c2 = map dReason d2"
    unfolding emittedReasons_def d2 by simp
  ultimately show ?thesis using d1(2) d3(2) by simp
qed

text \<open>Claim C6. The storage of the merged qualifier follows the merge table: the storage of
  \<open>src\<close> when \<open>dst\<close> is temporary or global; \<open>inout\<close> for \<open>in\<close> with \<open>out\<close> in either order;
  \<open>const_readonly\<close> for \<open>in\<close> with \<open>const\<close> in either order; the storage of \<open>dst\<close> unchanged in
  every other case, and there, when \<open>src\<close> is not temporary, exactly one error
  \<open>too many storage qualifiers\<close>; in no other case is that error reported.\<close>

theorem mergeQualifiers_storage_table:
  "case mergeQualifiers ext loc dst src force ctx of (dst', ctx') \<Rightarrow>
     storage dst' =
       (if storage dst = EvqTemporary \<or> storage dst = EvqGlobal then storage src
        else if (storage dst = EvqIn \<and> storage src = EvqOut)
             \<or> (storage dst = EvqOut \<and> storage src = EvqIn) then EvqInOut
        else if (storage dst = EvqIn \<and> storage src = EvqConst)
             \<or> (storage dst = EvqConst \<and> storage src = EvqIn) then EvqConstReadOnly
        else storage dst)
     \<and> count_list (emittedReasons ctx ctx') ''too many storage qualifiers'' =
       (if \<not> (storage dst = EvqTemporary \<or> storage dst = EvqGlobal)
           \<and> \<not> ((storage dst = EvqIn \<and> storage src = EvqOut)
                 \<or> (storage dst = EvqOut \<and> storage src = EvqIn))
           \<and> \<not> ((storage dst = EvqIn \<and> storage src = EvqConst)
                 \<or> (storage dst = EvqConst \<and> storage src = EvqIn))
           \<and> storage src \<noteq> EvqTemporary then 1 else 0)"
proof -
  let ?r = "''too many storage qualifiers''"
  define ctx1 where "ctx1 = mergeMultipleCheck loc dst src ctx"
  define ctx2 where "ctx2 = mergeOrderingCheck loc dst src force ctx1"
  define st where "st = mergeStorage ext loc dst src ctx2"
  define pr where "pr = mergePrecision ext loc (fst st) src force (snd st)"
  define dst3 where "dst3 = mergeLayoutQualifiers (sentinels (snd pr)) loc (fst pr) src"
  define res where "res = mergeSingletons loc dst3 src (snd pr)"
  have unfold: "mergeQualifiers ext loc dst src force ctx = res"
    unfolding mergeQualifiers_def res_def dst3_def pr_def st_def ctx2_def ctx1_def Let_def
    by (simp add: case_prod_unfold)
  have sto: "storage (fst res) = storage (fst st)"
    unfolding res_def dst3_def pr_def
    by (simp add: mergeSingletons_storage mergeLayoutQualifiers_storage mergePrecision_storage)
  have a: "appendsOther ?r ctx ctx2"
    unfolding ctx2_def ctx1_def
    by (rule appendsOther_trans[OF mergeMultipleCheck_other mergeOrderingCheck_other])
  have b: "appendsOther ?r (snd st) (snd res)"
    unfolding res_def pr_def
    by (rule appendsOther_trans[OF mergePrecision_other mergeSingletons_other])
  have s: "\<exists>ds. infoSink (snd st) = infoSink ctx2 @ ds"
    unfolding st_def by (rule mergeStorage_sink)
  have cnt: "count_list (emittedReasons ctx (snd res)) ?r
      = count_list (emittedReasons ctx2 (snd st)) ?r"
    by (rule emitted_split[OF a s b])
  show ?thesis
    unfolding unfold case_prod_unfold sto cnt
    unfolding st_def mergeStorage_storage mergeStorage_count
    by (rule conjI) (rule refl)+
qed


lemma mergeLayoutQualifiers_self: "mergeLayoutQualifiers k loc q q = q"
  unfolding mergeLayoutQualifiers_def Let_def by simp

lemma mergeSingletons_self: "fst (mergeSingletons loc q q ctx) = q"
  unfolding mergeSingletons_def Let_def by simp

lemma mergePrecision_self: "fst (mergePrecision ext loc q q True ctx) = q"
  unfolding mergePrecision_def Let_def by simp

lemma mergeStorage_self: "fst (mergeStorage ext loc q q ctx) = q"
  unfolding mergeStorage_def by simp

text \<open>Claim C7. Merging a qualifier into a copy of itself with \<open>force\<close> set gives the
  qualifier back: storage, precision, every flag and every layout field are the ones of \<open>q\<close>
  (so a layout field that is unset in \<open>q\<close> is unset in the result).\<close>

theorem mergeQualifiers_self_force:
  "fst (mergeQualifiers ext loc q q True ctx) = q"
proof -
  define ctx2 where "ctx2 = mergeOrderingCheck loc q q True (mergeMultipleCheck loc q q ctx)"
  define st where "st = mergeStorage ext loc q q ctx2"
  define pr where "pr = mergePrecision ext loc (fst st) q True (snd st)"
  have st: "fst st = q" unfolding st_def by (rule mergeStorage_self)
  have pr: "fst pr = q" unfolding pr_def st by (rule mergePrecision_self)
  have "mergeQualifiers ext loc q q True ctx
      = mergeSingletons loc (mergeLayoutQualifiers (sentinels (snd pr)) loc (fst pr) q) q (snd pr)"
    unfolding mergeQualifiers_def pr_def st_def ctx2_def Let_def
    by (simp add: case_prod_unfold)
  then show ?thesis
    by (simp only: pr mergeLayoutQualifiers_self mergeSingletons_self)
qed


theorem mergeQualifiers_storage_table_witness:
  "storage (fst (mergeQualifiers plainExternals loc0
        ((clearQualifier theSentinels)\<lparr>storage := EvqIn\<rparr>)
        ((clearQualifier theSentinels)\<lparr>storage := EvqOut\<rparr>) False desktopContext)) = EvqInOut
   \<and> count_list (emittedReasons desktopContext (snd (mergeQualifiers plainExternals loc0
        ((clearQualifier theSentinels)\<lparr>storage := EvqIn\<rparr>)
        ((clearQualifier theSentinels)\<lparr>storage := EvqOut\<rparr>) False desktopContext)))
        ''too many storage qualifiers'' = 0
   \<and> storage (fst (mergeQualifiers plainExternals loc0
        ((clearQualifier theSentinels)\<lparr>storage := EvqUniform\<rparr>)
        ((clearQualifier theSentinels)\<lparr>storage := EvqOut\<rparr>) False desktopContext)) = EvqUniform
   \<and> count_list (emittedReasons desktopContext (snd (mergeQualifiers plainExternals loc0
        ((clearQualifier theSentinels)\<lparr>storage := EvqUniform\<rparr>)
        ((clearQualifier theSentinels)\<lparr>storage := EvqOut\<rparr>) False desktopContext)))
        ''too many storage qualifiers'' = 1"
  using mergeQualifiers_storage_table[where ext = plainExternals and loc = loc0
        and dst = "(clearQualifier theSentinels)\<lparr>storage := EvqIn\<rparr>"
        and src = "(clearQualifier theSentinels)\<lparr>storage := EvqOut\<rparr>" and force = False
        and ctx = desktopContext]
      mergeQualifiers_storage_table[where ext = plainExternals and loc = loc0
        and dst = "(clearQualifier theSentinels)\<lparr>storage := EvqUniform\<rparr>"
        and src = "(clearQualifier theSentinels)\<lparr>storage := EvqOut\<rparr>" and force = False
        and ctx = desktopContext]
  by (simp add: case_prod_unfold)

theorem mergeQualifiers_self_force_witness:
  "fst (mergeQualifiers plainExternals loc0
        ((clearQualifier theSentinels)\<lparr>storage := EvqUniform, precision := EpqHigh,
            flat := True, layoutPacking := ElpStd140, layoutBinding := 3\<rparr>)
        ((clearQualifier theSentinels)\<lparr>storage := EvqUniform, precision := EpqHigh,
            flat := True, layoutPacking := ElpStd140, layoutBinding := 3\<rparr>) True desktopContext)
   = (clearQualifier theSentinels)\<lparr>storage := EvqUniform, precision := EpqHigh,
            flat := True, layoutPacking := ElpStd140, layoutBinding := 3\<rparr>
   \<and> hasBinding theSentinels (fst (mergeQualifiers plainExternals loc0
        ((clearQualifier theSentinels)\<lparr>storage := EvqUniform, precision := EpqHigh,
            flat := True, layoutPacking := ElpStd140, layoutBinding := 3\<rparr>)
        ((clearQualifier theSentinels)\<lparr>storage := EvqUniform, precision := EpqHigh,
            flat := True, layoutPacking := ElpStd140, layoutBinding := 3\<rparr>) True desktopContext))
   \<and> \<not> hasLocation theSentinels (fst (mergeQualifiers plainExternals loc0
        ((clearQualifier theSentinels)\<lparr>storage := EvqUniform, precision := EpqHigh,
            flat := True, layoutPacking := ElpStd140, layoutBinding := 3\<rparr>)
        ((clearQualifier theSentinels)\<lparr>storage := EvqUniform, precision := EpqHigh,
            flat := True, layoutPacking := ElpStd140, layoutBinding := 3\<rparr>) True desktopContext))"
  unfolding mergeQualifiers_self_force
  by (simp add: hasBinding_def hasLocation_def clearQualifier_def theSentinels_def)


section \<open>The driver entry: the order of its checks\<close>

lemma nullCheckLoop_first:
  "i \<le> k \<Longrightarrow> k < length strs \<Longrightarrow> int k < numStrings \<Longrightarrow> strs ! k = None \<Longrightarrow>
   (\<forall>j. i \<le> j \<and> j < k \<longrightarrow> strs ! j \<noteq> None) \<Longrightarrow>
   nullCheckLoop strs i numStrings = Some (Some k)"
proof (induction "k - i" arbitrary: i)
  case 0
  then have "i = k" by simp
  with 0 show ?case by (subst nullCheckLoop.simps) simp
next
  case (Suc d)
  then have ik: "i < k" by arith
  with Suc.prems have "strs ! i \<noteq> None" by simp
  then obtain s where s: "strs ! i = Some s" by blast
  have step: "nullCheckLoop strs i numStrings = nullCheckLoop strs (i + 1) numStrings"
    using ik Suc.prems s by (subst nullCheckLoop.simps) simp
  have "nullCheckLoop strs (i + 1) numStrings = Some (Some k)"
  proof (rule Suc.hyps(1))
    show "d = k - (i + 1)" using Suc.hyps(2) by arith
    show "i + 1 \<le> k" using ik by arith
    show "\<forall>j. i + 1 \<le> j \<and> j < k \<longrightarrow> strs ! j \<noteq> None" using Suc.prems(5) by auto
  qed (use Suc.prems in simp_all)
  with step show ?case by simp
qed

lemma nullCheckLoop_none:
  "numStrings \<le> int (length strs) \<Longrightarrow>
   (\<forall>j. i \<le> j \<and> int j < numStrings \<longrightarrow> strs ! j \<noteq> None) \<Longrightarrow>
   nullCheckLoop strs i numStrings = Some None"
proof (induction "nat (numStrings - int i)" arbitrary: i)
  case 0
  then have "\<not> int i < numStrings" by simp
  then show ?case by (subst nullCheckLoop.simps) simp
next
  case (Suc d)
  then have lt: "int i < numStrings" by arith
  with Suc.prems have il: "i < length strs" by simp
  from lt Suc.prems have "strs ! i \<noteq> None" by simp
  then obtain s where s: "strs ! i = Some s" by blast
  have step: "nullCheckLoop strs i numStrings = nullCheckLoop strs (i + 1) numStrings"
    using lt il s by (subst nullCheckLoop.simps) simp
  have "nullCheckLoop strs (i + 1) numStrings = Some None"
  proof (rule Suc.hyps(1))
    show "d = nat (numStrings - int (i + 1))" using Suc.hyps(2) by arith
    show "numStrings \<le> int (length strs)" by fact
    show "\<forall>j. i + 1 \<le> j \<and> int j < numStrings \<longrightarrow> strs ! j \<noteq> None" using Suc.prems(2) by auto
  qed
  with step show ?case by simp
qed

lemma whiteSpaceLoop_all:
  "len < firstLen \<Longrightarrow> firstLen \<le> length s \<Longrightarrow>
   (\<forall>j. len \<le> j \<and> j < firstLen \<longrightarrow> isWhiteSpace (s ! j)) \<Longrightarrow>
   whiteSpaceLoop s firstLen len = Some True"
proof (induction "firstLen - len" arbitrary: len)
  case 0
  then show ?case by simp
next
  case (Suc d)
  have ws: "isWhiteSpace (s ! len)" using Suc.prems by simp
  have ll: "len < length s" using Suc.prems by simp
  show ?case
  proof (cases "len + 1 \<ge> firstLen")
    case True
    with ws ll show ?thesis by (subst whiteSpaceLoop.simps) simp
  next
    case False
    have step: "whiteSpaceLoop s firstLen len = whiteSpaceLoop s firstLen (len + 1)"
      using False ws ll by (subst whiteSpaceLoop.simps) simp
    have "whiteSpaceLoop s firstLen (len + 1) = Some True"
    proof (rule Suc.hyps(1))
      show "d = firstLen - (len + 1)" using Suc.hyps(2) by arith
      show "len + 1 < firstLen" using False by arith
      show "firstLen \<le> length s" by fact
      show "\<forall>j. len + 1 \<le> j \<and> j < firstLen \<longrightarrow> isWhiteSpace (s ! j)" using Suc.prems(3) by auto
    qed
    with step show ?thesis by simp
  qed
qed

lemma whiteSpaceLoop_not:
  "len \<le> k \<Longrightarrow> k < firstLen \<Longrightarrow> k < length s \<Longrightarrow> \<not> isWhiteSpace (s ! k) \<Longrightarrow>
   whiteSpaceLoop s firstLen len = Some False"
proof (induction "k - len" arbitrary: len)
  case 0
  then have "len = k" by simp
  with 0 show ?case by (subst whiteSpaceLoop.simps) simp
next
  case (Suc d)
  then have lk: "len < k" by arith
  then have ll: "len < length s" using Suc.prems by simp
  show ?case
  proof (cases "isWhiteSpace (s ! len)")
    case False
    with ll show ?thesis by (subst whiteSpaceLoop.simps) simp
  next
    case True
    have "\<not> len + 1 \<ge> firstLen" using lk Suc.prems(2) by arith
    then have step: "whiteSpaceLoop s firstLen len = whiteSpaceLoop s firstLen (len + 1)"
      using True ll by (subst whiteSpaceLoop.simps) simp
    have "whiteSpaceLoop s firstLen (len + 1) = Some False"
    proof (rule Suc.hyps(1))
      show "d = k - (len + 1)" using Suc.hyps(2) by arith
      show "len + 1 \<le> k" using lk by arith
    qed (use Suc.prems in simp_all)
    with step show ?thesis by simp
  qed
qed


lemma parseShaderStrings_null:
  assumes "numStrings \<noteq> 0" "firstLen \<noteq> 0" "k < length strs" "int k < numStrings"
    "strs ! k = None" "\<forall>j<k. strs ! j \<noteq> None"
  shows "parseShaderStrings ext pp (Some strs) (firstLen # ls) numStrings ctx =
     Some (False, pp, error \<lparr> loc_string = int k, loc_line = 1 \<rparr>
                        ''Null shader source string'' [] [] [] ctx)"
proof -
  have "nullCheckLoop strs 0 numStrings = Some (Some k)"
    using assms by (intro nullCheckLoop_first) auto
  with assms(1,2) show ?thesis by (simp add: parseShaderStrings_def)
qed

lemma parseShaderStrings_white:
  assumes "numStrings \<noteq> 0" "firstLen \<noteq> 0" "numStrings \<le> int (length (Some firstStr # rest))"
    "\<forall>j<length (Some firstStr # rest). int j < numStrings \<longrightarrow> (Some firstStr # rest) ! j \<noteq> None"
    "firstLen \<le> length firstStr" "\<forall>j<firstLen. isWhiteSpace (firstStr ! j)"
  shows "\<exists>pp'. parseShaderStrings ext pp (Some (Some firstStr # rest)) (firstLen # ls) numStrings ctx =
     Some (True, pp', ctx)"
proof -
  have n: "nullCheckLoop (Some firstStr # rest) 0 numStrings = Some None"
  proof (rule nullCheckLoop_none[OF assms(3)], intro allI impI)
    fix j assume j: "0 \<le> j \<and> int j < numStrings"
    with assms(3) have "j < length (Some firstStr # rest)" by simp
    with assms(4) j show "(Some firstStr # rest) ! j \<noteq> None" by blast
  qed
  have w: "whiteSpaceLoop firstStr firstLen 0 = Some True"
    using assms(2,5,6) by (intro whiteSpaceLoop_all) auto
  show ?thesis using assms(1,2) n w by (simp add: parseShaderStrings_def Let_def)
qed

lemma parseShaderStrings_parse:
  assumes "numStrings \<noteq> 0" "firstLen \<noteq> 0" "numStrings \<le> int (length (Some firstStr # rest))"
    "\<forall>j<length (Some firstStr # rest). int j < numStrings \<longrightarrow> (Some firstStr # rest) ! j \<noteq> None"
    "k < firstLen" "k < length firstStr" "\<not> isWhiteSpace (firstStr ! k)"
  shows "\<exists>pp'. parseShaderStrings ext pp (Some (Some firstStr # rest)) (firstLen # ls) numStrings ctx =
     Some (numErrors (finalize ext (yyparse ext (setAnyIndexLimits ctx))) = 0, pp',
           finalize ext (yyparse ext (setAnyIndexLimits ctx)))"
proof -
  have n: "nullCheckLoop (Some firstStr # rest) 0 numStrings = Some None"
  proof (rule nullCheckLoop_none[OF assms(3)], intro allI impI)
    fix j assume j: "0 \<le> j \<and> int j < numStrings"
    with assms(3) have "j < length (Some firstStr # rest)" by simp
    with assms(4) j show "(Some firstStr # rest) ! j \<noteq> None" by blast
  qed
  have w: "whiteSpaceLoop firstStr firstLen 0 = Some False"
    using assms(5,6,7) by (intro whiteSpaceLoop_not[where k = k]) auto
  show ?thesis using assms(1,2) n w by (simp add: parseShaderStrings_def Let_def)
qed

text \<open>Claim C1, as the code has it. \<^verbatim>\<open>parseShaderStrings\<close> returns true, touching nothing,
  for a null string array, for zero strings and for a first length of zero. Otherwise, when a
  sub-string below \<open>numStrings\<close> is null, it reports one error located at the index of the first
  null sub-string (line 1) and returns false. Otherwise, when the first \<open>lengths[0]\<close> characters
  of the first string are all white space, it returns true without parsing. Otherwise it sets
  \<^verbatim>\<open>anyIndexLimits\<close>, runs the parser, then \<^verbatim>\<open>finalize\<close>, and returns whether the error count
  is zero.\<close>

theorem parseShaderStrings_cases:
  "parseShaderStrings ext pp None lengths numStrings ctx = Some (True, pp, ctx)
   \<and> parseShaderStrings ext pp strings lengths 0 ctx = Some (True, pp, ctx)
   \<and> parseShaderStrings ext pp (Some strs) (0 # ls) numStrings ctx = Some (True, pp, ctx)
   \<and> (numStrings \<noteq> 0 \<and> firstLen \<noteq> 0 \<and> k < length strs \<and> int k < numStrings
        \<and> strs ! k = None \<and> (\<forall>j<k. strs ! j \<noteq> None)
      \<longrightarrow> parseShaderStrings ext pp (Some strs) (firstLen # ls) numStrings ctx =
            Some (False, pp, error \<lparr> loc_string = int k, loc_line = 1 \<rparr>
                               ''Null shader source string'' [] [] [] ctx))
   \<and> (numStrings \<noteq> 0 \<and> firstLen \<noteq> 0 \<and> numStrings \<le> int (length (Some firstStr # rest))
        \<and> (\<forall>j<length (Some firstStr # rest). int j < numStrings \<longrightarrow> (Some firstStr # rest) ! j \<noteq> None)
        \<and> firstLen \<le> length firstStr \<and> (\<forall>j<firstLen. isWhiteSpace (firstStr ! j))
      \<longrightarrow> (\<exists>pp'. parseShaderStrings ext pp (Some (Some firstStr # rest)) (firstLen # ls) numStrings ctx =
            Some (True, pp', ctx)))
   \<and> (numStrings \<noteq> 0 \<and> firstLen \<noteq> 0 \<and> numStrings \<le> int (length (Some firstStr # rest))
        \<and> (\<forall>j<length (Some firstStr # rest). int j < numStrings \<longrightarrow> (Some firstStr # rest) ! j \<noteq> None)
        \<and> m < firstLen \<and> m < length firstStr \<and> \<not> isWhiteSpace (firstStr ! m)
      \<longrightarrow> (\<exists>pp'. parseShaderStrings ext pp (Some (Some firstStr # rest)) (firstLen # ls) numStrings ctx =
            Some (numErrors (finalize ext (yyparse ext (setAnyIndexLimits ctx))) = 0, pp',
                  finalize ext (yyparse ext (setAnyIndexLimits ctx)))))"
proof (intro conjI impI)
  show "parseShaderStrings ext pp None lengths numStrings ctx = Some (True, pp, ctx)"
    by (simp add: parseShaderStrings_def)
  show "parseShaderStrings ext pp strings lengths 0 ctx = Some (True, pp, ctx)"
    by (cases strings) (simp_all add: parseShaderStrings_def)
  show "parseShaderStrings ext pp (Some strs) (0 # ls) numStrings ctx = Some (True, pp, ctx)"
    by (simp add: parseShaderStrings_def)
next
  assume "numStrings \<noteq> 0 \<and> firstLen \<noteq> 0 \<and> k < length strs \<and> int k < numStrings
        \<and> strs ! k = None \<and> (\<forall>j<k. strs ! j \<noteq> None)"
  then show "parseShaderStrings ext pp (Some strs) (firstLen # ls) numStrings ctx =
            Some (False, pp, error \<lparr> loc_string = int k, loc_line = 1 \<rparr>
                               ''Null shader source string'' [] [] [] ctx)"
    by (intro parseShaderStrings_null) blast+
next
  assume "numStrings \<noteq> 0 \<and> firstLen \<noteq> 0 \<and> numStrings \<le> int (length (Some firstStr # rest))
        \<and> (\<forall>j<length (Some firstStr # rest). int j < numStrings \<longrightarrow> (Some firstStr # rest) ! j \<noteq> None)
        \<and> firstLen \<le> length firstStr \<and> (\<forall>j<firstLen. isWhiteSpace (firstStr ! j))"
  then show "\<exists>pp'. parseShaderStrings ext pp (Some (Some firstStr # rest)) (firstLen # ls) numStrings ctx =
            Some (True, pp', ctx)"
    by (intro parseShaderStrings_white) blast+
next
  assume "numStrings \<noteq> 0 \<and> firstLen \<noteq> 0 \<and> numStrings \<le> int (length (Some firstStr # rest))
        \<and> (\<forall>j<length (Some firstStr # rest). int j < numStrings \<longrightarrow> (Some firstStr # rest) ! j \<noteq> None)
        \<and> m < firstLen \<and> m < length firstStr \<and> \<not> isWhiteSpace (firstStr ! m)"
  then show "\<exists>pp'. parseShaderStrings ext pp (Some (Some firstStr # rest)) (firstLen # ls) numStrings ctx =
            Some (numErrors (finalize ext (yyparse ext (setAnyIndexLimits ctx))) = 0, pp',
                  finalize ext (yyparse ext (setAnyIndexLimits ctx)))"
    by (intro parseShaderStrings_parse[where k = m]) blast+
qed

text \<open>The order of the checks matters: a first string that is all white space does not give
  true when a later sub-string is null.\<close>

theorem parseShaderStrings_white_then_null_counterexample:
  "list_all isWhiteSpace '' ''
   \<and> parseShaderStrings plainExternals plainPpContext (Some [Some '' '', None]) [1, 0] 2
       desktopContext =
     Some (False, plainPpContext,
           error \<lparr> loc_string = 1, loc_line = 1 \<rparr> ''Null shader source string'' [] [] []
             desktopContext)"
  by (simp add: parseShaderStrings_def nullCheckLoop.simps isWhiteSpace_def)


theorem parseShaderStrings_cases_witness:
  "parseShaderStrings plainExternals plainPpContext (Some [Some ''a'', None]) [1, 0] 2
       desktopContext =
     Some (False, plainPpContext,
           error \<lparr> loc_string = 1, loc_line = 1 \<rparr> ''Null shader source string'' [] [] []
             desktopContext)
   \<and> (\<exists>pp'. parseShaderStrings plainExternals plainPpContext (Some [Some ''  '']) [2] 1
          desktopContext = Some (True, pp', desktopContext))
   \<and> (\<exists>pp'. parseShaderStrings plainExternals plainPpContext (Some [Some '' a'']) [2] 1
          desktopContext =
        Some (numErrors (finalize plainExternals
                (yyparse plainExternals (setAnyIndexLimits desktopContext))) = 0, pp',
              finalize plainExternals (yyparse plainExternals (setAnyIndexLimits desktopContext))))"
proof -
  note a = parseShaderStrings_cases[where ext = plainExternals and pp = plainPpContext
      and ctx = desktopContext and numStrings = 2 and strs = "[Some ''a'', None]" and firstLen = 1
      and ls = "[0]" and k = 1]
  note b = parseShaderStrings_cases[where ext = plainExternals and pp = plainPpContext
      and ctx = desktopContext and numStrings = 1 and firstStr = "''  ''" and rest = "[]" and firstLen = 2
      and ls = "[]"]
  note c = parseShaderStrings_cases[where ext = plainExternals and pp = plainPpContext
      and ctx = desktopContext and numStrings = 1 and firstStr = "'' a''" and rest = "[]" and firstLen = 2
      and ls = "[]" and m = 1]
  have pa: "(2::int) \<noteq> 0 \<and> (1::nat) \<noteq> 0 \<and> 1 < length [Some ''a'', None] \<and> int 1 < 2
        \<and> [Some ''a'', None] ! 1 = None \<and> (\<forall>j<1. [Some ''a'', None] ! j \<noteq> None)"
    by simp
  have pb: "(1::int) \<noteq> 0 \<and> (2::nat) \<noteq> 0 \<and> 1 \<le> int (length [Some ''  ''])
        \<and> (\<forall>j<length [Some ''  '']. int j < 1 \<longrightarrow> [Some ''  ''] ! j \<noteq> None)
        \<and> 2 \<le> length ''  '' \<and> (\<forall>j<2. isWhiteSpace (''  '' ! j))"
    by (simp add: isWhiteSpace_def less_Suc_eq numeral_2_eq_2)
  have pc: "(1::int) \<noteq> 0 \<and> (2::nat) \<noteq> 0 \<and> 1 \<le> int (length [Some '' a''])
        \<and> (\<forall>j<length [Some '' a'']. int j < 1 \<longrightarrow> [Some '' a''] ! j \<noteq> None)
        \<and> 1 < (2::nat) \<and> 1 < length '' a'' \<and> \<not> isWhiteSpace ('' a'' ! 1)"
    by (simp add: isWhiteSpace_def)
  from a pa have ra: "parseShaderStrings plainExternals plainPpContext (Some [Some ''a'', None])
       [1, 0] 2 desktopContext =
     Some (False, plainPpContext,
           error \<lparr> loc_string = 1, loc_line = 1 \<rparr> ''Null shader source string'' [] [] []
             desktopContext)"
    by simp
  from b pb have rb: "\<exists>pp'. parseShaderStrings plainExternals plainPpContext (Some [Some ''  '']) [2] 1
          desktopContext = Some (True, pp', desktopContext)"
    by blast
  from c pc have rc: "\<exists>pp'. parseShaderStrings plainExternals plainPpContext (Some [Some '' a'']) [2] 1
          desktopContext =
        Some (numErrors (finalize plainExternals
                (yyparse plainExternals (setAnyIndexLimits desktopContext))) = 0, pp',
              finalize plainExternals (yyparse plainExternals (setAnyIndexLimits desktopContext)))"
    by blast
  from ra rb rc show ?thesis by blast
qed


section \<open>Constructor legality: too many arguments\<close>

lemma constructorScan_size:
  "scanSize (constructorScan ext op type ps st) =
     scanSize st + sum_list (map (\<lambda>p. getObjectSize ext (paramType p)) ps)"
  by (induction ps arbitrary: st) (simp_all add: constructorScanStep_def Let_def)

lemma constructorScan_arrayArg:
  "arrayArg (constructorScan ext op type ps st) \<longleftrightarrow>
     arrayArg st \<or> (\<exists>p\<in>set ps. isArray (paramType p))"
  by (induction ps arbitrary: st) (auto simp: constructorScanStep_def Let_def)

lemma constructorScan_matrixInMatrix:
  "matrixInMatrix (constructorScan ext op type ps st) \<longleftrightarrow>
     matrixInMatrix st \<or> (constructingMatrix op \<and> (\<exists>p\<in>set ps. isMatrix (paramType p)))"
  by (induction ps arbitrary: st) (auto simp: constructorScanStep_def Let_def)

lemma constructorScan_constType:
  "constType (constructorScan ext op type ps st) \<longleftrightarrow>
     constType st \<and> (\<forall>p\<in>set ps. storage (qualifier (paramType p)) = EvqConst)"
  by (induction ps arbitrary: st) (auto simp: constructorScanStep_def Let_def)

lemma constructorScan_full_sticky:
  "full st \<Longrightarrow> full (constructorScan ext op type ps st)"
  by (induction ps arbitrary: st) (simp_all add: constructorScanStep_def Let_def)

lemma constructorScan_overFull_sticky:
  "overFull st \<Longrightarrow> overFull (constructorScan ext op type ps st)"
  by (induction ps arbitrary: st) (simp_all add: constructorScanStep_def Let_def)

lemma constructorScan_full_next:
  "full st \<Longrightarrow> ps \<noteq> [] \<Longrightarrow> overFull (constructorScan ext op type ps st)"
  by (cases ps) (simp_all add: constructorScanStep_def Let_def constructorScan_overFull_sticky)

lemma constructorScan_overFull:
  assumes "op \<noteq> EOpConstructStruct" "\<not> isArray type"
  shows "overFull (constructorScan ext op type ps st) \<longleftrightarrow>
     overFull st \<or> (full st \<and> ps \<noteq> [])
     \<or> (\<exists>i. Suc i < length ps
            \<and> getObjectSize ext type
                \<le> scanSize st + sum_list (map (\<lambda>p. getObjectSize ext (paramType p)) (take (Suc i) ps)))"
proof (induction ps arbitrary: st)
  case Nil
  show ?case by simp
next
  case (Cons p ps)
  let ?sz = "\<lambda>p. getObjectSize ext (paramType p)"
  let ?st' = "constructorScanStep ext op type st p"
  have s1: "scanSize ?st' = scanSize st + ?sz p"
    and f1: "full ?st' \<longleftrightarrow> full st \<or> getObjectSize ext type \<le> scanSize st + ?sz p"
    and o1: "overFull ?st' \<longleftrightarrow> overFull st \<or> full st"
    using assms by (auto simp: constructorScanStep_def Let_def)
  have ex: "(\<exists>i. Suc i < length (p # ps)
            \<and> getObjectSize ext type \<le> scanSize st + sum_list (map ?sz (take (Suc i) (p # ps))))
     \<longleftrightarrow> (ps \<noteq> [] \<and> getObjectSize ext type \<le> scanSize st + ?sz p)
       \<or> (\<exists>i. Suc i < length ps
            \<and> getObjectSize ext type \<le> scanSize st + ?sz p + sum_list (map ?sz (take (Suc i) ps)))"
    (is "?L \<longleftrightarrow> ?A \<or> ?B")
  proof
    assume ?L
    then obtain i where i: "Suc i < length (p # ps)"
      "getObjectSize ext type \<le> scanSize st + sum_list (map ?sz (take (Suc i) (p # ps)))" by blast
    show "?A \<or> ?B"
    proof (cases i)
      case 0
      with i have ?A by auto
      then show ?thesis ..
    next
      case (Suc j)
      with i have "Suc j < length ps"
        "getObjectSize ext type \<le> scanSize st + ?sz p + sum_list (map ?sz (take (Suc j) ps))"
        by (simp_all add: add.assoc)
      then have ?B by blast
      then show ?thesis ..
    qed
  next
    assume "?A \<or> ?B"
    then show ?L
    proof
      assume ?A
      then have "Suc 0 < length (p # ps)"
        "getObjectSize ext type \<le> scanSize st + sum_list (map ?sz (take (Suc 0) (p # ps)))"
        by (cases ps; simp)+
      then show ?L by blast
    next
      assume ?B
      then obtain j where "Suc j < length ps"
        "getObjectSize ext type \<le> scanSize st + ?sz p + sum_list (map ?sz (take (Suc j) ps))" by blast
      then have "Suc (Suc j) < length (p # ps)"
        "getObjectSize ext type \<le> scanSize st + sum_list (map ?sz (take (Suc (Suc j)) (p # ps)))"
        by (simp_all add: add.assoc)
      then show ?L by blast
    qed
  qed
  have "overFull (constructorScan ext op type (p # ps) st)
      \<longleftrightarrow> overFull (constructorScan ext op type ps ?st')" by simp
  also have "\<dots> \<longleftrightarrow> overFull ?st' \<or> (full ?st' \<and> ps \<noteq> [])
     \<or> (\<exists>i. Suc i < length ps
            \<and> getObjectSize ext type \<le> scanSize ?st' + sum_list (map ?sz (take (Suc i) ps)))"
    by (rule Cons.IH)
  also have "\<dots> \<longleftrightarrow> overFull st \<or> (full st \<and> p # ps \<noteq> [])
     \<or> (\<exists>i. Suc i < length (p # ps)
            \<and> getObjectSize ext type \<le> scanSize st + sum_list (map ?sz (take (Suc i) (p # ps))))"
    unfolding ex s1 f1 o1 by blast
  finally show ?case .
qed


lemma arraySizes_setStorage [simp]: "arraySizes (setStorage q t) = arraySizes t"
  by (simp add: setStorage_def)

text \<open>Claim C3, as the code has it. For a constructor that is not a struct constructor, with
  a target type that is not an array, no array argument and no matrix argument to a matrix
  constructor: whenever the argument list is overfull, \<^verbatim>\<open>constructorError\<close> reports
  \<open>too many arguments\<close> and returns true.\<close>

theorem constructorError_too_many_arguments:
  assumes notStruct: "op \<noteq> EOpConstructStruct"
    and notArray: "\<not> isArray (funType fnCall)"
    and noArrayArg: "\<forall>p\<in>set (funParams fnCall). \<not> isArray (paramType p)"
    and noMatrixArg:
      "\<not> (constructingMatrix op \<and> (\<exists>p\<in>set (funParams fnCall). isMatrix (paramType p)))"
    and overfull: "overfullArguments ext (funType fnCall) (funParams fnCall)"
  shows "\<exists>ty. constructorError ext loc node fnCall op ctx =
     Some (True, ty, error loc ''too many arguments'' ''constructor'' [] [] ctx)"
proof -
  let ?sc = "constructorScan ext op (funType fnCall) (funParams fnCall) initialScan"
  let ?t1 = "if constType ?sc then setStorage EvqConst (funType fnCall) else funType fnCall"
  have aa: "\<not> arrayArg ?sc"
    unfolding constructorScan_arrayArg using noArrayArg by (simp add: initialScan_def)
  have mm: "\<not> matrixInMatrix ?sc"
    unfolding constructorScan_matrixInMatrix using noMatrixArg by (simp add: initialScan_def)
  have ov: "overFull ?sc"
    unfolding constructorScan_overFull[OF notStruct notArray]
    using overfull by (simp add: initialScan_def overfullArguments_def)
  have t1: "arraySizes ?t1 = None"
    using notArray by (simp add: isArray_def)
  show ?thesis
    unfolding constructorError_def Let_def t1
    using aa mm ov by simp
qed

text \<open>A struct constructor never becomes full: \<^verbatim>\<open>S(v, f)\<close> for \<^verbatim>\<open>struct S { float a; float b; }\<close>
  with a \<^verbatim>\<open>vec2 v\<close> is overfull in the specification's sense (the first argument alone reaches the
  object size 2), and \<^verbatim>\<open>constructorError\<close> returns false without a diagnostic.\<close>

theorem constructorError_struct_counterexample:
  "overfullArguments plainExternals (funType structCall) (funParams structCall)
   \<and> constructorError plainExternals loc0 (Some structCallArguments) structCall
        EOpConstructStruct desktopContext
      = Some (False, structType, desktopContext)"
proof
  have "Suc 0 < length (funParams structCall)
     \<and> getObjectSize plainExternals (funType structCall)
         \<le> sum_list (map (\<lambda>p. getObjectSize plainExternals (paramType p))
              (take (Suc 0) (funParams structCall)))"
    by (simp add: structCall_def plainExternals_def structType_def floatType_def vec2Type_def
        mkType_def)
  then show "overfullArguments plainExternals (funType structCall) (funParams structCall)"
    unfolding overfullArguments_def by blast
next
  show "constructorError plainExternals loc0 (Some structCallArguments) structCall
        EOpConstructStruct desktopContext
      = Some (False, structType, desktopContext)"
    by (simp add: constructorError_def Let_def structCall_def plainExternals_def structType_def
        floatType_def vec2Type_def mkType_def initialScan_def constructorScanStep_def
        constructingMatrix_def isMatrix_def isArray_def clearQualifier_def
        structCallArguments_def)
qed

theorem constructorError_too_many_arguments_witness:
  "EOpOther 0 \<noteq> EOpConstructStruct \<and> \<not> isArray (funType vec2Call)
   \<and> overfullArguments plainExternals (funType vec2Call) (funParams vec2Call)
   \<and> (\<exists>ty. constructorError plainExternals loc0 None vec2Call (EOpOther 0) desktopContext =
         Some (True, ty, error loc0 ''too many arguments'' ''constructor'' [] [] desktopContext))"
proof -
  have a: "EOpOther 0 \<noteq> EOpConstructStruct" by simp
  have b: "\<not> isArray (funType vec2Call)"
    by (simp add: vec2Call_def vec2Type_def mkType_def isArray_def)
  have c: "\<forall>p\<in>set (funParams vec2Call). \<not> isArray (paramType p)"
    by (simp add: vec2Call_def floatType_def mkType_def isArray_def)
  have d: "\<not> (constructingMatrix (EOpOther 0)
        \<and> (\<exists>p\<in>set (funParams vec2Call). isMatrix (paramType p)))"
    by (simp add: constructingMatrix_def)
  have "Suc 1 < length (funParams vec2Call)
     \<and> getObjectSize plainExternals (funType vec2Call)
         \<le> sum_list (map (\<lambda>p. getObjectSize plainExternals (paramType p))
              (take (Suc 1) (funParams vec2Call)))"
    by (simp add: vec2Call_def plainExternals_def floatType_def vec2Type_def mkType_def)
  then have e: "overfullArguments plainExternals (funType vec2Call) (funParams vec2Call)"
    unfolding overfullArguments_def by blast
  from constructorError_too_many_arguments[OF a b c d e, of loc0 None desktopContext] a b e
  show ?thesis by blast
qed


section \<open>L-values: a swizzle with a repeated component\<close>

lemma swizzleDuplicateLoop_distinct:
  assumes "length offset = 4"
    and "\<forall>i<4. offset ! i = (if int i \<in> S then 1 else 0)"
    and "map indexOfNode sq = map Some vals"
    and "\<forall>v\<in>set vals. 0 \<le> v \<and> v < 4"
  shows "swizzleDuplicateLoop sq offset = Some (\<not> (distinct vals \<and> set vals \<inter> S = {}))"
  using assms
proof (induction sq arbitrary: offset S vals)
  case Nil
  then show ?case by simp
next
  case (Cons p ps)
  from Cons.prems(3) obtain v vs where vals: "vals = v # vs" and pv: "indexOfNode p = Some v"
    and rest: "map indexOfNode ps = map Some vs" by (cases vals) auto
  from Cons.prems(4) vals have v: "0 \<le> v" "v < 4" and vs: "\<forall>v\<in>set vs. 0 \<le> v \<and> v < 4" by auto
  from v have nv: "nat v < 4" "int (nat v) = v" by auto
  let ?offset1 = "offset[nat v := offset ! nat v + 1]"
  show ?case
  proof (cases "v \<in> S")
    case True
    with Cons.prems(2) nv have "offset ! nat v = 1" by (metis (full_types))
    then have "?offset1 ! nat v > 1" using nv Cons.prems(1) by simp
    then have "swizzleDuplicateLoop (p # ps) offset = Some True"
      using pv v by (simp add: Let_def)
    moreover have "\<not> (distinct vals \<and> set vals \<inter> S = {})" using True vals by auto
    ultimately show ?thesis by simp
  next
    case False
    with Cons.prems(2) nv have "offset ! nat v = 0" by (metis (full_types))
    then have o1: "?offset1 ! nat v = 1" using nv Cons.prems(1) by simp
    then have step: "swizzleDuplicateLoop (p # ps) offset = swizzleDuplicateLoop ps ?offset1"
      using pv v by (simp add: Let_def)
    have inv: "\<forall>i<4. ?offset1 ! i = (if int i \<in> insert v S then 1 else 0)"
    proof (intro allI impI)
      fix i :: nat assume i: "i < 4"
      show "?offset1 ! i = (if int i \<in> insert v S then 1 else 0)"
      proof (cases "i = nat v")
        case True
        with o1 nv show ?thesis by simp
      next
        case ne: False
        then have "int i \<noteq> v" using nv by auto
        moreover have "?offset1 ! i = offset ! i" using ne by simp
        ultimately show ?thesis using Cons.prems(2) i by simp
      qed
    qed
    have r: "swizzleDuplicateLoop ps ?offset1
        = Some (\<not> (distinct vs \<and> set vs \<inter> insert v S = {}))"
      by (rule Cons.IH[OF _ inv rest vs]) (simp add: Cons.prems(1))
    have e: "(distinct vs \<and> set vs \<inter> insert v S = {})
        \<longleftrightarrow> (distinct vals \<and> set vals \<inter> S = {})"
      using False vals by auto
    show ?thesis unfolding step r e ..
  qed
qed

lemma swizzleDuplicateLoop_initial:
  assumes "map indexOfNode sq = map Some vals" and "\<forall>v\<in>set vals. 0 \<le> v \<and> v < 4"
  shows "swizzleDuplicateLoop sq [0, 0, 0, 0] = Some (\<not> distinct vals)"
proof -
  have "\<forall>i<4. [0, 0, 0, 0::int] ! i = (if int i \<in> {} then 1 else 0)"
    by (simp add: nth_Cons split: nat.splits)
  from swizzleDuplicateLoop_distinct[OF _ this assms] show ?thesis by simp
qed

text \<open>Claim C10. For a \<open>VectorSwizzle\<close> node whose left side passes the l-value check and
  whose right side is the aggregate of constant indices (each between 0 and 3),
  \<^verbatim>\<open>lValueErrorCheck\<close> returns true, with the error
  \<open>l-value of swizzle cannot have duplicate components\<close>, exactly when some component is
  selected more than once; with distinct components it returns the result of the check of the
  left side, in the context that check left. When the left side fails the check, so does the
  swizzle, without a look at the indices.\<close>

theorem lValueErrorCheck_swizzle:
  "(lValueErrorCheck loc op left ctx = Some (True, ctxLeft)
      \<longrightarrow> lValueErrorCheck loc op (IntermBinary EOpVectorSwizzle left right t l) ctx
            = Some (True, ctxLeft))
   \<and> (lValueErrorCheck loc op left ctx = Some (False, ctxLeft)
        \<and> aggregateSequence right = Some sq \<and> map indexOfNode sq = map Some vals
        \<and> (\<forall>v\<in>set vals. 0 \<le> v \<and> v < 4)
      \<longrightarrow> lValueErrorCheck loc op (IntermBinary EOpVectorSwizzle left right t l) ctx
            = Some (\<not> distinct vals,
                if distinct vals then ctxLeft
                else error loc '' l-value of swizzle cannot have duplicate components'' op []
                       [ArgStr []] ctxLeft))"
proof (intro conjI impI)
  assume "lValueErrorCheck loc op left ctx = Some (True, ctxLeft)"
  then show "lValueErrorCheck loc op (IntermBinary EOpVectorSwizzle left right t l) ctx
            = Some (True, ctxLeft)"
    by simp
next
  assume a: "lValueErrorCheck loc op left ctx = Some (False, ctxLeft)
        \<and> aggregateSequence right = Some sq \<and> map indexOfNode sq = map Some vals
        \<and> (\<forall>v\<in>set vals. 0 \<le> v \<and> v < 4)"
  then have d: "swizzleDuplicateLoop sq [0, 0, 0, 0] = Some (\<not> distinct vals)"
    by (intro swizzleDuplicateLoop_initial) blast+
  show "lValueErrorCheck loc op (IntermBinary EOpVectorSwizzle left right t l) ctx
            = Some (\<not> distinct vals,
                if distinct vals then ctxLeft
                else error loc '' l-value of swizzle cannot have duplicate components'' op []
                       [ArgStr []] ctxLeft)"
    using a d by (cases "distinct vals") simp_all
qed


theorem lValueErrorCheck_swizzle_witness:
  "lValueErrorCheck loc0 ''='' vec4Symbol desktopContext = Some (False, desktopContext)
   \<and> lValueErrorCheck loc0 ''=''
        (IntermBinary EOpVectorSwizzle vec4Symbol
           (addSwizzle theSentinels \<lparr>offsets = [1, 1, 0, 0], num = 2\<rparr> loc0) vec2Type loc0)
        desktopContext
      = Some (True, error loc0 '' l-value of swizzle cannot have duplicate components'' ''=''
                      [] [ArgStr []] desktopContext)
   \<and> lValueErrorCheck loc0 ''=''
        (IntermBinary EOpVectorSwizzle vec4Symbol
           (addSwizzle theSentinels \<lparr>offsets = [1, 0, 0, 0], num = 2\<rparr> loc0) vec2Type loc0)
        desktopContext
      = Some (False, desktopContext)"
proof -
  have l: "lValueErrorCheck loc0 ''='' vec4Symbol desktopContext = Some (False, desktopContext)"
    by (simp add: vec4Symbol_def vec4Type_def mkType_def lValueMessage_def clearQualifier_def)
  have a1: "aggregateSequence (addSwizzle theSentinels \<lparr>offsets = [1, 1, 0, 0], num = 2\<rparr> loc0)
      = Some (map (\<lambda>off. IntermConstantUnion [IConst off] (mkType theSentinels EbtInt EvqConst 1) loc0)
           [1, 1])"
    by (simp add: addSwizzle_def numeral_2_eq_2)
  have a2: "aggregateSequence (addSwizzle theSentinels \<lparr>offsets = [1, 0, 0, 0], num = 2\<rparr> loc0)
      = Some (map (\<lambda>off. IntermConstantUnion [IConst off] (mkType theSentinels EbtInt EvqConst 1) loc0)
           [1, 0])"
    by (simp add: addSwizzle_def numeral_2_eq_2)
  have m: "\<And>vals. map indexOfNode
        (map (\<lambda>off. IntermConstantUnion [IConst off] (mkType theSentinels EbtInt EvqConst 1) loc0) vals)
      = map Some vals"
    by (simp add: indexOfNode_def getIConst_def)
  have r1: "\<forall>v\<in>set [1, 1::int]. 0 \<le> v \<and> v < 4" by simp
  have r2: "\<forall>v\<in>set [1, 0::int]. 0 \<le> v \<and> v < 4" by simp
  note t1 = lValueErrorCheck_swizzle[where loc = loc0 and op = "''=''" and left = vec4Symbol
      and ctx = desktopContext and ctxLeft = desktopContext and vals = "[1, 1]" and t = vec2Type
      and l = loc0
      and right = "addSwizzle theSentinels \<lparr>offsets = [1, 1, 0, 0], num = 2\<rparr> loc0"
      and sq = "map (\<lambda>off. IntermConstantUnion [IConst off]
                  (mkType theSentinels EbtInt EvqConst 1) loc0) [1, 1]"]
  note t2 = lValueErrorCheck_swizzle[where loc = loc0 and op = "''=''" and left = vec4Symbol
      and ctx = desktopContext and ctxLeft = desktopContext and vals = "[1, 0]" and t = vec2Type
      and l = loc0
      and right = "addSwizzle theSentinels \<lparr>offsets = [1, 0, 0, 0], num = 2\<rparr> loc0"
      and sq = "map (\<lambda>off. IntermConstantUnion [IConst off]
                  (mkType theSentinels EbtInt EvqConst 1) loc0) [1, 0]"]
  from t1 l a1 m[of "[1, 1]"] r1
  have c1: "lValueErrorCheck loc0 ''=''
        (IntermBinary EOpVectorSwizzle vec4Symbol
           (addSwizzle theSentinels \<lparr>offsets = [1, 1, 0, 0], num = 2\<rparr> loc0) vec2Type loc0)
        desktopContext
      = Some (True, error loc0 '' l-value of swizzle cannot have duplicate components'' ''=''
                      [] [ArgStr []] desktopContext)"
    by simp
  from t2 l a2 m[of "[1, 0]"] r2
  have c2: "lValueErrorCheck loc0 ''=''
        (IntermBinary EOpVectorSwizzle vec4Symbol
           (addSwizzle theSentinels \<lparr>offsets = [1, 0, 0, 0], num = 2\<rparr> loc0) vec2Type loc0)
        desktopContext
      = Some (False, desktopContext)"
    by simp
  from l c1 c2 show ?thesis by blast
qed


section \<open>Switch assembly: what addSwitch returns\<close>

lemma wrapup_last:
  assumes "switchSequenceStack ctx = below @ [sq]"
  shows "wrapupSwitchSubsequence lastStatements None ctx =
     (case lastStatements of
        None \<Rightarrow> Some ctx
      | Some st \<Rightarrow>
          (case setOperator EOpSequence st of
             None \<Rightarrow> None
           | Some st1 \<Rightarrow>
               Some ((if sq = [] then
                        error (getLoc st) ''cannot have statements before first case/default label''
                          ''switch'' [] [] ctx
                      else ctx)\<lparr>switchSequenceStack := below @ [sq @ [st1]]\<rparr>)))"
  using assms
  by (auto simp: wrapupSwitchSubsequence_def split: option.splits)

lemma addSwitch_result_aux:
  assumes gates: "ctxG = switchGates ext loc ctx"
    and stack: "switchSequenceStack ctxG = below @ [sq]"
    and stmts: "lastStatements = None \<and> sq' = sq
                \<or> (\<exists>st st1. lastStatements = Some st \<and> setOperator EOpSequence st = Some st1
                       \<and> sq' = sq @ [st1])"
    and expr: "expression = None \<and> \<not> scalarInt
               \<or> (\<exists>e t. expression = Some e \<and> getType e = Some t
                     \<and> scalarInt = ((basicType t = EbtInt \<or> basicType t = EbtUint)
                          \<and> \<not> isArray t \<and> \<not> isMatrix t \<and> \<not> isVector t))"
  shows "\<exists>ctx'. addSwitch ext loc expression lastStatements ctx =
       Some (if sq' = [] \<or> lastStatements = None then expression
             else Some (IntermSwitch expression
                          (newAggregate (sentinels ctxG) EOpSequence sq' loc) loc),
             ctx')
     \<and> emittedReasons ctxG ctx' =
         (if sq = [] \<and> lastStatements \<noteq> None then
            [''cannot have statements before first case/default label''] else [])
         @ (if scalarInt then [] else [''condition must be a scalar integer expression''])
         @ (if sq' \<noteq> [] \<and> lastStatements = None then
              [''last case/default label must be followed by statements''] else [])"
proof -
  from expr obtain bad where bad:
    "(case expression of
        None \<Rightarrow> Some True
      | Some e \<Rightarrow>
          (case getType e of
             None \<Rightarrow> None
           | Some t \<Rightarrow>
               Some ((basicType t \<noteq> EbtInt \<and> basicType t \<noteq> EbtUint)
                     \<or> isArray t \<or> isMatrix t \<or> isVector t))) = Some bad"
    and bs: "bad = (\<not> scalarInt)"
    by auto
  show ?thesis
  proof (cases lastStatements)
    case None
    with stmts have sq': "sq' = sq" by auto
    have w: "wrapupSwitchSubsequence lastStatements None ctxG = Some ctxG"
      using wrapup_last[OF stack] None by simp
    show ?thesis
      unfolding addSwitch_def Let_def gates[symmetric] w option.case bad
      using None sq' stack bs
      by (cases "sq = []"; cases scalarInt) (simp_all add: emittedReasons_def)
  next
    case (Some st)
    with stmts obtain st1 where st1: "setOperator EOpSequence st = Some st1"
      and sq': "sq' = sq @ [st1]" by auto
    have w: "wrapupSwitchSubsequence lastStatements None ctxG =
        Some ((if sq = [] then
                 error (getLoc st) ''cannot have statements before first case/default label''
                   ''switch'' [] [] ctxG
               else ctxG)\<lparr>switchSequenceStack := below @ [sq @ [st1]]\<rparr>)"
      using wrapup_last[OF stack] Some st1 by simp
    show ?thesis
      unfolding addSwitch_def Let_def gates[symmetric] w option.case bad
      using Some sq' bs
      by (cases "sq = []"; cases scalarInt) (simp_all add: emittedReasons_def)
  qed
qed


text \<open>Claim C8. \<^verbatim>\<open>addSwitch\<close>, after its feature gates and with the last statements put on
  the sequence of the innermost switch: it reports
  \<open>condition must be a scalar integer expression\<close> exactly when the expression is not a scalar
  \<open>int\<close> or \<open>uint\<close>; when the accumulated sequence is empty it returns the expression itself;
  when the sequence is not empty and there are no last statements it reports
  \<open>last case/default label must be followed by statements\<close> and returns the expression;
  otherwise it returns a switch node over the expression and a body that holds the accumulated
  sequence.\<close>

theorem addSwitch_result:
  assumes stack: "switchSequenceStack (switchGates ext loc ctx) = below @ [sq]"
    and stmts: "lastStatements = None
                \<or> Option.bind lastStatements (setOperator EOpSequence) \<noteq> None"
    and expr: "expression = None \<or> Option.bind expression getType \<noteq> None"
  shows "\<exists>ctx'. addSwitch ext loc expression lastStatements ctx =
       Some (if accumulatedSequence sq lastStatements = [] \<or> lastStatements = None then
               expression
             else Some (IntermSwitch expression
                          (newAggregate (sentinels (switchGates ext loc ctx)) EOpSequence
                             (accumulatedSequence sq lastStatements) loc) loc),
             ctx')
     \<and> emittedReasons (switchGates ext loc ctx) ctx' =
         (if sq = [] \<and> lastStatements \<noteq> None then
            [''cannot have statements before first case/default label''] else [])
         @ (if scalarIntegerExpression expression then []
            else [''condition must be a scalar integer expression''])
         @ (if accumulatedSequence sq lastStatements \<noteq> [] \<and> lastStatements = None then
              [''last case/default label must be followed by statements''] else [])"
proof (rule addSwitch_result_aux[OF refl stack])
  show "lastStatements = None \<and> accumulatedSequence sq lastStatements = sq
        \<or> (\<exists>st st1. lastStatements = Some st \<and> setOperator EOpSequence st = Some st1
               \<and> accumulatedSequence sq lastStatements = sq @ [st1])"
    using stmts by (cases lastStatements) (auto simp: accumulatedSequence_def)
  show "expression = None \<and> \<not> scalarIntegerExpression expression
        \<or> (\<exists>e t. expression = Some e \<and> getType e = Some t
              \<and> scalarIntegerExpression expression
                  = ((basicType t = EbtInt \<or> basicType t = EbtUint)
                     \<and> \<not> isArray t \<and> \<not> isMatrix t \<and> \<not> isVector t))"
    using expr by (cases expression) (auto simp: scalarIntegerExpression_def)
qed

theorem addSwitch_result_witness:
  "addSwitch plainExternals loc0 (Some (IntermSymbol 3 ''i'' intType loc0))
       (Some (newAggregate theSentinels EOpNull [vec4Symbol] loc0)) switchContext
     = Some (Some (IntermSwitch (Some (IntermSymbol 3 ''i'' intType loc0))
                     (newAggregate theSentinels EOpSequence
                        [caseOneLabel, newAggregate theSentinels EOpSequence [vec4Symbol] loc0]
                        loc0) loc0),
             switchContext\<lparr>switchSequenceStack :=
               [[caseOneLabel, newAggregate theSentinels EOpSequence [vec4Symbol] loc0]]\<rparr>)
   \<and> (\<exists>ctx'. addSwitch plainExternals loc0 (Some vec4Symbol) None switchContext
          = Some (Some vec4Symbol, ctx')
        \<and> emittedReasons switchContext ctx' =
            [''condition must be a scalar integer expression'',
             ''last case/default label must be followed by statements''])"
proof
  show "addSwitch plainExternals loc0 (Some (IntermSymbol 3 ''i'' intType loc0))
       (Some (newAggregate theSentinels EOpNull [vec4Symbol] loc0)) switchContext
     = Some (Some (IntermSwitch (Some (IntermSymbol 3 ''i'' intType loc0))
                     (newAggregate theSentinels EOpSequence
                        [caseOneLabel, newAggregate theSentinels EOpSequence [vec4Symbol] loc0]
                        loc0) loc0),
             switchContext\<lparr>switchSequenceStack :=
               [[caseOneLabel, newAggregate theSentinels EOpSequence [vec4Symbol] loc0]]\<rparr>)"
    by (simp add: addSwitch_def switchGates_def plainExternals_def switchContext_def
        wrapupSwitchSubsequence_def newAggregate_def intType_def mkType_def isArray_def
        isMatrix_def isVector_def desktopContext_def newParseContext_def)
next
  have g: "switchGates plainExternals loc0 switchContext = switchContext"
    by (simp add: switchGates_def plainExternals_def)
  have st: "switchSequenceStack (switchGates plainExternals loc0 switchContext)
      = [] @ [[caseOneLabel]]"
    unfolding g by (simp add: switchContext_def)
  have e: "Some vec4Symbol = None \<or> Option.bind (Some vec4Symbol) getType \<noteq> None"
    by (simp add: vec4Symbol_def)
  have ns: "\<not> scalarIntegerExpression (Some vec4Symbol)"
    by (simp add: scalarIntegerExpression_def vec4Symbol_def vec4Type_def mkType_def
        isVector_def)
  from addSwitch_result[OF st _ e, of None] ns
  show "\<exists>ctx'. addSwitch plainExternals loc0 (Some vec4Symbol) None switchContext
          = Some (Some vec4Symbol, ctx')
        \<and> emittedReasons switchContext ctx' =
            [''condition must be a scalar integer expression'',
             ''last case/default label must be followed by statements'']"
    unfolding g by (simp add: accumulatedSequence_def)
qed


section \<open>Inductive loops: the init declaration\<close>

text \<open>A missing init, an init that is not an aggregate, an empty aggregate and an aggregate
  whose first entry is not a binary node give the init-declaration diagnostic, and nothing is
  recorded.\<close>

lemma inductiveLoopCheck_bad_init:
  assumes "init = None
           \<or> (\<exists>i. init = Some i \<and> aggregateSequence i = None)
           \<or> (\<exists>i. init = Some i \<and> aggregateSequence i = Some [])
           \<or> (\<exists>i first others. init = Some i \<and> aggregateSequence i = Some (first # others)
                  \<and> \<not> isBinaryNode first)"
  shows "inductiveLoopCheck ext loc init loop ctx =
     error loc initDeclarationReason ''limitations'' [] [] ctx"
  using assms
  by (elim disjE exE conjE)
     (auto simp: inductiveLoopCheck_def split: option.splits TIntermNode.splits)

lemma inductiveLoopCheck_bad_form:
  assumes "aggregateSequence i = Some (IntermBinary bop left right t l # others)"
  shows "inductiveLoopCheck ext loc (Some i) loop ctx =
     (if \<not> isScalar t \<or> (basicType t \<noteq> EbtInt \<and> basicType t \<noteq> EbtFloat) then
        error loc ''inductive loop requires a scalar 'int' or 'float' loop index''
          ''limitations'' [] [] ctx
      else if bop \<noteq> EOpAssign \<or> symbolId left = None \<or> \<not> isConstantUnion right then
        error loc initDeclarationReason ''limitations'' [] [] ctx
      else inductiveLoopRest ext loc (the (symbolId left)) loop ctx)"
  using assms by (simp add: inductiveLoopCheck_def)

text \<open>Claim C4, where the code departs from it. The test of the sequence's size lets every
  non-empty sequence through, so only the first entry of the init aggregate is looked at: when
  it is an assignment of a constant to a scalar \<open>int\<close> or \<open>float\<close> symbol, the symbol's id is
  recorded and the check goes on to the condition, whatever follows the first entry.\<close>

theorem inductiveLoopCheck_first_declaration_only:
  assumes "aggregateSequence i =
      Some (IntermBinary EOpAssign (IntermSymbol idx n st sl) (IntermConstantUnion c ct cl) t l
            # others)"
    and "isScalar t" and "basicType t = EbtInt \<or> basicType t = EbtFloat"
  shows "inductiveLoopCheck ext loc (Some i) loop ctx = inductiveLoopRest ext loc idx loop ctx"
  using assms(2,3) unfolding inductiveLoopCheck_bad_form[OF assms(1)] by auto

theorem inductiveLoopCheck_first_declaration_only_witness:
  "length (the (aggregateSequence twoDeclarations)) = 2
   \<and> inductiveLoopCheck plainExternals loc0 (Some twoDeclarations) loopOverI desktopContext
      = desktopContext\<lparr>inductiveLoopIds := {1}\<rparr>"
proof
  show "length (the (aggregateSequence twoDeclarations)) = 2"
    by (simp add: twoDeclarations_def newAggregate_def)
next
  have a: "aggregateSequence twoDeclarations =
      Some (IntermBinary EOpAssign (IntermSymbol 1 ''i'' intType loc0)
              (IntermConstantUnion [IConst 0] (mkType theSentinels EbtInt EvqConst 1) loc0)
              intType loc0
            # [IntermBinary EOpAssign (IntermSymbol 2 ''j'' intType loc0) (intConstant 0)
                 intType loc0])"
    by (simp add: twoDeclarations_def newAggregate_def intConstant_def)
  have b: "isScalar intType" by (simp add: intType_def mkType_def isScalar_def isArray_def)
  have c: "basicType intType = EbtInt \<or> basicType intType = EbtFloat"
    by (simp add: intType_def mkType_def)
  have d: "inductiveLoopRest plainExternals loc0 1 loopOverI desktopContext
      = desktopContext\<lparr>inductiveLoopIds := {1}\<rparr>"
    by (simp add: inductiveLoopRest_def loopOverI_def badCondition_def
        badTerminalExpression_def intConstant_def plainExternals_def Let_def
        desktopContext_def newParseContext_def)
  from inductiveLoopCheck_first_declaration_only[OF a b c, of plainExternals loc0 loopOverI
      desktopContext] d
  show "inductiveLoopCheck plainExternals loc0 (Some twoDeclarations) loopOverI desktopContext
      = desktopContext\<lparr>inductiveLoopIds := {1}\<rparr>"
    by simp
qed


section \<open>Bracket dereference: a constant index into an array\<close>

lemma arrayIndexOutOfRangeFormat_nonempty: "arrayIndexOutOfRangeFormat \<noteq> []"
  by (simp add: arrayIndexOutOfRangeFormat_def)

lemma updateMaxArraySize_sink:
  assumes "updateMaxArraySize loc node k ctx = Some ctxU"
  shows "count_list (emittedFormats ctx ctxU) arrayIndexOutOfRangeFormat = 0
     \<and> sentinels ctxU = sentinels ctx \<and> anyIndexLimits ctxU = anyIndexLimits ctx"
  using assms arrayIndexOutOfRangeFormat_nonempty
  by (auto simp: updateMaxArraySize_def emittedFormats_def Let_def
      split: TIntermNode.splits option.splits if_splits prod.splits)

lemma emittedFormats_trans:
  assumes "\<exists>ds. infoSink c1 = infoSink c0 @ ds" "\<exists>ds. infoSink c2 = infoSink c1 @ ds"
  shows "emittedFormats c0 c2 = emittedFormats c0 c1 @ emittedFormats c1 c2"
  using assms by (auto simp: emittedFormats_def)

lemma updateMaxArraySize_appends:
  assumes "updateMaxArraySize loc node k ctx = Some ctxU"
  shows "\<exists>ds. infoSink ctxU = infoSink ctx @ ds"
  using assms
  by (auto simp: updateMaxArraySize_def Let_def
      split: TIntermNode.splits option.splits if_splits prod.splits)

text \<open>Claim C2. \<^verbatim>\<open>handleBracketDereference\<close> on a base that (after \<^verbatim>\<open>variableCheck\<close>) is an
  array without \<open>const\<close> storage, with a constant index \<open>k\<close>. For an array of a known size \<open>n\<close>
  the handler reports \<open>array index out of range\<close> exactly when \<open>k < 0\<close> or \<open>k \<ge> n\<close>, and nothing
  else. For an unsized array (size 0) it reports no range error and leaves the sink and the
  symbol table as \<^verbatim>\<open>updateMaxArraySize\<close> with \<open>k\<close> leaves them. In both cases the result is an
  \<open>IndexDirect\<close> node over the base and the index, typed with the element type.\<close>

theorem handleBracketDereference_constant_index:
  assumes vc: "variableCheck ext base0 ctx = (base, ctxV)"
    and bt: "getType base = Some bt" and it: "getType index = Some indexType"
    and arr: "getArraySize bt = Some n"
    and nc: "storage (qualifier bt) \<noteq> EvqConst"
    and ic: "storage (qualifier indexType) = EvqConst"
    and k: "indexOfNode index = Some k"
  shows "(n \<noteq> 0 \<longrightarrow>
            (\<exists>ctx'. handleBracketDereference ext loc base0 index ctx =
                 Some (Some (setType (dereference bt)
                               (addIndex (sentinels ctxV) EOpIndexDirect base index loc)), ctx')
               \<and> emittedFormats ctxV ctx' =
                   (if k < 0 \<or> k \<ge> n then [arrayIndexOutOfRangeFormat] else [])))
     \<and> (n = 0 \<longrightarrow>
            (case updateMaxArraySize loc base k ctxV of
               None \<Rightarrow> handleBracketDereference ext loc base0 index ctx = None
             | Some ctxU \<Rightarrow>
                 (\<exists>ctx'. handleBracketDereference ext loc base0 index ctx =
                      Some (Some (setType (dereference bt)
                                    (addIndex (sentinels ctxV) EOpIndexDirect base index loc)),
                            ctx')
                    \<and> infoSink ctx' = infoSink ctxU \<and> symbolTable ctx' = symbolTable ctxU
                    \<and> count_list (emittedFormats ctxV ctx') arrayIndexOutOfRangeFormat = 0)))"
proof (intro conjI impI)
  have isa: "isArray bt" using arr by (auto simp: isArray_def getArraySize_def)
  assume n0: "n \<noteq> 0"
  let ?ctx2 = "if k \<ge> n \<or> k < 0 then
                 error loc [] ''['' arrayIndexOutOfRangeFormat [ArgInt k] ctxV else ctxV"
  have br: "bracketResult ext loc base bt index indexType ctxV =
      Some (Some (addIndex (sentinels ctxV) EOpIndexDirect base index loc), ?ctx2)"
    using isa nc ic k arr n0 by (simp add: bracketResult_def Let_def)
  let ?ctx3 = "if anyIndexLimits ?ctx2 \<and> indexLimited ext base bt ?ctx2 then
                 ?ctx2\<lparr>needsIndexLimitationChecking :=
                          needsIndexLimitationChecking ?ctx2 @ [index]\<rparr>
               else ?ctx2"
  have h: "handleBracketDereference ext loc base0 index ctx =
      Some (Some (setType (dereference bt)
                    (addIndex (sentinels ctxV) EOpIndexDirect base index loc)), ?ctx3)"
    using nc by (simp add: handleBracketDereference_def vc bt it br Let_def)
  have e: "emittedFormats ctxV ?ctx3 = (if k < 0 \<or> k \<ge> n then [arrayIndexOutOfRangeFormat] else [])"
    by (auto simp: emittedFormats_def)
  from h e show "\<exists>ctx'. handleBracketDereference ext loc base0 index ctx =
                 Some (Some (setType (dereference bt)
                               (addIndex (sentinels ctxV) EOpIndexDirect base index loc)), ctx')
               \<and> emittedFormats ctxV ctx' =
                   (if k < 0 \<or> k \<ge> n then [arrayIndexOutOfRangeFormat] else [])"
    by blast
next
  have isa: "isArray bt" using arr by (auto simp: isArray_def getArraySize_def)
  assume n0: "n = 0"
  show "case updateMaxArraySize loc base k ctxV of
               None \<Rightarrow> handleBracketDereference ext loc base0 index ctx = None
             | Some ctxU \<Rightarrow>
                 (\<exists>ctx'. handleBracketDereference ext loc base0 index ctx =
                      Some (Some (setType (dereference bt)
                                    (addIndex (sentinels ctxV) EOpIndexDirect base index loc)),
                            ctx')
                    \<and> infoSink ctx' = infoSink ctxU \<and> symbolTable ctx' = symbolTable ctxU
                    \<and> count_list (emittedFormats ctxV ctx') arrayIndexOutOfRangeFormat = 0)"
  proof (cases "updateMaxArraySize loc base k ctxV")
    case None
    have br: "bracketResult ext loc base bt index indexType ctxV = None"
      using isa nc ic k arr n0 None by (simp add: bracketResult_def Let_def)
    have "handleBracketDereference ext loc base0 index ctx = None"
      by (simp add: handleBracketDereference_def vc bt it br Let_def)
    with None show ?thesis by simp
  next
    case (Some ctxU)
    have br: "bracketResult ext loc base bt index indexType ctxV =
        Some (Some (addIndex (sentinels ctxU) EOpIndexDirect base index loc), ctxU)"
      using isa nc ic k arr n0 Some by (simp add: bracketResult_def Let_def)
    note u = updateMaxArraySize_sink[OF Some]
    let ?ctx3 = "if anyIndexLimits ctxU \<and> indexLimited ext base bt ctxU then
                   ctxU\<lparr>needsIndexLimitationChecking :=
                          needsIndexLimitationChecking ctxU @ [index]\<rparr>
                 else ctxU"
    have h: "handleBracketDereference ext loc base0 index ctx =
        Some (Some (setType (dereference bt)
                      (addIndex (sentinels ctxV) EOpIndexDirect base index loc)), ?ctx3)"
      using nc u by (simp add: handleBracketDereference_def vc bt it br Let_def)
    have s: "infoSink ?ctx3 = infoSink ctxU" "symbolTable ?ctx3 = symbolTable ctxU" by simp_all
    have "emittedFormats ctxV ?ctx3 = emittedFormats ctxV ctxU"
      by (simp add: emittedFormats_def)
    with u have c: "count_list (emittedFormats ctxV ?ctx3) arrayIndexOutOfRangeFormat = 0" by simp
    from h s c Some show ?thesis by auto
  qed
qed


theorem handleBracketDereference_constant_index_witness:
  "(\<exists>ctx'. handleBracketDereference plainExternals loc0 (arrayNode 3) (intConstant 3) arrayContext =
        Some (Some (setType (dereference (floatArrayType 3))
                      (addIndex (sentinels arrayContext) EOpIndexDirect (arrayNode 3)
                         (intConstant 3) loc0)), ctx')
      \<and> emittedFormats arrayContext ctx' = [arrayIndexOutOfRangeFormat])
   \<and> (\<exists>ctxU ctx'. updateMaxArraySize loc0 (arrayNode 0) 3 arrayContext = Some ctxU
      \<and> handleBracketDereference plainExternals loc0 (arrayNode 0) (intConstant 3) arrayContext =
        Some (Some (setType (dereference (floatArrayType 0))
                      (addIndex (sentinels arrayContext) EOpIndexDirect (arrayNode 0)
                         (intConstant 3) loc0)), ctx')
      \<and> infoSink ctx' = infoSink ctxU \<and> symbolTable ctx' = symbolTable ctxU
      \<and> count_list (emittedFormats arrayContext ctx') arrayIndexOutOfRangeFormat = 0)"
proof
  have vc: "variableCheck plainExternals (arrayNode 3) arrayContext = (arrayNode 3, arrayContext)"
    by (simp add: variableCheck_def arrayNode_def floatArrayType_def floatType_def mkType_def
        setArraySizes_def clearQualifier_def)
  have bt: "getType (arrayNode 3) = Some (floatArrayType 3)" by (simp add: arrayNode_def)
  have it: "getType (intConstant 3) = Some (mkType theSentinels EbtInt EvqConst 1)"
    by (simp add: intConstant_def)
  have arr: "getArraySize (floatArrayType 3) = Some 3"
    by (simp add: getArraySize_def floatArrayType_def setArraySizes_def)
  have nc: "storage (qualifier (floatArrayType 3)) \<noteq> EvqConst"
    by (simp add: floatArrayType_def setArraySizes_def floatType_def mkType_def
        clearQualifier_def)
  have ic: "storage (qualifier (mkType theSentinels EbtInt EvqConst 1)) = EvqConst"
    by (simp add: mkType_def)
  have k: "indexOfNode (intConstant 3) = Some 3"
    by (simp add: indexOfNode_def intConstant_def getIConst_def)
  from handleBracketDereference_constant_index[OF vc bt it arr nc ic k, of loc0]
  show "\<exists>ctx'. handleBracketDereference plainExternals loc0 (arrayNode 3) (intConstant 3)
          arrayContext =
        Some (Some (setType (dereference (floatArrayType 3))
                      (addIndex (sentinels arrayContext) EOpIndexDirect (arrayNode 3)
                         (intConstant 3) loc0)), ctx')
      \<and> emittedFormats arrayContext ctx' = [arrayIndexOutOfRangeFormat]"
    by simp
next
  have vc: "variableCheck plainExternals (arrayNode 0) arrayContext = (arrayNode 0, arrayContext)"
    by (simp add: variableCheck_def arrayNode_def floatArrayType_def floatType_def mkType_def
        setArraySizes_def clearQualifier_def)
  have bt: "getType (arrayNode 0) = Some (floatArrayType 0)" by (simp add: arrayNode_def)
  have it: "getType (intConstant 3) = Some (mkType theSentinels EbtInt EvqConst 1)"
    by (simp add: intConstant_def)
  have arr: "getArraySize (floatArrayType 0) = Some 0"
    by (simp add: getArraySize_def floatArrayType_def setArraySizes_def)
  have nc: "storage (qualifier (floatArrayType 0)) \<noteq> EvqConst"
    by (simp add: floatArrayType_def setArraySizes_def floatType_def mkType_def
        clearQualifier_def)
  have ic: "storage (qualifier (mkType theSentinels EbtInt EvqConst 1)) = EvqConst"
    by (simp add: mkType_def)
  have k: "indexOfNode (intConstant 3) = Some 3"
    by (simp add: indexOfNode_def intConstant_def getIConst_def)
  have "\<exists>ctxU. updateMaxArraySize loc0 (arrayNode 0) 3 arrayContext = Some ctxU"
    by (simp add: updateMaxArraySize_def arrayNode_def floatArrayType_def setArraySizes_def
        getMaxArraySize_def arrayContext_def find_def setMaxArraySize_def Let_def)
  then obtain ctxU where u: "updateMaxArraySize loc0 (arrayNode 0) 3 arrayContext = Some ctxU" ..
  from handleBracketDereference_constant_index[OF vc bt it arr nc ic k, of loc0] u
  show "\<exists>ctxU ctx'. updateMaxArraySize loc0 (arrayNode 0) 3 arrayContext = Some ctxU
      \<and> handleBracketDereference plainExternals loc0 (arrayNode 0) (intConstant 3) arrayContext =
        Some (Some (setType (dereference (floatArrayType 0))
                      (addIndex (sentinels arrayContext) EOpIndexDirect (arrayNode 0)
                         (intConstant 3) loc0)), ctx')
      \<and> infoSink ctx' = infoSink ctxU \<and> symbolTable ctx' = symbolTable ctxU
      \<and> count_list (emittedFormats arrayContext ctx') arrayIndexOutOfRangeFormat = 0"
    by auto
qed


section \<open>Recovery of the expression handlers\<close>

lemma handleVariable_not_null:
  "handleVariable loc symbol string ctx \<noteq> Some (None, c)"
  by (auto simp: handleVariable_def Let_def
      split: option.splits TSymbol.splits if_splits)

lemma handleBracketDereference_not_null:
  "handleBracketDereference ext loc baseNode index ctx \<noteq> Some (None, c)"
  by (auto simp: handleBracketDereference_def Let_def
      split: option.splits prod.splits if_splits)

lemma handleFunctionCall_not_null:
  "handleFunctionCall ext loc fnCall intermNode intermAggregate ctx \<noteq> Some (None, c)"
  by (auto simp: handleFunctionCall_def split: option.splits prod.splits)

lemma handleVariable_no_symbol:
  "handleVariable loc None string ctx =
     Some (Some (addSymbol 0 string (mkType (sentinels ctx) EbtVoid EvqTemporary 1) loc), ctx)"
  by (simp add: handleVariable_def mkType_def)

lemma handleVariable_variable:
  "handleVariable loc (Some (SymVariable v ro)) string ctx =
     Some (Some (if storage (qualifier (varType v)) = EvqConst
                 then addConstantUnion (varConstArray v) (varType v) loc
                 else addSymbol (varUniqueId v) (varName v) (varType v) loc), ctx)"
  by (simp add: handleVariable_def)

lemma handleVariable_function:
  "handleVariable loc (Some (SymFunction f ro)) string ctx =
     Some (Some (addSymbol 0 string (mkType (sentinels ctx) EbtVoid EvqTemporary 1) loc),
           error loc ''variable name expected'' string [] [] ctx)"
  by (simp add: handleVariable_def mkType_def)

lemma handleVariable_anonymous:
  assumes "structFields (varType v) = Some members" and "m < length members"
  shows "handleVariable loc (Some (SymAnonMember an v m ro)) string ctx =
     Some (Some (IntermBinary EOpIndexDirectStruct
                   (addSymbol (varUniqueId v) (varName v) (varType v) loc)
                   (addConstantUnion [UConst m] (mkType (sentinels ctx) EbtUint EvqConst 1) loc)
                   (members ! m) loc), ctx)"
  using assms by (simp add: handleVariable_def addIndex_def)

lemma handleBracketDereference_not_indexable:
  assumes "variableCheck ext baseNode ctx = (base, ctxV)"
    and "getType base = Some bt" and "getType index = Some indexType"
    and "\<not> isArray bt" "\<not> isMatrix bt" "\<not> isVector bt"
  shows "handleBracketDereference ext loc baseNode index ctx =
     Some (Some (recoveryNode (sentinels ctxV) loc),
       error loc '' left of '[' is not of type array, matrix, or vector ''
         (case symbolNameOf base of Some n \<Rightarrow> n | None \<Rightarrow> ''expression'') [] [] ctxV)"
  using assms by (simp add: handleBracketDereference_def bracketResult_def)

lemma last_emittedReasons_error:
  assumes "length (infoSink ctx) \<le> length (infoSink ctxE)"
  shows "last (emittedReasons ctx (error loc reason token fmt args ctxE)) = reason"
  using assms by (simp add: emittedReasons_def error_def)

lemma bracketResult_fold_fails:
  assumes "isArray bt \<or> isMatrix bt \<or> isVector bt"
    and "storage (qualifier bt) = EvqConst" "storage (qualifier indexType) = EvqConst"
    and "indexOfNode index = Some k" and "getConstArray base = None"
  shows "\<exists>ctxF. bracketResult ext loc base bt index indexType ctxV = Some (None, ctxF)
     \<and> sentinels ctxF = sentinels ctxV
     \<and> last (emittedReasons ctxV ctxF) =
         (if isArray bt then ''Cannot offset into the array''
          else if isVector bt then ''Cannot offset into the vector''
          else ''Cannot offset into the matrix'')"
proof (cases "isArray bt")
  case True
  then obtain n where n: "getArraySize bt = Some n"
    by (auto simp: isArray_def getArraySize_def)
  show ?thesis
    using assms True n
    by (simp add: bracketResult_def addConstArrayNode_def Let_def last_emittedReasons_error)
next
  case False
  show ?thesis
  proof (cases "isVector bt")
    case True
    show ?thesis
      using assms True \<open>\<not> isArray bt\<close>
      by (simp add: bracketResult_def addConstVectorNode_def Let_def last_emittedReasons_error)
  next
    case nv: False
    with assms(1) False have m: "isMatrix bt" by simp
    show ?thesis
      using assms nv m \<open>\<not> isArray bt\<close>
      by (simp add: bracketResult_def addConstMatrixNode_def Let_def last_emittedReasons_error)
  qed
qed

lemma handleBracketDereference_fold_fails:
  assumes "variableCheck ext baseNode ctx = (base, ctxV)"
    and "getType base = Some bt" and "getType index = Some indexType"
    and "isArray bt \<or> isMatrix bt \<or> isVector bt"
    and "storage (qualifier bt) = EvqConst" "storage (qualifier indexType) = EvqConst"
    and "indexOfNode index = Some k" and "getConstArray base = None"
  shows "\<exists>ctxF. handleBracketDereference ext loc baseNode index ctx =
       Some (Some (recoveryNode (sentinels ctxV) loc), ctxF)
     \<and> last (emittedReasons ctxV ctxF) =
         (if isArray bt then ''Cannot offset into the array''
          else if isVector bt then ''Cannot offset into the vector''
          else ''Cannot offset into the matrix'')"
proof -
  from bracketResult_fold_fails[OF assms(4-8), of ext loc ctxV]
  obtain ctxF where f: "bracketResult ext loc base bt index indexType ctxV = Some (None, ctxF)"
    and s: "sentinels ctxF = sentinels ctxV"
    and l: "last (emittedReasons ctxV ctxF) =
         (if isArray bt then ''Cannot offset into the array''
          else if isVector bt then ''Cannot offset into the vector''
          else ''Cannot offset into the matrix'')"
    by blast
  have "handleBracketDereference ext loc baseNode index ctx =
       Some (Some (recoveryNode (sentinels ctxV) loc), ctxF)"
    using assms(1-3) f s by (simp add: handleBracketDereference_def)
  with l show ?thesis by blast
qed

lemma handleBracketDereference_variable_index:
  assumes "variableCheck ext baseNode ctx = (base, ctxV)"
    and "getType base = Some bt" and "getType index = Some indexType"
    and "isArray bt \<or> isMatrix bt \<or> isVector bt"
    and "storage (qualifier indexType) \<noteq> EvqConst"
  shows "\<exists>ctxF. handleBracketDereference ext loc baseNode index ctx =
       Some (Some (IntermBinary EOpIndexIndirect base index (dereference bt) loc), ctxF)"
  using assms
  by (auto simp: handleBracketDereference_def bracketResult_def Let_def addIndex_def)

lemma handleBracketDereference_out_of_range:
  assumes "variableCheck ext baseNode ctx = (base, ctxV)"
    and "getType base = Some bt" and "getType index = Some indexType"
    and "getArraySize bt = Some n" and "n \<noteq> 0"
    and "storage (qualifier bt) \<noteq> EvqConst" and "storage (qualifier indexType) = EvqConst"
    and "indexOfNode index = Some k" and "n \<le> k \<or> k < 0"
  shows "\<exists>ctxF. handleBracketDereference ext loc baseNode index ctx =
       Some (Some (IntermBinary EOpIndexDirect base index (dereference bt) loc), ctxF)
     \<and> emittedFormats ctxV ctxF = [arrayIndexOutOfRangeFormat]
     \<and> numErrors ctxF = numErrors ctxV + 1"
proof -
  have a: "isArray bt" using assms(4) by (auto simp: isArray_def getArraySize_def)
  show ?thesis
    using assms a
    by (auto simp: handleBracketDereference_def bracketResult_def Let_def addIndex_def
        emittedFormats_def error_def)
qed

lemma handleFunctionCall_length:
  assumes "funBuiltInOp fnCall = EOpArrayLength" and "intermNode = Some n"
  shows "\<exists>len ctxF. handleFunctionCall ext loc fnCall intermNode intermAggregate ctx =
       Some (Some (addConstantUnion [IConst len] (mkType (sentinels ctx) EbtInt EvqConst 1) loc),
             ctxF)"
  using assms
  by (auto simp: handleFunctionCall_def functionCallResult_def Let_def)

lemma handleFunctionCall_length_unsized:
  assumes "funBuiltInOp fnCall = EOpArrayLength" and "funParams fnCall = []"
    and "intermNode = Some n" and "getType n = Some t" and "getArraySize t = Some 0"
  shows "handleFunctionCall ext loc fnCall intermNode intermAggregate ctx =
       Some (Some (addConstantUnion [IConst 1] (mkType (sentinels ctx) EbtInt EvqConst 1) loc),
             error loc [] (funName fnCall)
               ''array must be declared with a size before using this method'' [] ctx)"
proof -
  have "getAsTyped n = Some n" using assms(4) by (cases n) simp_all
  then show ?thesis
    using assms
    by (simp add: handleFunctionCall_def functionCallResult_def Let_def)
qed

lemma handleFunctionCall_constructor_error:
  assumes "funBuiltInOp fnCall \<noteq> EOpArrayLength" "funBuiltInOp fnCall \<noteq> EOpNull"
    and "constructorError ext loc intermNode fnCall (funBuiltInOp fnCall) ctx = Some (True, t, ctxE)"
  shows "handleFunctionCall ext loc fnCall intermNode intermAggregate ctx =
     Some (Some (recoveryNode (sentinels ctxE) loc), ctxE)"
  using assms by (simp add: handleFunctionCall_def functionCallResult_def)

lemma handleFunctionCall_cannot_construct:
  assumes "funBuiltInOp fnCall \<noteq> EOpArrayLength" "funBuiltInOp fnCall \<noteq> EOpNull"
    and "constructorError ext loc intermNode fnCall (funBuiltInOp fnCall) ctx = Some (False, t, ctxE)"
    and "addConstructor ext loc intermNode t (funBuiltInOp fnCall) ctxE = (None, ctxA)"
  shows "handleFunctionCall ext loc fnCall intermNode intermAggregate ctx =
     Some (Some (recoveryNode (sentinels ctxA) loc),
           error loc ''cannot construct with these arguments'' (getCompleteString ext t) [] []
             ctxA)"
  using assms by (simp add: handleFunctionCall_def functionCallResult_def)

lemma handleFunctionCall_not_found:
  assumes "funBuiltInOp fnCall = EOpNull"
    and "find (symbolTable ctx) (funMangledName fnCall) = None"
  shows "handleFunctionCall ext loc fnCall intermNode intermAggregate ctx =
     Some (Some (recoveryNode (sentinels ctx) loc),
           error loc ''no matching overloaded function found'' (funName fnCall) [] [] ctx)"
  using assms
  by (simp add: handleFunctionCall_def functionCallResult_def findFunction_def)

lemma handleFunctionCall_not_a_function:
  assumes "funBuiltInOp fnCall = EOpNull"
    and "find (symbolTable ctx) (funMangledName fnCall) = Some (lvl, symbol)"
    and "getAsFunction symbol = None"
  shows "handleFunctionCall ext loc fnCall intermNode intermAggregate ctx =
     Some (Some (recoveryNode (sentinels ctx) loc),
           error loc ''function name expected'' (funName fnCall) [] [] ctx)"
  using assms
  by (simp add: handleFunctionCall_def functionCallResult_def findFunction_def)

lemma handleFunctionCall_wrong_operand:
  assumes "funBuiltInOp fnCall = EOpNull"
    and "find (symbolTable ctx) (funMangledName fnCall) = Some (lvl, symbol)"
    and "getAsFunction symbol = Some f"
    and "foundBuiltIn (symbolTable ctx) lvl" and "funBuiltInOp f \<noteq> EOpNull"
    and "addBuiltInFunctionCall ext loc (funBuiltInOp f) (length (funParams f) = 1) intermNode
           (funType f) = None"
    and "intermNode = Some n" and "getType n = Some nt"
  shows "handleFunctionCall ext loc fnCall intermNode intermAggregate ctx =
     Some (Some (recoveryNode (sentinels ctx) loc),
           error (getLoc n) '' wrong operand type'' ''Internal Error''
             ''built in unary operator function.  Type: %s''
             [ArgStr (getCompleteString ext nt)] ctx)"
  using assms
  by (simp add: handleFunctionCall_def functionCallResult_def findFunction_def)

lemma recoveryNode_is_float_zero:
  "\<exists>t. recoveryNode k loc = IntermConstantUnion [DConst 0] t loc
       \<and> basicType t = EbtFloat \<and> storage (qualifier t) = EvqConst
       \<and> isScalar t"
  by (simp add: recoveryNode_def addConstantUnion_def mkType_def isScalar_def isArray_def)

lemma find_insert_sym:
  assumes "levels tbl \<noteq> []" and "map_of (last (levels tbl)) (symName s) = None"
  shows "insert_sym s tbl =
      (True, withUniqueId (nextUniqueId tbl + 1) s,
       tbl\<lparr>nextUniqueId := nextUniqueId tbl + 1,
           levels := butlast (levels tbl)
             @ [(symName s, withUniqueId (nextUniqueId tbl + 1) s) # last (levels tbl)]\<rparr>)"
proof -
  have n: "symName (withUniqueId i s) = symName s" for i by (cases s) simp_all
  obtain l ls where r: "rev (levels tbl) = l # ls"
    using assms(1) by (cases "rev (levels tbl)") auto
  then have l: "last (levels tbl) = l" "butlast (levels tbl) = rev ls"
    by (metis last_rev list.sel(1) rev_rev_ident hd_rev,
        metis butlast_rev list.sel(3) rev_rev_ident rev_swap)
  show ?thesis
    using assms(2) unfolding insert_sym_def Let_def r l n by simp
qed

lemma find_after_insert:
  assumes "levels tbl = below @ [innermost]"
  shows "find (tbl\<lparr>nextUniqueId := i, levels := below @ [(n, s) # innermost]\<rparr>) n
     = Some (length below, s)"
  by (simp add: find_def)

lemma variableCheck_undeclared:
  assumes "basicType t = EbtVoid"
    and "levels (symbolTable ctx) = below @ [innermost]" and "map_of innermost n = None"
  shows "variableCheck ext (IntermSymbol i n t l) ctx =
     (IntermSymbol (nextUniqueId (symbolTable ctx) + 1) n
        (mkType (sentinels ctx) EbtFloat EvqTemporary 1) l,
      (error l ''undeclared identifier'' n [] [] ctx)
        \<lparr>symbolTable := (symbolTable ctx)
           \<lparr>nextUniqueId := nextUniqueId (symbolTable ctx) + 1,
            levels := below @ [(n, SymVariable
                \<lparr> varName = n, varType = mkType (sentinels ctx) EbtFloat EvqTemporary 1,
                  varConstArray = [], varUniqueId = nextUniqueId (symbolTable ctx) + 1 \<rparr> False)
              # innermost]\<rparr>\<rparr>)"
proof -
  let ?fake = "SymVariable \<lparr> varName = n,
                 varType = mkType (sentinels ctx) EbtFloat EvqTemporary 1,
                 varConstArray = [], varUniqueId = 0 \<rparr> False"
  have ne: "levels (symbolTable ctx) \<noteq> []" using assms(2) by simp
  have m: "map_of (last (levels (symbolTable ctx))) (symName ?fake) = None"
    using assms(2,3) by simp
  note ins = find_insert_sym[OF ne m]
  show ?thesis
    using assms(1,2)
    by (simp add: variableCheck_def Let_def ins addSymbol_def)
qed


lemma variableCheck_undeclared_props:
  assumes "basicType t = EbtVoid"
    and "levels (symbolTable ctx) = below @ [innermost]" and "map_of innermost n = None"
  shows "\<exists>ctx'. variableCheck ext (IntermSymbol i n t l) ctx =
       (IntermSymbol (nextUniqueId (symbolTable ctx) + 1) n
          (mkType (sentinels ctx) EbtFloat EvqTemporary 1) l, ctx')
     \<and> find (symbolTable ctx') n =
         Some (length below,
           SymVariable \<lparr> varName = n, varType = mkType (sentinels ctx) EbtFloat EvqTemporary 1,
                         varConstArray = [],
                         varUniqueId = nextUniqueId (symbolTable ctx) + 1 \<rparr> False)
     \<and> emittedReasons ctx ctx' = [''undeclared identifier'']"
  unfolding variableCheck_undeclared[OF assms]
  by (simp add: find_def emittedReasons_def)

text \<open>Claim C9. The expression handlers recover from their errors with a typed node.
  \<^verbatim>\<open>handleVariable\<close>, \<^verbatim>\<open>handleBracketDereference\<close> and \<^verbatim>\<open>handleFunctionCall\<close> never return a
  null node. \<^verbatim>\<open>handleVariable\<close> returns a node for a missing symbol, a variable, a symbol that
  is no variable (after the error \<^verbatim>\<open>variable name expected\<close>) and a member of an anonymous
  container. \<^verbatim>\<open>handleBracketDereference\<close> returns the recovery node, a constant union holding
  the single value 0.0 of scalar type float with storage const, on the paths that have built no
  node: when the base, after \<^verbatim>\<open>variableCheck\<close>, is neither an array, a matrix nor a vector, and
  when base and index are both of storage const but the base node is no constant union.
  \<^verbatim>\<open>handleFunctionCall\<close> returns the recovery node when \<^verbatim>\<open>constructorError\<close> rejects a
  constructor, when \<^verbatim>\<open>addConstructor\<close> returns null, when the function is not found, when the
  name found is no function, and when \<^verbatim>\<open>addBuiltInFunctionCall\<close> returns null. On the error
  paths that have built a node the handlers return that node: a constant index out of the range
  of a sized array reports the range error and returns the direct-index node, and the method
  \<^verbatim>\<open>length\<close> on an array without a size reports its error and returns the integer constant 1;
  an index that is no constant returns the indirect-index node. For a symbol node of type void,
  \<^verbatim>\<open>variableCheck\<close> reports \<^verbatim>\<open>undeclared identifier\<close>, inserts a fresh variable of type float
  under that name at the innermost scope of the symbol table, and replaces the node by a symbol
  node of that type carrying the fresh variable's id.\<close>

theorem handlers_recover:
  "(handleVariable loc symbol string ctx \<noteq> Some (None, c))
   \<and> (handleBracketDereference ext loc baseNode index ctx \<noteq> Some (None, c))
   \<and> (handleFunctionCall ext loc fnCall intermNode intermAggregate ctx \<noteq> Some (None, c))
   \<and> (handleVariable loc None string ctx =
      Some (Some (addSymbol 0 string (mkType (sentinels ctx) EbtVoid EvqTemporary 1) loc), ctx))
   \<and> (handleVariable loc (Some (SymVariable v ro)) string ctx =
      Some (Some (if storage (qualifier (varType v)) = EvqConst
                  then addConstantUnion (varConstArray v) (varType v) loc
                  else addSymbol (varUniqueId v) (varName v) (varType v) loc), ctx))
   \<and> (handleVariable loc (Some (SymFunction f ro)) string ctx =
      Some (Some (addSymbol 0 string (mkType (sentinels ctx) EbtVoid EvqTemporary 1) loc),
            error loc ''variable name expected'' string [] [] ctx))
   \<and> (structFields (varType v) = Some members \<and> m < length members
      \<longrightarrow> handleVariable loc (Some (SymAnonMember an v m ro)) string ctx =
            Some (Some (IntermBinary EOpIndexDirectStruct
                          (addSymbol (varUniqueId v) (varName v) (varType v) loc)
                          (addConstantUnion [UConst m]
                             (mkType (sentinels ctx) EbtUint EvqConst 1) loc)
                          (members ! m) loc), ctx))
   \<and> (variableCheck ext baseNode ctx = (base, ctxV) \<and> getType base = Some bt
        \<and> getType index = Some indexType
        \<and> \<not> isArray bt \<and> \<not> isMatrix bt \<and> \<not> isVector bt
      \<longrightarrow> handleBracketDereference ext loc baseNode index ctx =
            Some (Some (recoveryNode (sentinels ctxV) loc),
              error loc '' left of '[' is not of type array, matrix, or vector ''
                (case symbolNameOf base of Some n \<Rightarrow> n | None \<Rightarrow> ''expression'') [] []
                ctxV))
   \<and> (variableCheck ext baseNode ctx = (base, ctxV) \<and> getType base = Some bt
        \<and> getType index = Some indexType
        \<and> (isArray bt \<or> isMatrix bt \<or> isVector bt)
        \<and> storage (qualifier bt) = EvqConst \<and> storage (qualifier indexType) = EvqConst
        \<and> indexOfNode index = Some k \<and> getConstArray base = None
      \<longrightarrow> (\<exists>ctxF. handleBracketDereference ext loc baseNode index ctx =
              Some (Some (recoveryNode (sentinels ctxV) loc), ctxF)
            \<and> last (emittedReasons ctxV ctxF) =
                (if isArray bt then ''Cannot offset into the array''
                 else if isVector bt then ''Cannot offset into the vector''
                 else ''Cannot offset into the matrix'')))
   \<and> (variableCheck ext baseNode ctx = (base, ctxV) \<and> getType base = Some bt
        \<and> getType index = Some indexType
        \<and> (isArray bt \<or> isMatrix bt \<or> isVector bt)
        \<and> storage (qualifier indexType) \<noteq> EvqConst
      \<longrightarrow> (\<exists>ctxF. handleBracketDereference ext loc baseNode index ctx =
              Some (Some (IntermBinary EOpIndexIndirect base index (dereference bt) loc),
                    ctxF)))
   \<and> (variableCheck ext baseNode ctx = (base, ctxV) \<and> getType base = Some bt
        \<and> getType index = Some indexType
        \<and> getArraySize bt = Some asize \<and> asize \<noteq> 0
        \<and> storage (qualifier bt) \<noteq> EvqConst \<and> storage (qualifier indexType) = EvqConst
        \<and> indexOfNode index = Some k \<and> (asize \<le> k \<or> k < 0)
      \<longrightarrow> (\<exists>ctxF. handleBracketDereference ext loc baseNode index ctx =
              Some (Some (IntermBinary EOpIndexDirect base index (dereference bt) loc), ctxF)
            \<and> emittedFormats ctxV ctxF = [arrayIndexOutOfRangeFormat]
            \<and> numErrors ctxF = numErrors ctxV + 1))
   \<and> (funBuiltInOp fnCall = EOpArrayLength \<and> intermNode = Some node
      \<longrightarrow> (\<exists>len ctxF. handleFunctionCall ext loc fnCall intermNode intermAggregate ctx =
              Some (Some (addConstantUnion [IConst len]
                            (mkType (sentinels ctx) EbtInt EvqConst 1) loc), ctxF)))
   \<and> (funBuiltInOp fnCall = EOpArrayLength \<and> funParams fnCall = [] \<and> intermNode = Some node
        \<and> getType node = Some nodeType \<and> getArraySize nodeType = Some 0
      \<longrightarrow> handleFunctionCall ext loc fnCall intermNode intermAggregate ctx =
            Some (Some (addConstantUnion [IConst 1]
                          (mkType (sentinels ctx) EbtInt EvqConst 1) loc),
                  error loc [] (funName fnCall)
                    ''array must be declared with a size before using this method'' [] ctx))
   \<and> (funBuiltInOp fnCall \<noteq> EOpArrayLength \<and> funBuiltInOp fnCall \<noteq> EOpNull
        \<and> constructorError ext loc intermNode fnCall (funBuiltInOp fnCall) ctx =
            Some (True, ct, ctxE)
      \<longrightarrow> handleFunctionCall ext loc fnCall intermNode intermAggregate ctx =
            Some (Some (recoveryNode (sentinels ctxE) loc), ctxE))
   \<and> (funBuiltInOp fnCall \<noteq> EOpArrayLength \<and> funBuiltInOp fnCall \<noteq> EOpNull
        \<and> constructorError ext loc intermNode fnCall (funBuiltInOp fnCall) ctx =
            Some (False, ct, ctxE)
        \<and> addConstructor ext loc intermNode ct (funBuiltInOp fnCall) ctxE = (None, ctxA)
      \<longrightarrow> handleFunctionCall ext loc fnCall intermNode intermAggregate ctx =
            Some (Some (recoveryNode (sentinels ctxA) loc),
                  error loc ''cannot construct with these arguments''
                    (getCompleteString ext ct) [] [] ctxA))
   \<and> (funBuiltInOp fnCall = EOpNull
        \<and> find (symbolTable ctx) (funMangledName fnCall) = None
      \<longrightarrow> handleFunctionCall ext loc fnCall intermNode intermAggregate ctx =
            Some (Some (recoveryNode (sentinels ctx) loc),
                  error loc ''no matching overloaded function found'' (funName fnCall) [] []
                    ctx))
   \<and> (funBuiltInOp fnCall = EOpNull
        \<and> find (symbolTable ctx) (funMangledName fnCall) = Some (lvl, found)
        \<and> getAsFunction found = None
      \<longrightarrow> handleFunctionCall ext loc fnCall intermNode intermAggregate ctx =
            Some (Some (recoveryNode (sentinels ctx) loc),
                  error loc ''function name expected'' (funName fnCall) [] [] ctx))
   \<and> (funBuiltInOp fnCall = EOpNull
        \<and> find (symbolTable ctx) (funMangledName fnCall) = Some (lvl, found)
        \<and> getAsFunction found = Some callee
        \<and> foundBuiltIn (symbolTable ctx) lvl \<and> funBuiltInOp callee \<noteq> EOpNull
        \<and> addBuiltInFunctionCall ext loc (funBuiltInOp callee)
              (length (funParams callee) = 1) intermNode (funType callee) = None
        \<and> intermNode = Some node \<and> getType node = Some nodeType
      \<longrightarrow> handleFunctionCall ext loc fnCall intermNode intermAggregate ctx =
            Some (Some (recoveryNode (sentinels ctx) loc),
                  error (getLoc node) '' wrong operand type'' ''Internal Error''
                    ''built in unary operator function.  Type: %s''
                    [ArgStr (getCompleteString ext nodeType)] ctx))
   \<and> (\<exists>rt. recoveryNode sent loc = IntermConstantUnion [DConst 0] rt loc
          \<and> basicType rt = EbtFloat \<and> storage (qualifier rt) = EvqConst \<and> isScalar rt)
   \<and> (basicType t = EbtVoid \<and> levels (symbolTable ctx) = below @ [innermost]
        \<and> map_of innermost name = None
      \<longrightarrow> (\<exists>ctx'. variableCheck ext (IntermSymbol i name t l) ctx =
              (IntermSymbol (nextUniqueId (symbolTable ctx) + 1) name
                 (mkType (sentinels ctx) EbtFloat EvqTemporary 1) l, ctx')
            \<and> find (symbolTable ctx') name =
                Some (length below,
                  SymVariable \<lparr> varName = name,
                                varType = mkType (sentinels ctx) EbtFloat EvqTemporary 1,
                                varConstArray = [],
                                varUniqueId = nextUniqueId (symbolTable ctx) + 1 \<rparr> False)
            \<and> emittedReasons ctx ctx' = [''undeclared identifier'']))"
proof -
  have n1: "handleVariable loc symbol string ctx \<noteq> Some (None, c)"
    by (rule handleVariable_not_null)
  have n2: "handleBracketDereference ext loc baseNode index ctx \<noteq> Some (None, c)"
    by (rule handleBracketDereference_not_null)
  have n3: "handleFunctionCall ext loc fnCall intermNode intermAggregate ctx \<noteq> Some (None, c)"
    by (rule handleFunctionCall_not_null)
  have v1: "handleVariable loc None string ctx =
      Some (Some (addSymbol 0 string (mkType (sentinels ctx) EbtVoid EvqTemporary 1) loc), ctx)"
    by (rule handleVariable_no_symbol)
  have v2: "handleVariable loc (Some (SymVariable v ro)) string ctx =
      Some (Some (if storage (qualifier (varType v)) = EvqConst
                  then addConstantUnion (varConstArray v) (varType v) loc
                  else addSymbol (varUniqueId v) (varName v) (varType v) loc), ctx)"
    by (rule handleVariable_variable)
  have v3: "handleVariable loc (Some (SymFunction f ro)) string ctx =
      Some (Some (addSymbol 0 string (mkType (sentinels ctx) EbtVoid EvqTemporary 1) loc),
            error loc ''variable name expected'' string [] [] ctx)"
    by (rule handleVariable_function)
  have v4: "structFields (varType v) = Some members \<and> m < length members
      \<longrightarrow> handleVariable loc (Some (SymAnonMember an v m ro)) string ctx =
            Some (Some (IntermBinary EOpIndexDirectStruct
                          (addSymbol (varUniqueId v) (varName v) (varType v) loc)
                          (addConstantUnion [UConst m]
                             (mkType (sentinels ctx) EbtUint EvqConst 1) loc)
                          (members ! m) loc), ctx)"
    using handleVariable_anonymous by blast
  have b1: "variableCheck ext baseNode ctx = (base, ctxV) \<and> getType base = Some bt
        \<and> getType index = Some indexType
        \<and> \<not> isArray bt \<and> \<not> isMatrix bt \<and> \<not> isVector bt
      \<longrightarrow> handleBracketDereference ext loc baseNode index ctx =
            Some (Some (recoveryNode (sentinels ctxV) loc),
              error loc '' left of '[' is not of type array, matrix, or vector ''
                (case symbolNameOf base of Some n \<Rightarrow> n | None \<Rightarrow> ''expression'') [] []
                ctxV)"
    using handleBracketDereference_not_indexable by blast
  have b2: "variableCheck ext baseNode ctx = (base, ctxV) \<and> getType base = Some bt
        \<and> getType index = Some indexType
        \<and> (isArray bt \<or> isMatrix bt \<or> isVector bt)
        \<and> storage (qualifier bt) = EvqConst \<and> storage (qualifier indexType) = EvqConst
        \<and> indexOfNode index = Some k \<and> getConstArray base = None
      \<longrightarrow> (\<exists>ctxF. handleBracketDereference ext loc baseNode index ctx =
              Some (Some (recoveryNode (sentinels ctxV) loc), ctxF)
            \<and> last (emittedReasons ctxV ctxF) =
                (if isArray bt then ''Cannot offset into the array''
                 else if isVector bt then ''Cannot offset into the vector''
                 else ''Cannot offset into the matrix''))"
    using handleBracketDereference_fold_fails by blast
  have b3: "variableCheck ext baseNode ctx = (base, ctxV) \<and> getType base = Some bt
        \<and> getType index = Some indexType
        \<and> (isArray bt \<or> isMatrix bt \<or> isVector bt)
        \<and> storage (qualifier indexType) \<noteq> EvqConst
      \<longrightarrow> (\<exists>ctxF. handleBracketDereference ext loc baseNode index ctx =
              Some (Some (IntermBinary EOpIndexIndirect base index (dereference bt) loc),
                    ctxF))"
    using handleBracketDereference_variable_index by blast
  have b4: "variableCheck ext baseNode ctx = (base, ctxV) \<and> getType base = Some bt
        \<and> getType index = Some indexType
        \<and> getArraySize bt = Some asize \<and> asize \<noteq> 0
        \<and> storage (qualifier bt) \<noteq> EvqConst \<and> storage (qualifier indexType) = EvqConst
        \<and> indexOfNode index = Some k \<and> (asize \<le> k \<or> k < 0)
      \<longrightarrow> (\<exists>ctxF. handleBracketDereference ext loc baseNode index ctx =
              Some (Some (IntermBinary EOpIndexDirect base index (dereference bt) loc), ctxF)
            \<and> emittedFormats ctxV ctxF = [arrayIndexOutOfRangeFormat]
            \<and> numErrors ctxF = numErrors ctxV + 1)"
    using handleBracketDereference_out_of_range by blast
  have f1: "funBuiltInOp fnCall = EOpArrayLength \<and> intermNode = Some node
      \<longrightarrow> (\<exists>len ctxF. handleFunctionCall ext loc fnCall intermNode intermAggregate ctx =
              Some (Some (addConstantUnion [IConst len]
                            (mkType (sentinels ctx) EbtInt EvqConst 1) loc), ctxF))"
    using handleFunctionCall_length by blast
  have f2: "funBuiltInOp fnCall = EOpArrayLength \<and> funParams fnCall = [] \<and> intermNode = Some node
        \<and> getType node = Some nodeType \<and> getArraySize nodeType = Some 0
      \<longrightarrow> handleFunctionCall ext loc fnCall intermNode intermAggregate ctx =
            Some (Some (addConstantUnion [IConst 1]
                          (mkType (sentinels ctx) EbtInt EvqConst 1) loc),
                  error loc [] (funName fnCall)
                    ''array must be declared with a size before using this method'' [] ctx)"
    using handleFunctionCall_length_unsized by blast
  have f3: "funBuiltInOp fnCall \<noteq> EOpArrayLength \<and> funBuiltInOp fnCall \<noteq> EOpNull
        \<and> constructorError ext loc intermNode fnCall (funBuiltInOp fnCall) ctx =
            Some (True, ct, ctxE)
      \<longrightarrow> handleFunctionCall ext loc fnCall intermNode intermAggregate ctx =
            Some (Some (recoveryNode (sentinels ctxE) loc), ctxE)"
    using handleFunctionCall_constructor_error by blast
  have f4: "funBuiltInOp fnCall \<noteq> EOpArrayLength \<and> funBuiltInOp fnCall \<noteq> EOpNull
        \<and> constructorError ext loc intermNode fnCall (funBuiltInOp fnCall) ctx =
            Some (False, ct, ctxE)
        \<and> addConstructor ext loc intermNode ct (funBuiltInOp fnCall) ctxE = (None, ctxA)
      \<longrightarrow> handleFunctionCall ext loc fnCall intermNode intermAggregate ctx =
            Some (Some (recoveryNode (sentinels ctxA) loc),
                  error loc ''cannot construct with these arguments''
                    (getCompleteString ext ct) [] [] ctxA)"
    using handleFunctionCall_cannot_construct by blast
  have f5: "funBuiltInOp fnCall = EOpNull
        \<and> find (symbolTable ctx) (funMangledName fnCall) = None
      \<longrightarrow> handleFunctionCall ext loc fnCall intermNode intermAggregate ctx =
            Some (Some (recoveryNode (sentinels ctx) loc),
                  error loc ''no matching overloaded function found'' (funName fnCall) [] []
                    ctx)"
    using handleFunctionCall_not_found by blast
  have f6: "funBuiltInOp fnCall = EOpNull
        \<and> find (symbolTable ctx) (funMangledName fnCall) = Some (lvl, found)
        \<and> getAsFunction found = None
      \<longrightarrow> handleFunctionCall ext loc fnCall intermNode intermAggregate ctx =
            Some (Some (recoveryNode (sentinels ctx) loc),
                  error loc ''function name expected'' (funName fnCall) [] [] ctx)"
    using handleFunctionCall_not_a_function by blast
  have f7: "funBuiltInOp fnCall = EOpNull
        \<and> find (symbolTable ctx) (funMangledName fnCall) = Some (lvl, found)
        \<and> getAsFunction found = Some callee
        \<and> foundBuiltIn (symbolTable ctx) lvl \<and> funBuiltInOp callee \<noteq> EOpNull
        \<and> addBuiltInFunctionCall ext loc (funBuiltInOp callee)
              (length (funParams callee) = 1) intermNode (funType callee) = None
        \<and> intermNode = Some node \<and> getType node = Some nodeType
      \<longrightarrow> handleFunctionCall ext loc fnCall intermNode intermAggregate ctx =
            Some (Some (recoveryNode (sentinels ctx) loc),
                  error (getLoc node) '' wrong operand type'' ''Internal Error''
                    ''built in unary operator function.  Type: %s''
                    [ArgStr (getCompleteString ext nodeType)] ctx)"
    using handleFunctionCall_wrong_operand by blast
  have r1: "\<exists>rt. recoveryNode sent loc = IntermConstantUnion [DConst 0] rt loc
          \<and> basicType rt = EbtFloat \<and> storage (qualifier rt) = EvqConst \<and> isScalar rt"
    by (rule recoveryNode_is_float_zero)
  have c1: "basicType t = EbtVoid \<and> levels (symbolTable ctx) = below @ [innermost]
        \<and> map_of innermost name = None
      \<longrightarrow> (\<exists>ctx'. variableCheck ext (IntermSymbol i name t l) ctx =
              (IntermSymbol (nextUniqueId (symbolTable ctx) + 1) name
                 (mkType (sentinels ctx) EbtFloat EvqTemporary 1) l, ctx')
            \<and> find (symbolTable ctx') name =
                Some (length below,
                  SymVariable \<lparr> varName = name,
                                varType = mkType (sentinels ctx) EbtFloat EvqTemporary 1,
                                varConstArray = [],
                                varUniqueId = nextUniqueId (symbolTable ctx) + 1 \<rparr> False)
            \<and> emittedReasons ctx ctx' = [''undeclared identifier''])"
    using variableCheck_undeclared_props by blast
  from n1 n2 n3 v1 v2 v3 v4 b1 b2 b3 b4 f1 f2 f3 f4 f5 f6 f7 r1 c1 show ?thesis by (intro conjI)
qed

text \<open>Two error paths that do not end in the recovery node. With \<^verbatim>\<open>float a[3]\<close>, the
  expression \<^verbatim>\<open>a[3]\<close> reports the range error and comes back as the direct-index node; with
  \<^verbatim>\<open>float a[]\<close>, the call \<^verbatim>\<open>a.length()\<close> reports its error and comes back as the integer
  constant 1.\<close>

theorem handlers_recover_built_node_counterexample:
  "handleBracketDereference plainExternals loc0 (arrayNode 3) (intConstant 3) sizedArrayContext =
     Some (Some (IntermBinary EOpIndexDirect (arrayNode 3) (intConstant 3) floatType loc0),
           error loc0 [] ''['' arrayIndexOutOfRangeFormat [ArgInt 3] sizedArrayContext)
   \<and> handleFunctionCall plainExternals loc0 lengthCall (Some (arrayNode 0)) None arrayContext =
     Some (Some (IntermConstantUnion [IConst 1] (mkType theSentinels EbtInt EvqConst 1) loc0),
           error loc0 [] ''length''
             ''array must be declared with a size before using this method'' [] arrayContext)
   \<and> IntermBinary EOpIndexDirect (arrayNode 3) (intConstant 3) floatType loc0
       \<noteq> recoveryNode theSentinels loc0
   \<and> IntermConstantUnion [IConst 1] (mkType theSentinels EbtInt EvqConst 1) loc0
       \<noteq> recoveryNode theSentinels loc0"
proof (intro conjI)
  have sa: "sentinels arrayContext = theSentinels"
    by (simp add: arrayContext_def desktopContext_def newParseContext_def)
  have ss: "sentinels sizedArrayContext = theSentinels"
    by (simp add: sizedArrayContext_def desktopContext_def newParseContext_def)
  have al: "anyIndexLimits sizedArrayContext = False"
    by (simp add: sizedArrayContext_def desktopContext_def newParseContext_def)
  show "handleBracketDereference plainExternals loc0 (arrayNode 3) (intConstant 3)
      sizedArrayContext =
     Some (Some (IntermBinary EOpIndexDirect (arrayNode 3) (intConstant 3) floatType loc0),
           error loc0 [] ''['' arrayIndexOutOfRangeFormat [ArgInt 3] sizedArrayContext)"
    by (simp add: handleBracketDereference_def bracketResult_def variableCheck_def Let_def
        arrayNode_def intConstant_def floatArrayType_def setArraySizes_def floatType_def
        mkType_def clearQualifier_def getArraySize_def isArray_def indexOfNode_def
        getIConst_def addIndex_def dereference_def al)
  show "handleFunctionCall plainExternals loc0 lengthCall (Some (arrayNode 0)) None arrayContext =
     Some (Some (IntermConstantUnion [IConst 1] (mkType theSentinels EbtInt EvqConst 1) loc0),
           error loc0 [] ''length''
             ''array must be declared with a size before using this method'' [] arrayContext)"
    by (simp add: handleFunctionCall_def functionCallResult_def Let_def lengthCall_def
        arrayNode_def floatArrayType_def setArraySizes_def getArraySize_def
        addConstantUnion_def sa)
  show "IntermBinary EOpIndexDirect (arrayNode 3) (intConstant 3) floatType loc0
       \<noteq> recoveryNode theSentinels loc0"
    by (simp add: recoveryNode_def addConstantUnion_def)
  show "IntermConstantUnion [IConst 1] (mkType theSentinels EbtInt EvqConst 1) loc0
       \<noteq> recoveryNode theSentinels loc0"
    by (simp add: recoveryNode_def addConstantUnion_def)
qed

text \<open>The theorem at the inputs of each of its conditional parts.\<close>

theorem handlers_recover_witness:
  "(handleVariable loc0 (Some anonMember) ''b'' desktopContext =
      Some (Some (IntermBinary EOpIndexDirectStruct (IntermSymbol 9 [] structType loc0)
                    (IntermConstantUnion [UConst 1] (mkType theSentinels EbtUint EvqConst 1) loc0)
                    floatType loc0), desktopContext))
   \<and> (handleBracketDereference plainExternals loc0 floatSymbol (intConstant 0) desktopContext =
      Some (Some (recoveryNode theSentinels loc0),
        error loc0 '' left of '[' is not of type array, matrix, or vector '' ''f'' [] []
          desktopContext))
   \<and> (\<exists>ctxF. handleBracketDereference plainExternals loc0 constVec2Symbol (intConstant 0)
          desktopContext = Some (Some (recoveryNode theSentinels loc0), ctxF)
      \<and> last (emittedReasons desktopContext ctxF) = ''Cannot offset into the vector'')
   \<and> (\<exists>ctxF. handleBracketDereference plainExternals loc0 vec4Symbol intSymbol desktopContext =
        Some (Some (IntermBinary EOpIndexIndirect vec4Symbol intSymbol floatType loc0), ctxF))
   \<and> (\<exists>ctxF. handleBracketDereference plainExternals loc0 (arrayNode 3) (intConstant 5)
          sizedArrayContext =
        Some (Some (IntermBinary EOpIndexDirect (arrayNode 3) (intConstant 5) floatType loc0),
              ctxF)
      \<and> emittedFormats sizedArrayContext ctxF = [arrayIndexOutOfRangeFormat]
      \<and> numErrors ctxF = numErrors sizedArrayContext + 1)
   \<and> (\<exists>len ctxF. handleFunctionCall plainExternals loc0 lengthCall (Some (arrayNode 3)) None
          sizedArrayContext =
        Some (Some (IntermConstantUnion [IConst len] (mkType theSentinels EbtInt EvqConst 1)
                      loc0), ctxF))
   \<and> (handleFunctionCall plainExternals loc0 lengthCall (Some (arrayNode 0)) None arrayContext =
      Some (Some (IntermConstantUnion [IConst 1] (mkType theSentinels EbtInt EvqConst 1) loc0),
            error loc0 [] ''length''
              ''array must be declared with a size before using this method'' [] arrayContext))
   \<and> (handleFunctionCall plainExternals loc0 vec2Call None None desktopContext =
      Some (Some (recoveryNode theSentinels loc0),
            error loc0 ''too many arguments'' ''constructor'' [] [] desktopContext))
   \<and> (handleFunctionCall plainExternals loc0 structCall (Some structCallArguments) None
        desktopContext =
      Some (Some (recoveryNode theSentinels loc0),
            error loc0 ''cannot construct with these arguments'' [] [] [] desktopContext))
   \<and> (handleFunctionCall plainExternals loc0 undeclaredCall None None desktopContext =
      Some (Some (recoveryNode theSentinels loc0),
            error loc0 ''no matching overloaded function found'' ''g'' [] [] desktopContext))
   \<and> (handleFunctionCall plainExternals loc0 variableNameCall None None arrayContext =
      Some (Some (recoveryNode theSentinels loc0),
            error loc0 ''function name expected'' ''a'' [] [] arrayContext))
   \<and> (handleFunctionCall plainExternals loc0 sinCall (Some floatSymbol) None builtInContext =
      Some (Some (recoveryNode theSentinels loc0),
            error loc0 '' wrong operand type'' ''Internal Error''
              ''built in unary operator function.  Type: %s'' [ArgStr []] builtInContext))
   \<and> (\<exists>ctx'. variableCheck plainExternals undeclaredName desktopContext =
        (IntermSymbol 1 ''u'' floatType loc0, ctx')
      \<and> find (symbolTable ctx') ''u'' =
          Some (1, SymVariable \<lparr> varName = ''u'', varType = floatType, varConstArray = [],
                                 varUniqueId = 1 \<rparr> False)
      \<and> emittedReasons desktopContext ctx' = [''undeclared identifier''])"
proof -
  have se: "sentinels desktopContext = theSentinels"
    by (simp add: desktopContext_def newParseContext_def)
  have sa: "sentinels arrayContext = theSentinels"
    by (simp add: arrayContext_def desktopContext_def newParseContext_def)
  have ss: "sentinels sizedArrayContext = theSentinels"
    by (simp add: sizedArrayContext_def desktopContext_def newParseContext_def)
  have sb: "sentinels builtInContext = theSentinels"
    by (simp add: builtInContext_def desktopContext_def newParseContext_def)
  have nx: "nextUniqueId (symbolTable desktopContext) + 1 = 1"
    by (simp add: desktopContext_def newParseContext_def globalTable_def)
  have h_w1: "structFields (varType anonContainer) = Some [floatType, floatType]
      \<and> 1 < length [floatType, floatType]"
    by (simp add: anonContainer_def structType_def)
  have w1: "handleVariable loc0 (Some anonMember) ''b'' desktopContext =
      Some (Some (IntermBinary EOpIndexDirectStruct (IntermSymbol 9 [] structType loc0)
                    (IntermConstantUnion [UConst 1] (mkType theSentinels EbtUint EvqConst 1) loc0)
                    floatType loc0), desktopContext)"
    using handlers_recover[where v = anonContainer and members = "[floatType, floatType]" and m = 1 and an = "''b''"
      and ro = False and loc = loc0 and string = "''b''" and ctx = desktopContext,
        THEN conjunct2, THEN conjunct2, THEN conjunct2, THEN conjunct2, THEN conjunct2, THEN conjunct2, THEN conjunct1, THEN mp, OF h_w1]
    by (simp add: anonMember_def anonContainer_def addSymbol_def addConstantUnion_def se)
  have h_w2: "variableCheck plainExternals floatSymbol desktopContext = (floatSymbol, desktopContext)
      \<and> getType floatSymbol = Some floatType
      \<and> getType (intConstant 0) = Some (mkType theSentinels EbtInt EvqConst 1)
      \<and> \<not> isArray floatType \<and> \<not> isMatrix floatType \<and> \<not> isVector floatType"
    by (simp add: variableCheck_def floatSymbol_def intConstant_def floatType_def mkType_def
        clearQualifier_def isArray_def isMatrix_def isVector_def)
  have w2: "handleBracketDereference plainExternals loc0 floatSymbol (intConstant 0) desktopContext =
      Some (Some (recoveryNode theSentinels loc0),
        error loc0 '' left of '[' is not of type array, matrix, or vector '' ''f'' [] []
          desktopContext)"
    using handlers_recover[where ext = plainExternals and loc = loc0 and baseNode = floatSymbol and base = floatSymbol
      and index = "intConstant 0" and ctx = desktopContext and ctxV = desktopContext
      and bt = floatType and indexType = "mkType theSentinels EbtInt EvqConst 1",
        THEN conjunct2, THEN conjunct2, THEN conjunct2, THEN conjunct2, THEN conjunct2, THEN conjunct2, THEN conjunct2, THEN conjunct1, THEN mp, OF h_w2]
    by (simp add: se floatSymbol_def)
  have h_w3: "variableCheck plainExternals constVec2Symbol desktopContext
        = (constVec2Symbol, desktopContext)
      \<and> getType constVec2Symbol = Some (mkType theSentinels EbtFloat EvqConst 2)
      \<and> getType (intConstant 0) = Some (mkType theSentinels EbtInt EvqConst 1)
      \<and> (isArray (mkType theSentinels EbtFloat EvqConst 2)
          \<or> isMatrix (mkType theSentinels EbtFloat EvqConst 2)
          \<or> isVector (mkType theSentinels EbtFloat EvqConst 2))
      \<and> storage (qualifier (mkType theSentinels EbtFloat EvqConst 2)) = EvqConst
      \<and> storage (qualifier (mkType theSentinels EbtInt EvqConst 1)) = EvqConst
      \<and> indexOfNode (intConstant 0) = Some 0 \<and> getConstArray constVec2Symbol = None"
    by (simp add: variableCheck_def constVec2Symbol_def intConstant_def mkType_def
        clearQualifier_def isVector_def indexOfNode_def getIConst_def)
  have w3: "\<exists>ctxF. handleBracketDereference plainExternals loc0 constVec2Symbol (intConstant 0)
          desktopContext = Some (Some (recoveryNode theSentinels loc0), ctxF)
      \<and> last (emittedReasons desktopContext ctxF) = ''Cannot offset into the vector''"
    using handlers_recover[where ext = plainExternals and loc = loc0 and baseNode = constVec2Symbol
      and base = constVec2Symbol and index = "intConstant 0" and ctx = desktopContext
      and ctxV = desktopContext and bt = "mkType theSentinels EbtFloat EvqConst 2"
      and indexType = "mkType theSentinels EbtInt EvqConst 1" and k = 0,
        THEN conjunct2, THEN conjunct2, THEN conjunct2, THEN conjunct2, THEN conjunct2, THEN conjunct2, THEN conjunct2, THEN conjunct2, THEN conjunct1, THEN mp, OF h_w3]
    by (simp add: se mkType_def isArray_def isVector_def)
  have h_w4: "variableCheck plainExternals vec4Symbol desktopContext = (vec4Symbol, desktopContext)
      \<and> getType vec4Symbol = Some vec4Type \<and> getType intSymbol = Some intType
      \<and> (isArray vec4Type \<or> isMatrix vec4Type \<or> isVector vec4Type)
      \<and> storage (qualifier intType) \<noteq> EvqConst"
    by (simp add: variableCheck_def vec4Symbol_def intSymbol_def vec4Type_def intType_def
        mkType_def clearQualifier_def isVector_def)
  have w4: "\<exists>ctxF. handleBracketDereference plainExternals loc0 vec4Symbol intSymbol desktopContext =
        Some (Some (IntermBinary EOpIndexIndirect vec4Symbol intSymbol floatType loc0), ctxF)"
    using handlers_recover[where ext = plainExternals and loc = loc0 and baseNode = vec4Symbol and base = vec4Symbol
      and index = intSymbol and ctx = desktopContext and ctxV = desktopContext
      and bt = vec4Type and indexType = intType,
        THEN conjunct2, THEN conjunct2, THEN conjunct2, THEN conjunct2, THEN conjunct2, THEN conjunct2, THEN conjunct2, THEN conjunct2, THEN conjunct2, THEN conjunct1, THEN mp, OF h_w4]
    by (simp add: dereference_def vec4Type_def floatType_def mkType_def)
  have h_w5: "variableCheck plainExternals (arrayNode 3) sizedArrayContext
        = (arrayNode 3, sizedArrayContext)
      \<and> getType (arrayNode 3) = Some (floatArrayType 3)
      \<and> getType (intConstant 5) = Some (mkType theSentinels EbtInt EvqConst 1)
      \<and> getArraySize (floatArrayType 3) = Some 3 \<and> (3::int) \<noteq> 0
      \<and> storage (qualifier (floatArrayType 3)) \<noteq> EvqConst
      \<and> storage (qualifier (mkType theSentinels EbtInt EvqConst 1)) = EvqConst
      \<and> indexOfNode (intConstant 5) = Some 5 \<and> ((3::int) \<le> 5 \<or> (5::int) < 0)"
    by (simp add: variableCheck_def arrayNode_def intConstant_def floatArrayType_def
        setArraySizes_def floatType_def mkType_def clearQualifier_def getArraySize_def
        indexOfNode_def getIConst_def)
  have w5: "\<exists>ctxF. handleBracketDereference plainExternals loc0 (arrayNode 3) (intConstant 5)
          sizedArrayContext =
        Some (Some (IntermBinary EOpIndexDirect (arrayNode 3) (intConstant 5) floatType loc0),
              ctxF)
      \<and> emittedFormats sizedArrayContext ctxF = [arrayIndexOutOfRangeFormat]
      \<and> numErrors ctxF = numErrors sizedArrayContext + 1"
    using handlers_recover[where ext = plainExternals and loc = loc0 and baseNode = "arrayNode 3" and base = "arrayNode 3"
      and index = "intConstant 5" and ctx = sizedArrayContext and ctxV = sizedArrayContext
      and bt = "floatArrayType 3" and indexType = "mkType theSentinels EbtInt EvqConst 1"
      and asize = 3 and k = 5,
        THEN conjunct2, THEN conjunct2, THEN conjunct2, THEN conjunct2, THEN conjunct2, THEN conjunct2, THEN conjunct2, THEN conjunct2, THEN conjunct2, THEN conjunct2, THEN conjunct1, THEN mp, OF h_w5]
    by (simp add: dereference_def floatArrayType_def setArraySizes_def floatType_def mkType_def)
  have h_w6: "funBuiltInOp lengthCall = EOpArrayLength \<and> Some (arrayNode 3) = Some (arrayNode 3)"
    by (simp add: lengthCall_def)
  have w6: "\<exists>len ctxF. handleFunctionCall plainExternals loc0 lengthCall (Some (arrayNode 3)) None
          sizedArrayContext =
        Some (Some (IntermConstantUnion [IConst len] (mkType theSentinels EbtInt EvqConst 1)
                      loc0), ctxF)"
    using handlers_recover[where ext = plainExternals and loc = loc0 and fnCall = lengthCall
      and intermNode = "Some (arrayNode 3)" and node = "arrayNode 3"
      and intermAggregate = None and ctx = sizedArrayContext,
        THEN conjunct2, THEN conjunct2, THEN conjunct2, THEN conjunct2, THEN conjunct2, THEN conjunct2, THEN conjunct2, THEN conjunct2, THEN conjunct2, THEN conjunct2, THEN conjunct2, THEN conjunct1, THEN mp, OF h_w6]
    by (simp add: addConstantUnion_def ss)
  have h_w7: "funBuiltInOp lengthCall = EOpArrayLength \<and> funParams lengthCall = []
      \<and> Some (arrayNode 0) = Some (arrayNode 0)
      \<and> getType (arrayNode 0) = Some (floatArrayType 0)
      \<and> getArraySize (floatArrayType 0) = Some 0"
    by (simp add: lengthCall_def arrayNode_def getArraySize_def floatArrayType_def
        setArraySizes_def)
  have w7: "handleFunctionCall plainExternals loc0 lengthCall (Some (arrayNode 0)) None arrayContext =
      Some (Some (IntermConstantUnion [IConst 1] (mkType theSentinels EbtInt EvqConst 1) loc0),
            error loc0 [] ''length''
              ''array must be declared with a size before using this method'' [] arrayContext)"
    using handlers_recover[where ext = plainExternals and loc = loc0 and fnCall = lengthCall
      and intermNode = "Some (arrayNode 0)" and node = "arrayNode 0"
      and nodeType = "floatArrayType 0" and intermAggregate = None and ctx = arrayContext,
        THEN conjunct2, THEN conjunct2, THEN conjunct2, THEN conjunct2, THEN conjunct2, THEN conjunct2, THEN conjunct2, THEN conjunct2, THEN conjunct2, THEN conjunct2, THEN conjunct2, THEN conjunct2, THEN conjunct1, THEN mp, OF h_w7]
    by (simp add: addConstantUnion_def sa lengthCall_def)
  have h_w8: "funBuiltInOp vec2Call \<noteq> EOpArrayLength \<and> funBuiltInOp vec2Call \<noteq> EOpNull
      \<and> constructorError plainExternals loc0 None vec2Call (funBuiltInOp vec2Call)
            desktopContext =
          Some (True, vec2Type,
                error loc0 ''too many arguments'' ''constructor'' [] [] desktopContext)"
    by (simp add: constructorError_def Let_def vec2Call_def plainExternals_def
        floatType_def vec2Type_def mkType_def initialScan_def constructorScanStep_def
        constructingMatrix_def isMatrix_def isArray_def clearQualifier_def setStorage_def)
  have w8: "handleFunctionCall plainExternals loc0 vec2Call None None desktopContext =
      Some (Some (recoveryNode theSentinels loc0),
            error loc0 ''too many arguments'' ''constructor'' [] [] desktopContext)"
    using handlers_recover[where ext = plainExternals and loc = loc0 and fnCall = vec2Call and intermNode = None
      and intermAggregate = None and ctx = desktopContext and ct = vec2Type
      and ctxE = "error loc0 ''too many arguments'' ''constructor'' [] [] desktopContext",
        THEN conjunct2, THEN conjunct2, THEN conjunct2, THEN conjunct2, THEN conjunct2, THEN conjunct2, THEN conjunct2, THEN conjunct2, THEN conjunct2, THEN conjunct2, THEN conjunct2, THEN conjunct2, THEN conjunct2, THEN conjunct1, THEN mp, OF h_w8]
    by (simp add: se)
  have h_w9: "funBuiltInOp structCall \<noteq> EOpArrayLength \<and> funBuiltInOp structCall \<noteq> EOpNull
      \<and> constructorError plainExternals loc0 (Some structCallArguments) structCall
            (funBuiltInOp structCall) desktopContext = Some (False, structType, desktopContext)
      \<and> addConstructor plainExternals loc0 (Some structCallArguments) structType
            (funBuiltInOp structCall) desktopContext = (None, desktopContext)"
    by (simp add: constructorError_def Let_def structCall_def plainExternals_def structType_def
        floatType_def vec2Type_def mkType_def initialScan_def constructorScanStep_def
        constructingMatrix_def isMatrix_def isArray_def clearQualifier_def
        structCallArguments_def)
  have w9: "handleFunctionCall plainExternals loc0 structCall (Some structCallArguments) None
        desktopContext =
      Some (Some (recoveryNode theSentinels loc0),
            error loc0 ''cannot construct with these arguments'' [] [] [] desktopContext)"
    using handlers_recover[where ext = plainExternals and loc = loc0 and fnCall = structCall
      and intermNode = "Some structCallArguments"
      and intermAggregate = None and ctx = desktopContext and ct = structType
      and ctxE = desktopContext and ctxA = desktopContext,
        THEN conjunct2, THEN conjunct2, THEN conjunct2, THEN conjunct2, THEN conjunct2, THEN conjunct2, THEN conjunct2, THEN conjunct2, THEN conjunct2, THEN conjunct2, THEN conjunct2, THEN conjunct2, THEN conjunct2, THEN conjunct2, THEN conjunct1, THEN mp, OF h_w9]
    by (simp add: se plainExternals_def)
  have h_w10: "funBuiltInOp undeclaredCall = EOpNull
      \<and> find (symbolTable desktopContext) (funMangledName undeclaredCall) = None"
    by (simp add: undeclaredCall_def desktopContext_def newParseContext_def globalTable_def
        find_def)
  have w10: "handleFunctionCall plainExternals loc0 undeclaredCall None None desktopContext =
      Some (Some (recoveryNode theSentinels loc0),
            error loc0 ''no matching overloaded function found'' ''g'' [] [] desktopContext)"
    using handlers_recover[where ext = plainExternals and loc = loc0 and fnCall = undeclaredCall and intermNode = None
      and intermAggregate = None and ctx = desktopContext,
        THEN conjunct2, THEN conjunct2, THEN conjunct2, THEN conjunct2, THEN conjunct2, THEN conjunct2, THEN conjunct2, THEN conjunct2, THEN conjunct2, THEN conjunct2, THEN conjunct2, THEN conjunct2, THEN conjunct2, THEN conjunct2, THEN conjunct2, THEN conjunct1, THEN mp, OF h_w10]
    by (simp add: se undeclaredCall_def)
  have h_w11: "funBuiltInOp variableNameCall = EOpNull
      \<and> find (symbolTable arrayContext) (funMangledName variableNameCall) =
          Some (1, SymVariable \<lparr> varName = ''a'', varType = floatArrayType 0,
                                 varConstArray = [], varUniqueId = 5 \<rparr> False)
      \<and> getAsFunction (SymVariable \<lparr> varName = ''a'', varType = floatArrayType 0,
                                     varConstArray = [], varUniqueId = 5 \<rparr> False) = None"
    by (simp add: variableNameCall_def arrayContext_def find_def)
  have w11: "handleFunctionCall plainExternals loc0 variableNameCall None None arrayContext =
      Some (Some (recoveryNode theSentinels loc0),
            error loc0 ''function name expected'' ''a'' [] [] arrayContext)"
    using handlers_recover[where ext = plainExternals and loc = loc0 and fnCall = variableNameCall and intermNode = None
      and intermAggregate = None and ctx = arrayContext and lvl = 1
      and found = "SymVariable \<lparr> varName = ''a'', varType = floatArrayType 0,
                                  varConstArray = [], varUniqueId = 5 \<rparr> False",
        THEN conjunct2, THEN conjunct2, THEN conjunct2, THEN conjunct2, THEN conjunct2, THEN conjunct2, THEN conjunct2, THEN conjunct2, THEN conjunct2, THEN conjunct2, THEN conjunct2, THEN conjunct2, THEN conjunct2, THEN conjunct2, THEN conjunct2, THEN conjunct2, THEN conjunct1, THEN mp, OF h_w11]
    by (simp add: sa variableNameCall_def)
  have h_w12: "funBuiltInOp sinCall = EOpNull
      \<and> find (symbolTable builtInContext) (funMangledName sinCall) =
          Some (0, SymFunction sinFunction True)
      \<and> getAsFunction (SymFunction sinFunction True) = Some sinFunction
      \<and> foundBuiltIn (symbolTable builtInContext) 0 \<and> funBuiltInOp sinFunction \<noteq> EOpNull
      \<and> addBuiltInFunctionCall plainExternals loc0 (funBuiltInOp sinFunction)
            (length (funParams sinFunction) = 1) (Some floatSymbol) (funType sinFunction) = None
      \<and> Some floatSymbol = Some floatSymbol \<and> getType floatSymbol = Some floatType"
    by (simp add: sinCall_def sinFunction_def builtInContext_def find_def foundBuiltIn_def
        plainExternals_def floatSymbol_def)
  have w12: "handleFunctionCall plainExternals loc0 sinCall (Some floatSymbol) None builtInContext =
      Some (Some (recoveryNode theSentinels loc0),
            error loc0 '' wrong operand type'' ''Internal Error''
              ''built in unary operator function.  Type: %s'' [ArgStr []] builtInContext)"
    using handlers_recover[where ext = plainExternals and loc = loc0 and fnCall = sinCall
      and intermNode = "Some floatSymbol" and node = floatSymbol and nodeType = floatType
      and intermAggregate = None and ctx = builtInContext and lvl = 0
      and found = "SymFunction sinFunction True" and callee = sinFunction,
        THEN conjunct2, THEN conjunct2, THEN conjunct2, THEN conjunct2, THEN conjunct2, THEN conjunct2, THEN conjunct2, THEN conjunct2, THEN conjunct2, THEN conjunct2, THEN conjunct2, THEN conjunct2, THEN conjunct2, THEN conjunct2, THEN conjunct2, THEN conjunct2, THEN conjunct2, THEN conjunct1, THEN mp, OF h_w12]
    by (simp add: sb floatSymbol_def plainExternals_def)
  have h_w13: "basicType (mkType theSentinels EbtVoid EvqTemporary 1) = EbtVoid
      \<and> levels (symbolTable desktopContext) = [[]] @ [[]] \<and> map_of [] ''u'' = None"
    by (simp add: mkType_def desktopContext_def newParseContext_def globalTable_def)
  have w13: "\<exists>ctx'. variableCheck plainExternals undeclaredName desktopContext =
        (IntermSymbol 1 ''u'' floatType loc0, ctx')
      \<and> find (symbolTable ctx') ''u'' =
          Some (1, SymVariable \<lparr> varName = ''u'', varType = floatType, varConstArray = [],
                                 varUniqueId = 1 \<rparr> False)
      \<and> emittedReasons desktopContext ctx' = [''undeclared identifier'']"
    using handlers_recover[where ext = plainExternals and t = "mkType theSentinels EbtVoid EvqTemporary 1"
      and name = "''u''" and i = 0 and l = loc0 and below = "[[]]" and innermost = "[]"
      and ctx = desktopContext,
        THEN conjunct2, THEN conjunct2, THEN conjunct2, THEN conjunct2, THEN conjunct2, THEN conjunct2, THEN conjunct2, THEN conjunct2, THEN conjunct2, THEN conjunct2, THEN conjunct2, THEN conjunct2, THEN conjunct2, THEN conjunct2, THEN conjunct2, THEN conjunct2, THEN conjunct2, THEN conjunct2, THEN conjunct2, THEN mp, OF h_w13]
    by (simp add: se nx undeclaredName_def floatType_def)
  from w1 w2 w3 w4 w5 w6 w7 w8 w9 w10 w11 w12 w13 show ?thesis by (intro conjI)
qed

end
